(* ===== verification/Prelude.thy ===== *)
theory Prelude
  imports Complex_Main
begin

text \<open>
  Shared vocabulary of the development: the names of the model's basic types, the
  character classes and string operations of JavaScript that several components use
  (\<open>String.prototype.split\<close>, \<open>toLowerCase\<close>, a global one-character
  \<open>replace\<close>), decimal printing and parsing of numbers as the URL parser and the demo
  server need them, and the generic lemmas about them. The collections declared here
  carry the component proofs: \<open>js_string_simps\<close> holds the equations of the string
  helpers, \<open>model_defs\<close> the definitions a concrete evaluation unfolds.
\<close>

named_theorems js_string_simps "equations of the JavaScript string helpers"
named_theorems model_defs "definitions unfolded when a concrete state is evaluated"

type_synonym uri = string
type_synonym port = nat
type_synonym time = nat

text \<open>The exceptions the modelled code can raise: \<open>new URL\<close> on an invalid string
  (\<open>TypeError\<close>), a failed socket operation of Node (\<open>SystemError\<close> with its
  code), and an \<open>Error\<close> thrown by the extension with its message.\<close>

datatype js_error = TypeError | SystemError string | Error string

section \<open>Character classes\<close>

definition is_digit :: "char \<Rightarrow> bool" where
  "is_digit c \<longleftrightarrow> (48::nat) \<le> of_char c \<and> of_char c \<le> (57::nat)"

definition is_upper :: "char \<Rightarrow> bool" where
  "is_upper c \<longleftrightarrow> (65::nat) \<le> of_char c \<and> of_char c \<le> (90::nat)"

definition is_lower :: "char \<Rightarrow> bool" where
  "is_lower c \<longleftrightarrow> (97::nat) \<le> of_char c \<and> of_char c \<le> (122::nat)"

definition is_alpha :: "char \<Rightarrow> bool" where
  "is_alpha c \<longleftrightarrow> is_upper c \<or> is_lower c"

definition is_alnum :: "char \<Rightarrow> bool" where
  "is_alnum c \<longleftrightarrow> is_alpha c \<or> is_digit c"

text \<open>\<open>toLowerCase\<close> on the ASCII range (the only characters the model's strings
  compare on).\<close>

definition lower_char :: "char \<Rightarrow> char" where
  "lower_char c = (if is_upper c then char_of (of_char c + (32::nat)) else c)"

definition to_lower :: "string \<Rightarrow> string" where
  "to_lower s = map lower_char s"

declare is_digit_def [model_defs] is_upper_def [model_defs] is_lower_def [model_defs]
  is_alpha_def [model_defs] is_alnum_def [model_defs] lower_char_def [model_defs]
  to_lower_def [model_defs]

lemma of_char_lower_char_upper: "is_upper c \<Longrightarrow> of_char (lower_char c) = of_char c + (32::nat)"
  by (simp add: lower_char_def is_upper_def)

lemma is_lower_lower_char: "is_upper c \<Longrightarrow> is_lower (lower_char c)"
  using of_char_lower_char_upper [of c] by (simp add: is_lower_def is_upper_def)

lemma lower_char_not_upper [simp]: "\<not> is_upper c \<Longrightarrow> lower_char c = c"
  by (simp add: lower_char_def)

section \<open>String operations of JavaScript\<close>

text \<open>\<open>s.split(c)[0]\<close>: the prefix before the first occurrence of \<open>c\<close>.\<close>

definition split_first :: "char \<Rightarrow> string \<Rightarrow> string" where
  "split_first c s = takeWhile (\<lambda>x. x \<noteq> c) s"

text \<open>\<open>s.replace(/c/g, r)\<close> for a one-character pattern: every occurrence of
  \<open>c\<close>, left to right, replaced by \<open>r\<close>.\<close>

definition replace_char :: "char \<Rightarrow> string \<Rightarrow> string \<Rightarrow> string" where
  "replace_char c r s = concat (map (\<lambda>x. if x = c then r else [x]) s)"

text \<open>\<open>s.endsWith(t)\<close>.\<close>

definition ends_with :: "string \<Rightarrow> string \<Rightarrow> bool" where
  "ends_with s t \<longleftrightarrow> length t \<le> length s \<and> drop (length s - length t) s = t"

lemma replace_char_Nil [simp, js_string_simps]: "replace_char c r [] = []"
  by (simp add: replace_char_def)

lemma replace_char_Cons [simp, js_string_simps]:
  "replace_char c r (x # s) = (if x = c then r @ replace_char c r s else x # replace_char c r s)"
  by (simp add: replace_char_def)

lemma replace_char_append [simp, js_string_simps]:
  "replace_char c r (s @ t) = replace_char c r s @ replace_char c r t"
  by (simp add: replace_char_def)

lemma replace_char_absent: "c \<notin> set s \<Longrightarrow> replace_char c r s = s"
  by (induction s) auto

lemma set_replace_char:
  "set (replace_char c r s) = (set s - {c}) \<union> (if c \<in> set s then set r else {})"
  by (induction s) auto

lemma split_first_no_sep: "c \<notin> set (split_first c s)"
  unfolding split_first_def by (induction s) auto

lemma split_first_absent [simp]: "c \<notin> set s \<Longrightarrow> split_first c s = s"
  unfolding split_first_def by (induction s) auto

lemma split_first_append_sep [simp]:
  "c \<notin> set s \<Longrightarrow> split_first c (s @ c # t) = s"
  unfolding split_first_def by (induction s) auto

section \<open>Lists\<close>

text \<open>A loop that appends one piece per index, and the length of its result.\<close>

lemma foldl_append_map: "foldl (\<lambda>t i. t @ f i) acc xs = acc @ concat (map f xs)"
  by (induction xs arbitrary: acc) auto

lemma fold_preserve: "P s \<Longrightarrow> (\<And>x s. P s \<Longrightarrow> P (f x s)) \<Longrightarrow> P (fold f xs s)"
  by (induction xs arbitrary: s) auto

lemma length_concat_map_1:
  "(\<forall>x \<in> set xs. length (f x) = 1) \<Longrightarrow> length (concat (map f xs)) = length xs"
  by (induction xs) auto

text \<open>A template literal spanning several lines: the lines joined by newlines.\<close>

fun join_lines :: "string list \<Rightarrow> string" where
  "join_lines [] = []"
| "join_lines [l] = l"
| "join_lines (l # ls) = l @ CHR 0x0A # join_lines ls"

text \<open>\<open>s.split(c)\<close> of JavaScript: the pieces between the occurrences of \<open>c\<close>, the
  empty ones included; the empty string gives one empty piece.\<close>

fun split_on :: "char \<Rightarrow> string \<Rightarrow> string list" where
  "split_on c [] = [[]]"
| "split_on c (x # xs) =
     (if x = c then [] # split_on c xs
      else (case split_on c xs of p # ps \<Rightarrow> (x # p) # ps | [] \<Rightarrow> [[x]]))"

section \<open>Decimal numbers\<close>

text \<open>The decimal digits of a number, most significant first, as
  \<open>String(n)\<close> and a template literal print it.\<close>

fun decimal :: "nat \<Rightarrow> string" where
  "decimal n = (if n < 10 then [char_of (48 + n)]
                else decimal (n div 10) @ [char_of (48 + n mod 10)])"

declare decimal.simps [simp del]

definition digit_val :: "char \<Rightarrow> nat" where
  "digit_val c = of_char c - 48"

text \<open>Reading a run of decimal digits; \<open>None\<close> for an empty string or any other
  character.\<close>

fun digits_acc :: "nat \<Rightarrow> string \<Rightarrow> nat" where
  "digits_acc acc [] = acc"
| "digits_acc acc (c # cs) = digits_acc (10 * acc + digit_val c) cs"

definition parse_decimal :: "string \<Rightarrow> nat option" where
  "parse_decimal s = (if s \<noteq> [] \<and> list_all is_digit s then Some (digits_acc 0 s) else None)"

declare digit_val_def [model_defs] parse_decimal_def [model_defs]

lemma is_digit_char_of: "d < 10 \<Longrightarrow> is_digit (char_of (48 + d :: nat))"
  by (simp add: is_digit_def)

lemma digit_val_char_of [simp]: "d < 10 \<Longrightarrow> digit_val (char_of (48 + d :: nat)) = d"
  by (simp add: digit_val_def)

lemma decimal_digits: "list_all is_digit (decimal n)"
proof (induction n rule: decimal.induct)
  case (1 n)
  then show ?case
    by (subst decimal.simps) (auto intro: is_digit_char_of)
qed

lemma char_of_nat_eq_iff: "char_of (n::nat) = c \<longleftrightarrow> n mod 256 = of_char c"
  by (metis of_char_eq_iff of_char_of)

lemma decimal_nonempty [simp]: "decimal n \<noteq> []"
  by (subst decimal.simps) simp

lemma digits_acc_append: "digits_acc acc (s @ t) = digits_acc (digits_acc acc s) t"
  by (induction s arbitrary: acc) auto

lemma digits_acc_decimal: "digits_acc 0 (decimal n) = n"
proof (induction n rule: decimal.induct)
  case (1 n)
  show ?case
  proof (cases "n < 10")
    case True
    then show ?thesis by (subst decimal.simps) simp
  next
    case False
    then have "digits_acc 0 (decimal n) = 10 * digits_acc 0 (decimal (n div 10)) + n mod 10"
      by (subst decimal.simps) (simp add: digits_acc_append)
    with False "1.IH" show ?thesis by simp
  qed
qed

lemma parse_decimal_decimal [simp]: "parse_decimal (decimal n) = Some n"
  by (simp add: parse_decimal_def decimal_digits digits_acc_decimal)

lemma set_decimal_digits: "c \<in> set (decimal n) \<Longrightarrow> is_digit c"
  using decimal_digits [of n] by (simp add: list_all_iff)

lemma takeWhile_decimal_append:
  "(\<And>c. is_digit c \<Longrightarrow> P c) \<Longrightarrow> takeWhile P (decimal n @ ys) = decimal n @ takeWhile P ys"
  by (rule takeWhile_append2) (auto dest: set_decimal_digits)

lemma filter_decimal:
  "(\<And>c. is_digit c \<Longrightarrow> P c) \<Longrightarrow> filter P (decimal n) = decimal n"
  by (rule filter_True) (auto dest: set_decimal_digits)

section \<open>Maps\<close>

text \<open>The registry and the host's tables are maps; these facts about updates and
  deletions are used by every invariant proof over them.\<close>

lemma map_upd_Some_iff [simp]:
  "((m(k \<mapsto> v)) k' = Some v') \<longleftrightarrow> (if k' = k then v' = v else m k' = Some v')"
  by auto

lemma map_del_Some_iff [simp]:
  "((m(k := None)) k' = Some v') \<longleftrightarrow> (k' \<noteq> k \<and> m k' = Some v')"
  by auto

end
