(* ===== verification/Debounce.thy ===== *)
theory Debounce
  imports Prelude
begin

text \<open>
  The change streamer's timing, \<open>debounce\<close> of \<open>src/src/extension.ts\<close> (lines
  260--266), over a model of Node's timers. The timer table is a record: the loop's clock
  in milliseconds, the pending timers in creation order (identifier, due time, callback)
  and the next identifier. \<open>setTimeout\<close> follows Node's coercion of the delay: a delay
  below 1 or above \<open>TIMEOUT_MAX\<close> (\<open>2^31 - 1\<close>) becomes 1 ms. The debounced
  function's closure state is its \<open>timer\<close> variable, \<open>nat option\<close>.

  A single debouncer is then driven as the extension drives it: \<open>deb_change\<close> is one
  document change (the version grows, the debounced function is called), \<open>deb_fire_upto\<close>
  lets the idle loop run the timer that is due by a given time, whose callback sends the
  version current at that moment. \<open>feed\<close> runs a list of change times and \<open>drain\<close> lets
  the last timer fire; the lemmas show that a burst of changes closer together than the
  delay sends once, the last version, and that changes further apart send each version.
\<close>

record 'cb timers =
  clock :: time
  pending :: "(nat \<times> time \<times> 'cb) list"
  next_id :: nat

section \<open>Node's timers\<close>

definition TIMEOUT_MAX :: int where
  "TIMEOUT_MAX = 2147483647"

text \<open>\<open>after *= 1; if (!(after >= 1 && after <= TIMEOUT_MAX)) after = 1\<close>.\<close>

definition node_delay :: "int \<Rightarrow> nat" where
  "node_delay d = (if 1 \<le> d \<and> d \<le> TIMEOUT_MAX then nat d else 1)"

definition setTimeout :: "'cb \<Rightarrow> int \<Rightarrow> 'cb timers \<Rightarrow> nat \<times> 'cb timers" where
  "setTimeout cb d ts =
     (next_id ts,
      ts\<lparr>pending := pending ts @ [(next_id ts, clock ts + node_delay d, cb)],
         next_id := Suc (next_id ts)\<rparr>)"

definition clearTimeout :: "nat \<Rightarrow> 'cb timers \<Rightarrow> 'cb timers" where
  "clearTimeout i ts = ts\<lparr>pending := filter (\<lambda>(j, _, _). j \<noteq> i) (pending ts)\<rparr>"

text \<open>The timer the loop runs next once the clock has reached \<open>t\<close>: the earliest due
  among those due by \<open>t\<close>, the first created among equals; it leaves the table.\<close>

definition take_due :: "time \<Rightarrow> 'cb timers \<Rightarrow> ((nat \<times> 'cb) \<times> 'cb timers) option" where
  "take_due t ts =
     (let due = filter (\<lambda>(_, dl, _). dl \<le> t) (pending ts) in
      if due = [] then None
      else let m = Min (set (map (\<lambda>(_, dl, _). dl) due));
               (i, dl, cb) = hd (filter (\<lambda>(_, dl, _). dl = m) due)
           in Some ((i, cb), ts\<lparr>pending := filter (\<lambda>(j, _, _). j \<noteq> i) (pending ts)\<rparr>))"

section \<open>\<open>debounce\<close>\<close>

text \<open>Lines 262--265: \<open>if (timer) clearTimeout(timer); timer = setTimeout(...)\<close>.\<close>

definition debounce_call :: "nat option \<Rightarrow> 'cb \<Rightarrow> int \<Rightarrow> 'cb timers \<Rightarrow> nat option \<times> 'cb timers" where
  "debounce_call timer cb delayMs ts =
     (let ts1 = (case timer of Some i \<Rightarrow> clearTimeout i ts | None \<Rightarrow> ts);
          (i, ts2) = setTimeout cb delayMs ts1
      in (Some i, ts2))"

declare TIMEOUT_MAX_def [model_defs] node_delay_def [model_defs] setTimeout_def [model_defs]
  clearTimeout_def [model_defs] take_due_def [model_defs] debounce_call_def [model_defs]

section \<open>One debouncer driven by document changes\<close>

record deb =
  dtimers :: "unit timers"
  dtimer :: "nat option"
  version :: nat
  sent :: "nat list"

text \<open>A change at time \<open>t\<close>: the document's version grows and the listener calls the
  debounced function.\<close>

definition deb_change :: "int \<Rightarrow> time \<Rightarrow> deb \<Rightarrow> deb" where
  "deb_change d t s =
     (let s1 = s\<lparr>dtimers := (dtimers s)\<lparr>clock := t\<rparr>, version := Suc (version s)\<rparr>;
          (tm, ts) = debounce_call (dtimer s1) () d (dtimers s1)
      in s1\<lparr>dtimer := tm, dtimers := ts\<rparr>)"

text \<open>The loop reaching time \<open>t\<close>: the timer due by then fires and its callback posts
  the version current at that moment.\<close>

definition deb_fire_upto :: "time \<Rightarrow> deb \<Rightarrow> deb" where
  "deb_fire_upto t s =
     (case take_due t (dtimers s) of
        None \<Rightarrow> s
      | Some (_, ts) \<Rightarrow> s\<lparr>dtimers := ts, sent := sent s @ [version s]\<rparr>)"

text \<open>The loop runs every timer due by \<open>t\<close>, one callback per turn. Each turn that
  runs a callback removes its timer, so as many turns as there are pending timers are
  enough: the fuel of \<open>fire_n\<close>.\<close>

fun fire_n :: "nat \<Rightarrow> time \<Rightarrow> deb \<Rightarrow> deb" where
  "fire_n 0 t s = s"
| "fire_n (Suc n) t s = fire_n n t (deb_fire_upto t s)"

definition run_until :: "time \<Rightarrow> deb \<Rightarrow> deb" where
  "run_until t s = fire_n (length (pending (dtimers s))) t s"

fun feed :: "int \<Rightarrow> deb \<Rightarrow> time list \<Rightarrow> deb" where
  "feed d s [] = s"
| "feed d s (t # ts) = feed d (deb_change d t (run_until t s)) ts"

definition latest_due :: "deb \<Rightarrow> time" where
  "latest_due s = foldr (\<lambda>(_, dl, _) m. max dl m) (pending (dtimers s)) 0"

definition drain :: "deb \<Rightarrow> deb" where
  "drain s = run_until (latest_due s) s"

declare deb_change_def [model_defs] deb_fire_upto_def [model_defs] latest_due_def [model_defs]
  run_until_def [model_defs] drain_def [model_defs]

text \<open>The closure's invariant: at most the timer it last set is pending.\<close>
definition deb_idle_or_one :: "deb \<Rightarrow> bool" where
  "deb_idle_or_one s \<longleftrightarrow>
     pending (dtimers s) = [] \<or> (\<exists>i dl. dtimer s = Some i \<and> pending (dtimers s) = [(i, dl, ())])"

text \<open>The promise of a trailing-edge debounce with delay \<open>D\<close>, for changes at the
  given times carrying versions \<open>v, v + 1, ...\<close>: a version is sent exactly when no
  further change comes within \<open>D\<close> of it, and the last one always is.\<close>

fun quiet_sends :: "nat \<Rightarrow> nat \<Rightarrow> time list \<Rightarrow> nat list" where
  "quiet_sends D v [] = []"
| "quiet_sends D v [t] = [v]"
| "quiet_sends D v (t # t' # ts) = (if t + D \<le> t' then [v] else []) @ quiet_sends D (Suc v) (t' # ts)"

definition deb_init :: deb where
  "deb_init = \<lparr>dtimers = \<lparr>clock = 0, pending = [], next_id = 1\<rparr>, dtimer = None, version = 0, sent = []\<rparr>"

section \<open>Properties\<close>

lemma take_due_Nil: "pending ts = [] \<Longrightarrow> take_due t ts = None"
  by (simp add: take_due_def)

lemma take_due_single:
  "pending ts = [(i, dl, c)] \<Longrightarrow>
   take_due t ts = (if dl \<le> t then Some ((i, c), ts\<lparr>pending := []\<rparr>) else None)"
  by (simp add: take_due_def)

lemma deb_change_one:
  assumes "deb_idle_or_one s"
  shows "pending (dtimers (deb_change d t s)) = [(next_id (dtimers s), t + node_delay d, ())] \<and>
         dtimer (deb_change d t s) = Some (next_id (dtimers s)) \<and>
         next_id (dtimers (deb_change d t s)) = Suc (next_id (dtimers s)) \<and>
         version (deb_change d t s) = Suc (version s) \<and> sent (deb_change d t s) = sent s"
  using assms
  by (cases "dtimer s")
     (auto simp: deb_idle_or_one_def deb_change_def debounce_call_def setTimeout_def clearTimeout_def Let_def)

lemma deb_fire_upto_idle: "pending (dtimers s) = [] \<Longrightarrow> deb_fire_upto t s = s"
  by (simp add: deb_fire_upto_def take_due_Nil)

lemma deb_fire_upto_one:
  assumes "pending (dtimers s) = [(i, dl, ())]"
  shows "deb_fire_upto t s =
           (if dl \<le> t then s\<lparr>dtimers := (dtimers s)\<lparr>pending := []\<rparr>, sent := sent s @ [version s]\<rparr> else s)"
  using assms by (simp add: deb_fire_upto_def take_due_single)

lemma fire_n_idle: "pending (dtimers s) = [] \<Longrightarrow> fire_n n t s = s"
  by (induction n) (simp_all add: deb_fire_upto_idle)

lemma run_until_idle: "pending (dtimers s) = [] \<Longrightarrow> run_until t s = s"
  by (simp add: run_until_def)

lemma run_until_one:
  assumes "pending (dtimers s) = [(i, dl, ())]"
  shows "run_until t s =
           (if dl \<le> t then s\<lparr>dtimers := (dtimers s)\<lparr>pending := []\<rparr>, sent := sent s @ [version s]\<rparr> else s)"
proof (cases "dl \<le> t")
  case True
  then show ?thesis using assms by (simp add: run_until_def deb_fire_upto_one fire_n_idle)
next
  case False
  then show ?thesis using assms by (simp add: run_until_def deb_fire_upto_one)
qed

lemma latest_due_one: "pending (dtimers s) = [(i, dl, c)] \<Longrightarrow> latest_due s = dl"
  by (simp add: latest_due_def)

lemma node_delay_in_range: "1 \<le> d \<Longrightarrow> d \<le> TIMEOUT_MAX \<Longrightarrow> node_delay d = nat d"
  by (simp add: node_delay_def)

lemma feed_first_change:
  assumes "pending (dtimers s) = []"
  shows "pending (dtimers (deb_change d t (run_until t s))) = [(next_id (dtimers s), t + node_delay d, ())] \<and>
         dtimer (deb_change d t (run_until t s)) = Some (next_id (dtimers s)) \<and>
         version (deb_change d t (run_until t s)) = Suc (version s) \<and>
         sent (deb_change d t (run_until t s)) = sent s"
  using assms deb_change_one [of s d t] by (simp add: run_until_idle deb_idle_or_one_def)

lemma drain_one:
  assumes "pending (dtimers s) = [(i, dl, ())]"
  shows "sent (drain s) = sent s @ [version s]"
  using assms by (simp add: drain_def latest_due_one run_until_one)

lemma feed_quiet:
  assumes "pending (dtimers s) = [(i, tp + node_delay d, ())]" "dtimer s = Some i"
  shows "sent (drain (feed d s ts)) = sent s @ quiet_sends (node_delay d) (version s) (tp # ts)"
  using assms
proof (induction ts arbitrary: s i tp)
  case Nil
  then show ?case by (simp add: drain_one)
next
  case (Cons t ts)
  let ?f = "run_until t s"
  let ?s' = "deb_change d t ?f"
  have f: "deb_idle_or_one ?f" "version ?f = version s"
    "sent ?f = sent s @ (if tp + node_delay d \<le> t then [version s] else [])"
    using Cons.prems by (simp_all add: run_until_one deb_idle_or_one_def)
  from deb_change_one [OF f(1), of d t]
  obtain j where "pending (dtimers ?s') = [(j, t + node_delay d, ())]" "dtimer ?s' = Some j"
    "version ?s' = Suc (version s)" "sent ?s' = sent ?f"
    using f(2) by auto
  from Cons.IH [OF this(1,2)] this(3,4) f(3) show ?case by simp
qed

lemma take_due_None_iff:
  "take_due t ts = None \<longleftrightarrow> filter (\<lambda>(_, dl, _). dl \<le> t) (pending ts) = []"
  by (simp add: take_due_def Let_def split: prod.split)

lemma take_due_Some:
  assumes "take_due t ts = Some ((i, cb), ts')"
  shows "pending ts' = filter (\<lambda>(j, _, _). j \<noteq> i) (pending ts) \<and> (\<exists>dl. (i, dl, cb) \<in> set (pending ts))"
proof -
  let ?due = "filter (\<lambda>(_, dl, _). dl \<le> t) (pending ts)"
  let ?m = "Min (set (map (\<lambda>(_, dl, _). dl) ?due))"
  have ne: "?due \<noteq> []" using assms by (auto simp: take_due_def Let_def)
  from ne obtain x where "x \<in> set ?due" by (metis list.set_sel(1))
  then have "(\<lambda>(_, dl, _). dl) x \<in> set (map (\<lambda>(_, dl, _). dl) ?due)" unfolding set_map by (rule imageI)
  then have "?m \<in> set (map (\<lambda>(_, dl, _). dl) ?due)" by (intro Min_in) auto
  then have "filter (\<lambda>(_, dl, _). dl = ?m) ?due \<noteq> []" by (fastforce simp: filter_empty_conv)
  then have hd_in: "hd (filter (\<lambda>(_, dl, _). dl = ?m) ?due) \<in> set (pending ts)"
    using hd_in_set by fastforce
  obtain i' dl' cb' where h: "hd (filter (\<lambda>(_, dl, _). dl = ?m) ?due) = (i', dl', cb')"
    by (metis prod.collapse)
  from assms ne h have "i = i'" "cb = cb'" "pending ts' = filter (\<lambda>(j, _, _). j \<noteq> i) (pending ts)"
    by (auto simp: take_due_def Let_def)
  with hd_in h show ?thesis by auto
qed

lemma fire_n_stuck: "take_due t (dtimers s) = None \<Longrightarrow> fire_n n t s = s"
  by (induction n) (simp_all add: deb_fire_upto_def)

lemma fire_n_clears:
  "length (pending (dtimers s)) \<le> n \<Longrightarrow> filter (\<lambda>(_, dl, _). dl \<le> t) (pending (dtimers (fire_n n t s))) = []"
proof (induction n arbitrary: s)
  case 0
  then show ?case by simp
next
  case (Suc n)
  show ?case
  proof (cases "take_due t (dtimers s)")
    case None
    then show ?thesis by (simp add: fire_n_stuck deb_fire_upto_def take_due_None_iff del: fire_n.simps)
  next
    case (Some r)
    obtain i cb ts' where r: "r = ((i, cb), ts')" by (metis prod.collapse)
    from take_due_Some [of t "dtimers s" i cb ts'] Some r
    obtain dl c where p: "pending ts' = filter (\<lambda>(j, _, _). j \<noteq> i) (pending (dtimers s))"
      and m: "(i, dl, c) \<in> set (pending (dtimers s))" by blast
    have "length (pending ts') < length (pending (dtimers s))"
      unfolding p using m by (intro length_filter_less) auto
    with Suc.prems have "length (pending (dtimers (deb_fire_upto t s))) \<le> n"
      using Some r by (simp add: deb_fire_upto_def)
    from Suc.IH [OF this] show ?thesis by simp
  qed
qed

text \<open>The fuel of \<open>run_until\<close> is enough: every turn that runs a callback removes a
  timer, so as many turns as there are pending timers leave no timer due.\<close>

lemma run_until_no_due: "filter (\<lambda>(_, dl, _). dl \<le> t) (pending (dtimers (run_until t s))) = []"
  unfolding run_until_def by (rule fire_n_clears) simp


section \<open>Claims\<close>

text \<open>C3: The debounced sender refines the trailing-edge debounce: for any times of
  document changes and any delay Node accepts, the versions it sends once the loop has
  run every timer are exactly those that no further change follows within the delay, the
  last one included, in order.\<close>

theorem debounce_refines_quiet_sends:
  assumes "1 \<le> d" "d \<le> TIMEOUT_MAX" "pending (dtimers s) = []"
  shows "sent (drain (feed d s (t # ts))) = sent s @ quiet_sends (nat d) (Suc (version s)) (t # ts)"
proof -
  let ?s1 = "deb_change d t (run_until t s)"
  have D: "node_delay d = nat d" using assms(1,2) by (rule node_delay_in_range)
  have s1: "pending (dtimers ?s1) = [(next_id (dtimers s), t + node_delay d, ())]"
    "dtimer ?s1 = Some (next_id (dtimers s))" "version ?s1 = Suc (version s)" "sent ?s1 = sent s"
    using feed_first_change [OF assms(3)] by auto
  from feed_quiet [OF s1(1,2), of ts] s1(3,4) D show ?thesis by simp
qed

theorem debounce_refines_quiet_sends_witness:
  "1 \<le> (300::int) \<and> 300 \<le> TIMEOUT_MAX \<and> pending (dtimers deb_init) = [] \<and>
   sent (drain (feed 300 deb_init [0, 100, 200, 250, 700, 1100])) = [4, 5, 6]"
proof -
  have h: "1 \<le> (300::int)" "300 \<le> TIMEOUT_MAX" "pending (dtimers deb_init) = []"
    by (simp_all add: TIMEOUT_MAX_def deb_init_def)
  from debounce_refines_quiet_sends [OF h, of 0 "[100, 200, 250, 700, 1100]"] h
  show ?thesis by (simp add: deb_init_def)
qed

lemma node_delay_oversized: "TIMEOUT_MAX < d \<Longrightarrow> node_delay d = 1"
  by (simp add: node_delay_def)

text \<open>C20: A configured delay above Node's \<open>TIMEOUT_MAX\<close> is not honoured: line 52
  clamps \<open>debounceMs\<close> only from below, and for every such delay and every sequence of
  changes the debounced sender sends exactly what a trailing-edge debounce with a 1 ms
  window sends, so changes inside the configured window are not coalesced.\<close>

theorem debounce_oversized_delay_is_1ms:
  assumes "TIMEOUT_MAX < d" "pending (dtimers s) = []"
  shows "sent (drain (feed d s (t # ts))) = sent s @ quiet_sends 1 (Suc (version s)) (t # ts)"
proof -
  let ?s1 = "deb_change d t (run_until t s)"
  have D: "node_delay d = 1" using assms(1) by (rule node_delay_oversized)
  have s1: "pending (dtimers ?s1) = [(next_id (dtimers s), t + node_delay d, ())]"
    "dtimer ?s1 = Some (next_id (dtimers s))" "version ?s1 = Suc (version s)" "sent ?s1 = sent s"
    using feed_first_change [OF assms(2)] by auto
  from feed_quiet [OF s1(1,2), of ts] s1(3,4) D show ?thesis by simp
qed

theorem debounce_oversized_delay_is_1ms_witness:
  "TIMEOUT_MAX < TIMEOUT_MAX + 1 \<and> pending (dtimers deb_init) = [] \<and>
   sent (drain (feed (TIMEOUT_MAX + 1) deb_init [0, 10])) = [1, 2]"
proof -
  have h: "TIMEOUT_MAX < TIMEOUT_MAX + 1" "pending (dtimers deb_init) = []"
    by (simp_all add: deb_init_def)
  from debounce_oversized_delay_is_1ms [OF h, of 0 "[10]"] h
  show ?thesis by (simp add: deb_init_def)
qed

end
