(* ===== verification/Html.thy ===== *)
theory Html
  imports Prelude
begin

text \<open>
  The string helpers the webview builder of \<open>src/src/extension.ts\<close> uses when it
  interpolates values into markup: \<open>escapeHtml\<close> (lines 275--282), the five chained
  global replacements; \<open>getNonce\<close> (lines 268--273), 32 characters drawn from a
  62-letter alphabet with \<open>Math.random\<close>; and \<open>JSON.stringify\<close> on a string, the
  runtime's quoting that line 214 relies on. The lemmas show that the chained replacements
  equal a one-pass character escape, that the result holds no markup delimiter, that an
  HTML parser's character-reference decoding gives the input back, and that a nonce is
  32 alphanumeric characters whenever the random source stays in \<open>[0, 1)\<close>.
\<close>

section \<open>\<open>escapeHtml\<close>\<close>

text \<open>Lines 276--281: \<open>&\<close> first, then \<open><\<close>, \<open>>\<close>, \<open>"\<close> and \<open>'\<close>.\<close>

definition escapeHtml :: "string \<Rightarrow> string" where
  "escapeHtml input =
     replace_char (CHR 0x27) ''&#039;''
       (replace_char (CHR 0x22) ''&quot;''
         (replace_char (CHR ''>'') ''&gt;''
           (replace_char (CHR ''<'') ''&lt;''
             (replace_char (CHR ''&'') ''&amp;'' input))))"

text \<open>The reference: one pass, each character replaced by its escape.\<close>

definition esc_char :: "char \<Rightarrow> string" where
  "esc_char c =
     (if c = CHR ''&'' then ''&amp;''
      else if c = CHR ''<'' then ''&lt;''
      else if c = CHR ''>'' then ''&gt;''
      else if c = CHR 0x22 then ''&quot;''
      else if c = CHR 0x27 then ''&#039;''
      else [c])"

definition escape_ref :: "string \<Rightarrow> string" where
  "escape_ref s = concat (map esc_char s)"

text \<open>Character-reference decoding of the five entities, as an HTML parser reads an
  attribute value or text; any other \<open>&\<close> is kept.\<close>

function html_unescape :: "string \<Rightarrow> string" where
  "html_unescape [] = []"
| "html_unescape (c # s) =
     (if c = CHR ''&'' \<and> take 4 s = ''amp;'' then CHR ''&'' # html_unescape (drop 4 s)
      else if c = CHR ''&'' \<and> take 3 s = ''lt;'' then CHR ''<'' # html_unescape (drop 3 s)
      else if c = CHR ''&'' \<and> take 3 s = ''gt;'' then CHR ''>'' # html_unescape (drop 3 s)
      else if c = CHR ''&'' \<and> take 5 s = ''quot;'' then CHR 0x22 # html_unescape (drop 5 s)
      else if c = CHR ''&'' \<and> take 5 s = ''#039;'' then CHR 0x27 # html_unescape (drop 5 s)
      else c # html_unescape s)"
  by pat_completeness auto
termination
  by (relation "measure length") auto

section \<open>\<open>getNonce\<close>\<close>

definition nonce_alphabet :: string where
  "nonce_alphabet = ''ABCDEFGHIJKLMNOPQRSTUVWXYZabcdefghijklmnopqrstuvwxyz0123456789''"

text \<open>\<open>String.prototype.charAt\<close>: the empty string out of range.\<close>

definition char_at :: "string \<Rightarrow> int \<Rightarrow> string" where
  "char_at s pos = (if 0 \<le> pos \<and> pos < int (length s) then [s ! nat pos] else [])"

text \<open>Line 271, with \<open>rnd i\<close> the value of the \<open>i\<close>-th call of \<open>Math.random()\<close>.\<close>

definition getNonce :: "(nat \<Rightarrow> real) \<Rightarrow> string" where
  "getNonce rnd =
     foldl (\<lambda>text i. text @ char_at nonce_alphabet \<lfloor>rnd i * real (length nonce_alphabet)\<rfloor>)
       [] [0..<32]"

section \<open>\<open>JSON.stringify\<close> of a string\<close>

text \<open>QuoteJSONString of ECMA-262 on the byte-level strings of the model: quotes and
  backslashes escaped, the control characters by their short or \<open>\u00XX\<close> forms.\<close>

definition hex_digit :: "nat \<Rightarrow> char" where
  "hex_digit n = (if n < 10 then char_of (48 + n) else char_of (87 + n))"

definition json_char :: "char \<Rightarrow> string" where
  "json_char c =
     (if c = CHR 0x22 then [CHR 0x5C, CHR 0x22]
      else if c = CHR 0x5C then [CHR 0x5C, CHR 0x5C]
      else if c = CHR 0x08 then [CHR 0x5C, CHR ''b'']
      else if c = CHR 0x0C then [CHR 0x5C, CHR ''f'']
      else if c = CHR 0x0A then [CHR 0x5C, CHR ''n'']
      else if c = CHR 0x0D then [CHR 0x5C, CHR ''r'']
      else if c = CHR 0x09 then [CHR 0x5C, CHR ''t'']
      else if of_char c < (32::nat)
        then [CHR 0x5C, CHR ''u'', CHR ''0'', CHR ''0'', hex_digit (of_char c div 16), hex_digit (of_char c mod 16)]
      else [c])"

definition json_stringify :: "string \<Rightarrow> string" where
  "json_stringify s = CHR 0x22 # concat (map json_char s) @ [CHR 0x22]"

declare escapeHtml_def [model_defs] esc_char_def [model_defs] escape_ref_def [model_defs]
  nonce_alphabet_def [model_defs] char_at_def [model_defs] getNonce_def [model_defs]
  json_char_def [model_defs] json_stringify_def [model_defs]

section \<open>Properties\<close>


lemma escapeHtml_Cons: "escapeHtml (c # s) = esc_char c @ escapeHtml s"
  by (simp add: escapeHtml_def esc_char_def)

lemma escapeHtml_eq_ref: "escapeHtml s = escape_ref s"
  by (induction s) (simp_all add: escapeHtml_Cons escape_ref_def, simp add: escapeHtml_def)

lemma esc_char_no_delims: "x \<in> set (esc_char c) \<Longrightarrow> x \<notin> {CHR ''<'', CHR ''>'', CHR 0x22, CHR 0x27}"
  by (auto simp: esc_char_def split: if_splits)

lemma html_unescape_esc_char: "html_unescape (esc_char c @ s) = c # html_unescape s"
  by (simp add: esc_char_def)

lemma html_unescape_escape_ref: "html_unescape (escape_ref s) = s"
  by (induction s) (simp_all add: escape_ref_def html_unescape_esc_char)

lemma char_at_length: "0 \<le> pos \<Longrightarrow> pos < int (length s) \<Longrightarrow> length (char_at s pos) = 1"
  by (simp add: char_at_def)

lemma set_char_at: "set (char_at s pos) \<subseteq> set s"
  by (auto simp: char_at_def)

lemma alphabet_alnum: "\<forall>c \<in> set nonce_alphabet. is_alnum c"
  by (simp add: nonce_alphabet_def is_alnum_def is_alpha_def is_upper_def is_lower_def is_digit_def)

lemma getNonce_alnum: "\<forall>c \<in> set (getNonce rnd). is_alnum c"
  using set_char_at alphabet_alnum by (fastforce simp: getNonce_def foldl_append_map)

lemma floor_index_bound:
  assumes "0 \<le> r" "r < 1" "0 < n" shows "0 \<le> \<lfloor>r * real (n::nat)\<rfloor> \<and> \<lfloor>r * real n\<rfloor> < int n"
proof -
  have "r * real n < real n" using assms by simp
  then show ?thesis using assms by (simp add: floor_less_iff)
qed

lemma getNonce_length:
  assumes "\<forall>i < 32. 0 \<le> rnd i \<and> rnd i < 1"
  shows "length (getNonce rnd) = 32"
proof -
  have "\<forall>i \<in> set [0..<32]. length (char_at nonce_alphabet \<lfloor>rnd i * real (length nonce_alphabet)\<rfloor>) = 1"
  proof
    fix i assume "i \<in> set [0..<32]"
    with assms have "0 \<le> rnd i" "rnd i < 1" by auto
    from floor_index_bound [OF this, of "length nonce_alphabet"]
    show "length (char_at nonce_alphabet \<lfloor>rnd i * real (length nonce_alphabet)\<rfloor>) = 1"
      by (intro char_at_length) (simp_all add: nonce_alphabet_def)
  qed
  then have "length (concat (map (\<lambda>i. char_at nonce_alphabet \<lfloor>rnd i * real (length nonce_alphabet)\<rfloor>) [0..<32]))
             = length [0..<(32::nat)]"
    by (rule length_concat_map_1)
  then show ?thesis by (simp add: getNonce_def foldl_append_map)
qed

lemma json_char_plain:
  assumes "c \<noteq> CHR 0x22" "c \<noteq> CHR 0x5C" "(32::nat) \<le> of_char c"
  shows "json_char c = [c]"
proof -
  have "c \<noteq> CHR 0x08 \<and> c \<noteq> CHR 0x0C \<and> c \<noteq> CHR 0x0A \<and> c \<noteq> CHR 0x0D \<and> c \<noteq> CHR 0x09"
    using assms(3) by auto
  with assms show ?thesis by (simp add: json_char_def)
qed

lemma json_stringify_plain:
  assumes "\<forall>c \<in> set s. c \<noteq> CHR 0x22 \<and> c \<noteq> CHR 0x5C \<and> (32::nat) \<le> of_char c"
  shows "json_stringify s = CHR 0x22 # s @ [CHR 0x22]"
proof -
  have "concat (map json_char s) = s"
    using assms json_char_plain by (induction s) auto
  then show ?thesis by (simp add: json_stringify_def)
qed

section \<open>Claims\<close>

text \<open>C15: \<open>escapeHtml\<close>'s five chained global replacements compute the same string as
  escaping each character in one pass: replacing \<open>&\<close> first keeps the later passes
  from touching the entities the earlier ones produced.\<close>

theorem escapeHtml_single_pass: "escapeHtml s = concat (map esc_char s)"
  using escapeHtml_eq_ref by (simp add: escape_ref_def)

text \<open>C16: Decoding the five character references of \<open>escapeHtml\<close>'s output, as the
  HTML parser does for the iframe's \<open>src\<close> attribute, gives back the input exactly.\<close>

theorem escapeHtml_roundtrip: "html_unescape (escapeHtml s) = s"
  by (simp add: escapeHtml_eq_ref html_unescape_escape_ref)

text \<open>C5: \<open>escapeHtml\<close>'s output contains none of the markup delimiters
  \<open><\<close>, \<open>>\<close>, \<open>"\<close> and \<open>'\<close>, so an escaped value cannot end the attribute or
  the element it is interpolated into.\<close>

theorem escapeHtml_no_markup: "set (escapeHtml s) \<inter> {CHR ''<'', CHR ''>'', CHR 0x22, CHR 0x27} = {}"
  by (auto simp: escapeHtml_eq_ref escape_ref_def dest: esc_char_no_delims)

text \<open>C17: When \<open>Math.random\<close> keeps to \<open>[0, 1)\<close>, \<open>getNonce\<close> returns 32
  characters, all ASCII letters or digits, so the nonce is a valid CSP nonce source that
  cannot break out of the quoted \<open>'nonce-...'\<close> token or the \<open>nonce\<close> attribute.\<close>

theorem getNonce_token:
  assumes "\<forall>i < 32. 0 \<le> rnd i \<and> rnd i < 1"
  shows "length (getNonce rnd) = 32 \<and> set (getNonce rnd) \<subseteq> {c. is_alnum c}"
  using getNonce_length [OF assms] getNonce_alnum by auto

theorem getNonce_token_witness:
  "length (getNonce (\<lambda>_. 1/2)) = 32 \<and> set (getNonce (\<lambda>_. 1/2)) \<subseteq> {c. is_alnum c}"
  by (rule getNonce_token) simp

end
