(* ===== verification/Url.thy ===== *)
theory Url
  imports Prelude
begin

text \<open>
  The URL parser of the JavaScript runtime, as far as \<open>src/src/extension.ts\<close> relies on it:
  \<open>new URL(value)\<close> in \<open>isHttpsUrl\<close> and \<open>resolveAppSrc\<close> either throws or yields a
  record whose \<open>protocol\<close> and \<open>origin\<close> the extension reads. The parser is not code of
  the repository; it is modelled after the WHATWG URL Standard's basic parser (no base
  URL), restricted to what decides \<open>protocol\<close> and \<open>origin\<close>: trimming, the scheme
  state, the special-authority states (slashes and backslashes skipped, credentials up to
  the last \<open>@\<close> dropped, host and port split at the first \<open>:\<close>), the host's
  forbidden code points and ASCII lowercasing, and the port state with its default ports.
  A domain whose last label is a number goes through the IPv4 parser and is serialised
  in dotted decimal. Percent-decoding and IDNA of hosts and IPv6 literals are not
  modelled: a host with \<open>%\<close>, a non-ASCII byte or a bracket is rejected here, so the model
  accepts a subset of what the runtime accepts and agrees with it there. \<open>file:\<close> and
  non-special schemes parse with an opaque origin (\<open>"null"\<close>).
\<close>

record url =
  protocol :: string
  hostname :: string
  url_port :: "port option"

section \<open>The basic parser\<close>

definition is_c0_or_space :: "char \<Rightarrow> bool" where
  "is_c0_or_space c \<longleftrightarrow> of_char c \<le> (32::nat)"

definition trim_c0 :: "string \<Rightarrow> string" where
  "trim_c0 s = rev (dropWhile is_c0_or_space (rev (dropWhile is_c0_or_space s)))"

definition strip_tab_newline :: "string \<Rightarrow> string" where
  "strip_tab_newline s = filter (\<lambda>c. c \<notin> {CHR 0x09, CHR 0x0A, CHR 0x0D}) s"

definition is_scheme_char :: "char \<Rightarrow> bool" where
  "is_scheme_char c \<longleftrightarrow> is_alnum c \<or> c \<in> {CHR ''+'', CHR ''-'', CHR ''.''}"

text \<open>Scheme start and scheme state: an ASCII letter, then scheme characters up to a
  colon. Anything else, with no base URL, is a failure.\<close>

fun parse_scheme :: "string \<Rightarrow> (string \<times> string) option" where
  "parse_scheme [] = None"
| "parse_scheme (c # cs) =
     (if \<not> is_alpha c then None
      else (case dropWhile is_scheme_char (c # cs) of
              x # rest \<Rightarrow> if x = CHR '':'' then Some (to_lower (takeWhile is_scheme_char (c # cs)), rest)
                          else None
            | [] \<Rightarrow> None))"

definition default_port :: "string \<Rightarrow> port option" where
  "default_port sch =
     (if sch = ''ftp'' then Some 21
      else if sch = ''http'' \<or> sch = ''ws'' then Some 80
      else if sch = ''https'' \<or> sch = ''wss'' then Some 443
      else None)"

text \<open>Special schemes with a network host (\<open>file\<close> is special but has no such host).\<close>

definition is_network_scheme :: "string \<Rightarrow> bool" where
  "is_network_scheme sch \<longleftrightarrow> sch \<in> {''ftp'', ''http'', ''https'', ''ws'', ''wss''}"

definition is_forbidden_domain_char :: "char \<Rightarrow> bool" where
  "is_forbidden_domain_char c \<longleftrightarrow>
     of_char c \<le> (32::nat) \<or> of_char c \<ge> (127::nat) \<or>
     c \<in> set ''#%/:<>?@[]^|'' \<or> c = CHR 0x5C"

definition is_authority_end :: "char \<Rightarrow> bool" where
  "is_authority_end c \<longleftrightarrow> c \<in> {CHR ''/'', CHR ''?'', CHR ''#'', CHR 0x5C}"

text \<open>The host after the last \<open>@\<close> of the authority.\<close>

definition after_last_at :: "string \<Rightarrow> string" where
  "after_last_at a = rev (takeWhile (\<lambda>c. c \<noteq> CHR ''@'') (rev a))"

text \<open>Port state: a run of digits, at most 65535; the scheme's default port is
  serialised as no port.\<close>

definition parse_port :: "string \<Rightarrow> string \<Rightarrow> port option option" where
  "parse_port sch p =
     (if p = [] then Some None
      else case parse_decimal p of
             None \<Rightarrow> None
           | Some n \<Rightarrow> if n > 65535 then None
                       else if default_port sch = Some n then Some None
                       else Some (Some n))"

text \<open>Host parsing of a special URL's domain, after the forbidden code points are
  checked: a domain whose last label is a number is an IPv4 address, read by the IPv4
  parser and serialised in dotted decimal; any other domain is kept. The IPv4 number
  parser reads a label in hexadecimal after \<open>0x\<close> or \<open>0X\<close>, in octal after a leading
  \<open>0\<close>, in decimal otherwise; an empty label after the prefix is 0.\<close>

definition hex_val :: "char \<Rightarrow> nat option" where
  "hex_val c =
     (if is_digit c then Some (of_char c - (48::nat))
      else if (97::nat) \<le> of_char c \<and> of_char c \<le> (102::nat) then Some (of_char c - (87::nat))
      else if (65::nat) \<le> of_char c \<and> of_char c \<le> (70::nat) then Some (of_char c - (55::nat))
      else None)"

fun radix_acc :: "nat \<Rightarrow> nat \<Rightarrow> string \<Rightarrow> nat option" where
  "radix_acc r acc [] = Some acc"
| "radix_acc r acc (c # cs) =
     (case hex_val c of
        None \<Rightarrow> None
      | Some v \<Rightarrow> if v < r then radix_acc r (r * acc + v) cs else None)"

definition parse_ipv4_number :: "string \<Rightarrow> nat option" where
  "parse_ipv4_number s =
     (if s = [] then None
      else let (r, t) = (if take 2 s = ''0x'' \<or> take 2 s = ''0X'' then (16, drop 2 s)
                         else if 2 \<le> length s \<and> hd s = CHR ''0'' then (8, tl s)
                         else (10, s))
           in if t = [] then Some 0 else radix_acc r 0 t)"

definition ends_in_number :: "string \<Rightarrow> bool" where
  "ends_in_number h =
     (let parts = split_on (CHR ''.'') h in
      if last parts = [] \<and> length parts = 1 then False
      else let l = last (if last parts = [] then butlast parts else parts) in
           (l \<noteq> [] \<and> list_all is_digit l) \<or> parse_ipv4_number l \<noteq> None)"

text \<open>The numbers but the last weigh \<open>256^3, 256^2, ...\<close>; the last fills the rest.\<close>

fun ipv4_acc :: "nat \<Rightarrow> nat list \<Rightarrow> nat" where
  "ipv4_acc i [] = 0"
| "ipv4_acc i [n] = n"
| "ipv4_acc i (n # ns) = n * 256 ^ (3 - i) + ipv4_acc (Suc i) ns"

definition parse_ipv4 :: "string \<Rightarrow> nat option" where
  "parse_ipv4 h =
     (let parts0 = split_on (CHR ''.'') h;
          parts = (if last parts0 = [] \<and> 1 < length parts0 then butlast parts0 else parts0)
      in if 4 < length parts then None
         else case those (map parse_ipv4_number parts) of
                None \<Rightarrow> None
              | Some ns \<Rightarrow> if \<not> list_all (\<lambda>n. n \<le> 255) (butlast ns) \<or> 256 ^ (5 - length ns) \<le> last ns
                          then None else Some (ipv4_acc 0 ns))"

definition ipv4_serialize :: "nat \<Rightarrow> string" where
  "ipv4_serialize n =
     decimal (n div 16777216 mod 256) @ ''.'' @ decimal (n div 65536 mod 256) @ ''.'' @
     decimal (n div 256 mod 256) @ ''.'' @ decimal (n mod 256)"

definition host_of :: "string \<Rightarrow> string option" where
  "host_of d = (if ends_in_number d then map_option ipv4_serialize (parse_ipv4 d) else Some d)"

definition parse_host_port :: "string \<Rightarrow> string \<Rightarrow> url option" where
  "parse_host_port sch hp =
     (let h = takeWhile (\<lambda>c. c \<noteq> CHR '':'') hp;
          p = drop (Suc (length h)) hp
      in if h = [] \<or> (\<exists>c \<in> set h. is_forbidden_domain_char c) then None
         else case host_of (to_lower h) of
                None \<Rightarrow> None
              | Some hn \<Rightarrow>
                  (case parse_port sch (if CHR '':'' \<in> set hp then p else []) of
                     None \<Rightarrow> None
                   | Some pt \<Rightarrow> Some \<lparr>protocol = sch @ '':'', hostname = hn, url_port = pt\<rparr>))"

definition parse_special_authority :: "string \<Rightarrow> string \<Rightarrow> url option" where
  "parse_special_authority sch rest =
     (let r = dropWhile (\<lambda>c. c = CHR ''/'' \<or> c = CHR 0x5C) rest;
          auth = takeWhile (\<lambda>c. \<not> is_authority_end c) r
      in parse_host_port sch (after_last_at auth))"

text \<open>\<open>new URL(value)\<close>: \<open>None\<close> is the \<open>TypeError\<close> it throws.\<close>

definition url_parse :: "string \<Rightarrow> url option" where
  "url_parse s =
     (case parse_scheme (strip_tab_newline (trim_c0 s)) of
        None \<Rightarrow> None
      | Some (sch, rest) \<Rightarrow>
          if is_network_scheme sch then parse_special_authority sch rest
          else Some \<lparr>protocol = sch @ '':'', hostname = [], url_port = None\<rparr>)"

text \<open>\<open>URL.prototype.origin\<close>: scheme, host and non-default port for the network
  schemes, the opaque origin otherwise.\<close>

definition url_origin :: "url \<Rightarrow> string" where
  "url_origin u =
     (if is_network_scheme (butlast (protocol u))
      then butlast (protocol u) @ ''://'' @ hostname u @
           (case url_port u of None \<Rightarrow> [] | Some p \<Rightarrow> CHR '':'' # decimal p)
      else ''null'')"

section \<open>\<open>isHttpsUrl\<close>\<close>

text \<open>\<open>isHttpsUrl(value)\<close>, \<open>src/src/extension.ts\<close> lines 103--111: an empty value is
  not a URL; a value \<open>new URL\<close> rejects is caught and is not one either.\<close>

definition isHttpsUrl :: "string \<Rightarrow> bool" where
  "isHttpsUrl v =
     (if v = [] then False
      else case url_parse v of None \<Rightarrow> False | Some u \<Rightarrow> protocol u = ''https:'')"

text \<open>\<open>new URL(s).origin\<close> where the code has established that \<open>s\<close> parses; a
  value that does not parse throws, \<open>None\<close>.\<close>

definition origin_of :: "string \<Rightarrow> string option" where
  "origin_of s = map_option url_origin (url_parse s)"

declare is_c0_or_space_def [model_defs] trim_c0_def [model_defs]
  strip_tab_newline_def [model_defs] is_scheme_char_def [model_defs]
  default_port_def [model_defs] is_network_scheme_def [model_defs]
  is_forbidden_domain_char_def [model_defs] is_authority_end_def [model_defs]
  after_last_at_def [model_defs] parse_port_def [model_defs] hex_val_def [model_defs]
  parse_ipv4_number_def [model_defs] ends_in_number_def [model_defs] parse_ipv4_def [model_defs]
  ipv4_serialize_def [model_defs] host_of_def [model_defs]
  parse_host_port_def [model_defs] parse_special_authority_def [model_defs]
  url_parse_def [model_defs] url_origin_def [model_defs] isHttpsUrl_def [model_defs]
  origin_of_def [model_defs]

section \<open>Properties of the parser\<close>


lemma is_lower_not_forbidden: "is_lower c \<Longrightarrow> \<not> is_forbidden_domain_char c"
  by (auto simp: is_lower_def is_forbidden_domain_char_def)

lemma lower_char_not_forbidden:
  "\<not> is_forbidden_domain_char c \<Longrightarrow> \<not> is_forbidden_domain_char (lower_char c)"
  by (cases "is_upper c") (auto dest: is_lower_lower_char is_lower_not_forbidden)

lemma url_parse_Nil [simp]: "url_parse [] = None"
  by (simp add: url_parse_def trim_c0_def strip_tab_newline_def)

lemma isHttpsUrl_iff: "isHttpsUrl v \<longleftrightarrow> (\<exists>u. url_parse v = Some u \<and> protocol u = ''https:'')"
  by (auto simp: isHttpsUrl_def split: option.splits)

lemma ipv4_serialize_chars: "c \<in> set (ipv4_serialize n) \<Longrightarrow> is_digit c \<or> c = CHR ''.''"
  by (auto simp: ipv4_serialize_def dest: set_decimal_digits)

lemma host_of_Some:
  assumes "host_of d = Some hn" "d \<noteq> []" "\<forall>c \<in> set d. \<not> is_forbidden_domain_char c"
  shows "hn \<noteq> [] \<and> (\<forall>c \<in> set hn. \<not> is_forbidden_domain_char c)"
proof (cases "ends_in_number d")
  case True
  with assms(1) obtain n where "hn = ipv4_serialize n" by (auto simp: host_of_def)
  moreover have "\<not> is_forbidden_domain_char c" if "is_digit c \<or> c = CHR ''.''" for c
    using that by (auto simp: is_digit_def is_forbidden_domain_char_def)
  ultimately show ?thesis using ipv4_serialize_chars by (auto simp: ipv4_serialize_def)
next
  case False
  with assms show ?thesis by (simp add: host_of_def)
qed

lemma host_of_loopback: "host_of ''127.0.0.1'' = Some ''127.0.0.1''"
  by (simp add: host_of_def ends_in_number_def parse_ipv4_def parse_ipv4_number_def hex_val_def
      is_digit_def ipv4_serialize_def decimal.simps char_of_nat_eq_iff)

lemma parse_host_port_Some:
  assumes "parse_host_port sch hp = Some u"
  shows "protocol u = sch @ '':'' \<and> hostname u \<noteq> [] \<and>
         (\<forall>c \<in> set (hostname u). \<not> is_forbidden_domain_char c) \<and>
         (\<forall>p. url_port u = Some p \<longrightarrow> p \<le> 65535 \<and> default_port sch \<noteq> Some p)"
proof -
  let ?h = "takeWhile (\<lambda>c. c \<noteq> CHR '':'') hp"
  have h: "?h \<noteq> []" "\<forall>c \<in> set ?h. \<not> is_forbidden_domain_char c"
    using assms by (auto simp: parse_host_port_def Let_def split: if_splits)
  from assms h obtain hn pt where hn: "host_of (to_lower ?h) = Some hn"
    and pt: "parse_port sch (if CHR '':'' \<in> set hp then drop (Suc (length ?h)) hp else []) = Some pt"
    and u: "u = \<lparr>protocol = sch @ '':'', hostname = hn, url_port = pt\<rparr>"
    by (auto simp: parse_host_port_def Let_def split: option.splits)
  have "hn \<noteq> [] \<and> (\<forall>c \<in> set hn. \<not> is_forbidden_domain_char c)"
    by (rule host_of_Some [OF hn]) (use h in \<open>auto simp: to_lower_def lower_char_not_forbidden\<close>)
  moreover have "\<forall>p. pt = Some p \<longrightarrow> p \<le> 65535 \<and> default_port sch \<noteq> Some p"
    using pt by (auto simp: parse_port_def split: if_splits option.splits)
  ultimately show ?thesis using u by simp
qed

lemma url_parse_network:
  assumes "url_parse s = Some u" and "is_network_scheme (butlast (protocol u))"
  shows "hostname u \<noteq> [] \<and> (\<forall>c \<in> set (hostname u). \<not> is_forbidden_domain_char c) \<and>
         (\<forall>p. url_port u = Some p \<longrightarrow> p \<le> 65535 \<and> default_port (butlast (protocol u)) \<noteq> Some p)"
  using assms parse_host_port_Some
  by (auto simp: url_parse_def parse_special_authority_def Let_def split: option.splits if_splits)


lemma trim_c0_id:
  assumes "s \<noteq> []" "\<not> is_c0_or_space (hd s)" "\<not> is_c0_or_space (last s)"
  shows "trim_c0 s = s"
proof -
  have "dropWhile is_c0_or_space s = s"
    using assms by (cases s) auto
  moreover have "dropWhile is_c0_or_space (rev s) = rev s"
    using assms by (cases "rev s") (auto simp flip: hd_rev)
  ultimately show ?thesis by (simp add: trim_c0_def)
qed

lemma https_origin:
  assumes "url_parse v = Some u" and "protocol u = ''https:''"
  shows "url_origin u = ''https://'' @ hostname u @
           (case url_port u of None \<Rightarrow> [] | Some p \<Rightarrow> CHR '':'' # decimal p) \<and>
         url_port u \<noteq> Some 443"
  using assms url_parse_network [OF assms(1)]
  by (fastforce simp: url_origin_def is_network_scheme_def default_port_def)

lemma demo_url_origin:
  assumes "p \<le> 65535"
  shows "origin_of (''http://127.0.0.1:'' @ decimal p @ ''/index.html'') =
           Some (''http://127.0.0.1'' @ (if p = 80 then [] else CHR '':'' # decimal p))"
proof -
  let ?D = "decimal p"
  let ?s = "''http://127.0.0.1:'' @ ?D @ ''/index.html''"
  have trim: "trim_c0 ?s = ?s"
    by (rule trim_c0_id) (simp_all add: is_c0_or_space_def)
  have "filter (\<lambda>c. c \<notin> {CHR 0x09, CHR 0x0A, CHR 0x0D}) ?D = ?D"
    by (rule filter_decimal) (auto simp: is_digit_def)
  then have strip: "strip_tab_newline ?s = ?s"
    by (simp add: strip_tab_newline_def)
  have scheme: "parse_scheme ?s = Some (''http'', ''//127.0.0.1:'' @ ?D @ ''/index.html'')"
    by (simp add: is_scheme_char_def is_alnum_def is_alpha_def is_upper_def is_lower_def is_digit_def
                  to_lower_def lower_char_def)
  have auth: "takeWhile (\<lambda>c. \<not> is_authority_end c) (''127.0.0.1:'' @ ?D @ ''/index.html'') =
              ''127.0.0.1:'' @ ?D"
  proof -
    have "takeWhile (\<lambda>c. \<not> is_authority_end c) (?D @ ''/index.html'') = ?D @ takeWhile (\<lambda>c. \<not> is_authority_end c) ''/index.html''"
      by (rule takeWhile_decimal_append) (auto simp: is_digit_def is_authority_end_def)
    then show ?thesis by (simp add: is_authority_end_def)
  qed
  have at: "after_last_at (''127.0.0.1:'' @ ?D) = ''127.0.0.1:'' @ ?D"
  proof -
    have "takeWhile (\<lambda>c. c \<noteq> CHR ''@'') (rev ?D @ rev ''127.0.0.1:'') = rev ?D @ rev ''127.0.0.1:''"
      by (auto simp: takeWhile_eq_all_conv is_digit_def dest: set_decimal_digits)
    then show ?thesis by (simp add: after_last_at_def)
  qed
  have hp: "parse_host_port ''http'' (''127.0.0.1:'' @ ?D) =
            Some \<lparr>protocol = ''http:'', hostname = ''127.0.0.1'',
                  url_port = (if p = 80 then None else Some p)\<rparr>"
    using assms
    by (simp add: parse_host_port_def parse_port_def default_port_def is_forbidden_domain_char_def
                  to_lower_def lower_char_def is_upper_def host_of_loopback)
  have slashes: "dropWhile (\<lambda>c. c = CHR ''/'' \<or> c = CHR 0x5C) (''//127.0.0.1:'' @ ?D @ ''/index.html'') =
                 ''127.0.0.1:'' @ ?D @ ''/index.html''"
    by simp
  have net: "is_network_scheme ''http''"
    by (simp add: is_network_scheme_def)
  have "url_parse ?s = Some \<lparr>protocol = ''http:'', hostname = ''127.0.0.1'',
                  url_port = (if p = 80 then None else Some p)\<rparr>"
    unfolding url_parse_def trim strip scheme option.case prod.case if_P [OF net]
      parse_special_authority_def Let_def slashes auth at hp ..
  then show ?thesis
    by (simp add: origin_of_def url_origin_def is_network_scheme_def)
qed

text \<open>What an origin is made of: scheme characters, the separators, host characters
  that are not forbidden, and digits. In particular no markup delimiter \<open><\<close>.\<close>

lemma lower_char_scheme: "is_scheme_char c \<Longrightarrow> is_scheme_char (lower_char c)"
  by (cases "is_upper c") (auto simp: is_scheme_char_def is_alnum_def is_alpha_def dest: is_lower_lower_char)

lemma parse_scheme_Some:
  "parse_scheme s = Some (sch, rest) \<Longrightarrow> sch = to_lower (takeWhile is_scheme_char s)"
  by (cases s) (simp_all only: parse_scheme.simps split: if_splits list.splits, auto)

lemma parse_scheme_chars:
  "parse_scheme s = Some (sch, rest) \<Longrightarrow> \<forall>c \<in> set sch. is_scheme_char c"
proof -
  assume ps: "parse_scheme s = Some (sch, rest)"
  have "\<forall>x \<in> set (takeWhile is_scheme_char s). is_scheme_char x"
    by (metis set_takeWhileD)
  then show ?thesis using parse_scheme_Some [OF ps] by (auto simp: to_lower_def intro: lower_char_scheme)
qed

lemma url_parse_protocol:
  assumes "url_parse s = Some u"
  shows "\<exists>sch. protocol u = sch @ '':'' \<and> (\<forall>c \<in> set sch. is_scheme_char c)"
proof -
  obtain sch rest where ps: "parse_scheme (strip_tab_newline (trim_c0 s)) = Some (sch, rest)"
    using assms by (auto simp: url_parse_def split: option.splits)
  have "protocol u = sch @ '':''"
  proof (cases "is_network_scheme sch")
    case True
    with assms ps have "parse_host_port sch (after_last_at (takeWhile (\<lambda>c. \<not> is_authority_end c)
        (dropWhile (\<lambda>c. c = CHR ''/'' \<or> c = CHR 0x5C) rest))) = Some u"
      by (simp add: url_parse_def parse_special_authority_def Let_def)
    then show ?thesis by (rule parse_host_port_Some [THEN conjunct1])
  next
    case False
    with assms ps show ?thesis by (auto simp: url_parse_def)
  qed
  with parse_scheme_chars [OF ps] show ?thesis by blast
qed

lemma url_origin_no_lt:
  assumes "url_parse s = Some u"
  shows "CHR ''<'' \<notin> set (url_origin u)"
proof -
  obtain sch where sch: "protocol u = sch @ '':''" "\<forall>c \<in> set sch. is_scheme_char c"
    using url_parse_protocol [OF assms] by blast
  have s: "CHR ''<'' \<notin> set sch" using sch(2)
    by (auto simp: is_scheme_char_def is_alnum_def is_alpha_def is_upper_def is_lower_def is_digit_def)
  have d: "CHR ''<'' \<notin> set (decimal p)" for p
    by (auto dest: set_decimal_digits simp: is_digit_def)
  show ?thesis
  proof (cases "is_network_scheme sch")
    case True
    then have "CHR ''<'' \<notin> set (hostname u)"
      using url_parse_network [OF assms] sch(1) by (auto simp: is_forbidden_domain_char_def)
    with True s d sch(1) show ?thesis by (simp add: url_origin_def split: option.split)
  next
    case False
    with sch(1) show ?thesis by (simp add: url_origin_def)
  qed
qed

lemma origin_of_no_lt: "origin_of s = Some org \<Longrightarrow> CHR ''<'' \<notin> set org"
  using url_origin_no_lt by (auto simp: origin_of_def)

end
