(* ===== verification/Resolver.thy ===== *)
theory Resolver
  imports Url
begin

text \<open>
  The content-source decision of \<open>src/src/extension.ts\<close>: \<open>resolveAppSrc\<close> (lines
  113--141) chooses what the iframe loads (\<open>src\<close>), the \<open>frame-src\<close> sources of the
  content security policy and the origin the relay script posts to. The host objects it
  reads are records here: the webview's \<open>cspSource\<close> and \<open>asWebviewUri\<close>, the
  extension context's \<open>extensionUri\<close>; \<open>vscode.Uri.joinPath\<close> is modelled from the host
  API's documented behaviour (segments joined by \<open>/\<close>, empty and \<open>.\<close> segments
  dropped). A \<open>new URL\<close> that throws is the \<open>TypeError\<close> branch of the result.
\<close>

record webview =
  cspSource :: string
  asWebviewUri :: "string \<Rightarrow> string"

record ext_context =
  extensionUri :: string

record app_src =
  src :: string
  frameSrcCsp :: string
  targetOrigin :: string

definition joinPath :: "string \<Rightarrow> string list \<Rightarrow> string" where
  "joinPath base segs =
     base @ concat (map (\<lambda>p. CHR ''/'' # p)
                     (filter (\<lambda>p. p \<noteq> [] \<and> p \<noteq> ''.'') (concat (map (split_on (CHR ''/'')) segs))))"

text \<open>Lines 119--140. \<open>demoUrl\<close> is \<open>undefined\<close> (\<open>None\<close>) when no demo server was
  started; \<open>allowHttp && demoUrl\<close> also fails on the empty string.\<close>

definition resolveAppSrc ::
  "webview \<Rightarrow> ext_context \<Rightarrow> string \<Rightarrow> string option \<Rightarrow> bool \<Rightarrow> js_error + app_src" where
  "resolveAppSrc wv ctx remoteUrl demoUrl allowHttp =
     (if isHttpsUrl remoteUrl then
        (case origin_of remoteUrl of
           None \<Rightarrow> Inl TypeError
         | Some origin \<Rightarrow> Inr \<lparr>src = remoteUrl, frameSrcCsp = origin, targetOrigin = origin\<rparr>)
      else if allowHttp \<and> demoUrl \<noteq> None \<and> demoUrl \<noteq> Some [] then
        (case origin_of (the demoUrl) of
           None \<Rightarrow> Inl TypeError
         | Some origin \<Rightarrow> Inr \<lparr>src = the demoUrl, frameSrcCsp = origin, targetOrigin = origin\<rparr>)
      else
        (let demoPath = joinPath (extensionUri ctx) [''src'', ''./demo/index.html''];
             demoUri = asWebviewUri wv demoPath
         in Inr \<lparr>src = demoUri, frameSrcCsp = cspSource wv @ '' vscode-resource:'',
                 targetOrigin = ''*''\<rparr>))"

declare joinPath_def [model_defs] resolveAppSrc_def [model_defs]

section \<open>Properties of the decision\<close>

lemma isHttpsUrl_origin:
  assumes "isHttpsUrl r"
  obtains u where "url_parse r = Some u" "origin_of r = Some (url_origin u)"
    "url_origin u = ''https://'' @ hostname u @
       (case url_port u of None \<Rightarrow> [] | Some p \<Rightarrow> CHR '':'' # decimal p)"
  using assms https_origin by (auto simp: isHttpsUrl_iff origin_of_def)

lemma resolve_remote:
  assumes "isHttpsUrl r"
  shows "\<exists>h. resolveAppSrc wv ctx r d a =
               Inr \<lparr>src = r, frameSrcCsp = ''https://'' @ h, targetOrigin = ''https://'' @ h\<rparr>"
proof -
  obtain u where "origin_of r = Some (url_origin u)"
    "url_origin u = ''https://'' @ hostname u @
       (case url_port u of None \<Rightarrow> [] | Some p \<Rightarrow> CHR '':'' # decimal p)"
    using isHttpsUrl_origin [OF assms] by blast
  with assms show ?thesis by (simp add: resolveAppSrc_def)
qed

lemma resolve_demo:
  assumes "\<not> isHttpsUrl r" and "a" and "origin_of s = Some org" and "s \<noteq> []"
  shows "resolveAppSrc wv ctx r (Some s) a = Inr \<lparr>src = s, frameSrcCsp = org, targetOrigin = org\<rparr>"
  using assms by (simp add: resolveAppSrc_def)

lemma resolve_bundled:
  assumes "\<not> isHttpsUrl r" and "\<not> a \<or> d = None \<or> d = Some []"
  shows "resolveAppSrc wv ctx r d a =
           Inr \<lparr>src = asWebviewUri wv (extensionUri ctx @ ''/src/demo/index.html''),
                frameSrcCsp = cspSource wv @ '' vscode-resource:'', targetOrigin = ''*''\<rparr>"
  using assms by (auto simp: resolveAppSrc_def joinPath_def)


lemma url_origin_not_wildcard: "url_origin u \<noteq> ''*''"
  by (simp add: url_origin_def)

lemma resolve_Inr_cases:
  assumes "resolveAppSrc wv ctx r d a = Inr x"
  shows "(isHttpsUrl r \<and> src x = r \<and> origin_of r = Some (targetOrigin x) \<and> frameSrcCsp x = targetOrigin x) \<or>
         (\<not> isHttpsUrl r \<and> a \<and> d = Some (src x) \<and> src x \<noteq> [] \<and>
            origin_of (src x) = Some (targetOrigin x) \<and> frameSrcCsp x = targetOrigin x) \<or>
         (\<not> isHttpsUrl r \<and> (\<not> a \<or> d = None \<or> d = Some []) \<and> targetOrigin x = ''*'' \<and>
            frameSrcCsp x = cspSource wv @ '' vscode-resource:'')"
  using assms by (auto simp: resolveAppSrc_def Let_def split: if_splits option.splits)

section \<open>Claims\<close>

text \<open>C4: The message target is the wildcard exactly when neither an https remote URL
  nor a demo server URL is available (the bundled branch); in every other branch it is
  the concrete origin of the address the iframe loads, and the \<open>frame-src\<close> policy is
  that same single origin.\<close>

theorem resolve_target_pinned:
  assumes "resolveAppSrc wv ctx r d a = Inr x"
  shows "(targetOrigin x = ''*'' \<longleftrightarrow> \<not> isHttpsUrl r \<and> (\<not> a \<or> d = None \<or> d = Some [])) \<and>
         (targetOrigin x \<noteq> ''*'' \<longrightarrow>
            frameSrcCsp x = targetOrigin x \<and> origin_of (src x) = Some (targetOrigin x))"
  using resolve_Inr_cases [OF assms] url_origin_not_wildcard
  by (auto simp: origin_of_def)

theorem resolve_target_pinned_witness:
  "resolveAppSrc \<lparr>cspSource = ''vscode-webview:'', asWebviewUri = id\<rparr> \<lparr>extensionUri = ''/ext''\<rparr>
      ''https://ex.com/app'' None True =
     Inr \<lparr>src = ''https://ex.com/app'', frameSrcCsp = ''https://ex.com'', targetOrigin = ''https://ex.com''\<rparr> \<and>
   ''https://ex.com'' \<noteq> ''*'' \<and> origin_of ''https://ex.com/app'' = Some ''https://ex.com''"
proof -
  have e: "resolveAppSrc \<lparr>cspSource = ''vscode-webview:'', asWebviewUri = id\<rparr> \<lparr>extensionUri = ''/ext''\<rparr>
      ''https://ex.com/app'' None True =
     Inr \<lparr>src = ''https://ex.com/app'', frameSrcCsp = ''https://ex.com'', targetOrigin = ''https://ex.com''\<rparr>"
    by (simp add: model_defs)
  show ?thesis using resolve_target_pinned [OF e] e by simp
qed

end
