(* ===== verification/DemoServer.thy ===== *)
theory DemoServer
  imports Resolver
begin

text \<open>
  The ephemeral content server of \<open>src/src/extension.ts\<close>, \<open>startDemoServer\<close> (lines
  221--258). Its request handler (lines 226--242) is a function of the request's
  \<open>url\<close> and of what \<open>fs.readFile\<close> yields at request time (\<open>None\<close>: the read
  rejects), returning the response the handler writes; the file is read again on every
  request. Binding is split at the \<open>await\<close> of line 244: what \<open>listen\<close> reports is a
  value of \<open>listen_outcome\<close>, and \<open>demo_server_started\<close> is the code after it (lines
  249--257), returning whether the server is left listening and the promise's outcome.
\<close>

record http_response =
  statusCode :: nat
  resHeaders :: "(string \<times> string) list"
  resBody :: string

text \<open>A fresh \<open>ServerResponse\<close>: status 200, no headers, nothing written.\<close>

definition fresh_response :: http_response where
  "fresh_response = \<lparr>statusCode = 200, resHeaders = [], resBody = []\<rparr>"

text \<open>Lines 224--225: the file the server reads, \<open>extensionUri/src/demo/index.html\<close>
  (\<open>fsPath\<close> of a \<open>file:\<close> URI is its path).\<close>

definition demo_path :: "ext_context \<Rightarrow> string" where
  "demo_path ctx = joinPath (extensionUri ctx) [''src'', ''demo'', ''index.html'']"

text \<open>Line 227: \<open>req.url ? req.url.split("?")[0] : "/"\<close>.\<close>

definition request_path :: "string option \<Rightarrow> string" where
  "request_path reqUrl =
     (case reqUrl of None \<Rightarrow> ''/'' | Some u \<Rightarrow> if u = [] then ''/'' else split_first (CHR ''?'') u)"

definition handleRequest :: "string option \<Rightarrow> string option \<Rightarrow> http_response" where
  "handleRequest reqUrl readResult =
     (let urlPath = request_path reqUrl; res = fresh_response in
      if urlPath \<noteq> ''/'' \<and> urlPath \<noteq> ''/index.html'' then
        res\<lparr>statusCode := 404, resBody := ''Not Found''\<rparr>
      else
        (case readResult of
           Some html \<Rightarrow> res\<lparr>resHeaders := [(''Content-Type'', ''text/html; charset=utf-8'')],
                             resBody := html\<rparr>
         | None \<Rightarrow> res\<lparr>statusCode := 500, resBody := ''Failed to load demo''\<rparr>))"

text \<open>The server of lines 226--242 over the file system at request time: the handler
  reads \<open>demoPath\<close> on every request it does not reject.\<close>

definition serve_demo :: "ext_context \<Rightarrow> (string \<Rightarrow> string option) \<Rightarrow> string option \<Rightarrow> http_response" where
  "serve_demo ctx fs reqUrl = handleRequest reqUrl (fs (demo_path ctx))"

text \<open>What \<open>server.listen(0, "127.0.0.1")\<close> reports: the \<open>listening\<close> callback with
  what \<open>server.address()\<close> then returns, or an \<open>error\<close> event with its code.\<close>

datatype address = AddrInet port | AddrPipe string

datatype listen_outcome = Listening "address option" | ListenFailed string

text \<open>Line 255.\<close>

definition demo_url :: "port \<Rightarrow> string" where
  "demo_url p = ''http://127.0.0.1:'' @ decimal p @ ''/index.html''"

text \<open>Lines 244--257: a rejected \<open>listen\<close> rejects the promise; a missing or pipe
  address closes the server and throws; otherwise the server stays up and its URL is
  returned.\<close>

definition demo_server_started :: "listen_outcome \<Rightarrow> bool \<times> (js_error + string)" where
  "demo_server_started lo =
     (case lo of
        ListenFailed code \<Rightarrow> (False, Inl (SystemError code))
      | Listening addr \<Rightarrow>
          (case addr of
             Some (AddrInet p) \<Rightarrow> (True, Inr (demo_url p))
           | _ \<Rightarrow> (False, Inl (Error ''Demo server failed to bind''))))"

declare demo_path_def [model_defs] serve_demo_def [model_defs] fresh_response_def [model_defs] request_path_def [model_defs]
  handleRequest_def [model_defs] demo_url_def [model_defs] demo_server_started_def [model_defs]

section \<open>Claims\<close>

text \<open>C18: The server answers 404 for every path but \<open>/\<close> and \<open>/index.html\<close> (the
  query string ignored); on those two it serves what the file holds at request time
  with status 200 and an HTML content type, or 500 when the read fails.\<close>

theorem handleRequest_routes:
  "(request_path u \<notin> {''/'', ''/index.html''} \<longrightarrow>
      handleRequest u r = \<lparr>statusCode = 404, resHeaders = [], resBody = ''Not Found''\<rparr>) \<and>
   (request_path u \<in> {''/'', ''/index.html''} \<longrightarrow> r = Some html \<longrightarrow>
      handleRequest u r = \<lparr>statusCode = 200, resHeaders = [(''Content-Type'', ''text/html; charset=utf-8'')],
                           resBody = html\<rparr>) \<and>
   (request_path u \<in> {''/'', ''/index.html''} \<longrightarrow> r = None \<longrightarrow>
      handleRequest u r = \<lparr>statusCode = 500, resHeaders = [], resBody = ''Failed to load demo''\<rparr>)"
  unfolding handleRequest_def Let_def fresh_response_def by simp

theorem handleRequest_routes_witness:
  "handleRequest (Some ''/missing.png'') (Some ''<html/>'') =
     \<lparr>statusCode = 404, resHeaders = [], resBody = ''Not Found''\<rparr> \<and>
   handleRequest (Some ''/index.html?v=2'') (Some ''<html/>'') =
     \<lparr>statusCode = 200, resHeaders = [(''Content-Type'', ''text/html; charset=utf-8'')], resBody = ''<html/>''\<rparr>"
proof -
  have p1: "request_path (Some ''/missing.png'') \<notin> {''/'', ''/index.html''}"
    by (simp add: request_path_def split_first_def)
  have p2: "request_path (Some ''/index.html?v=2'') = ''/index.html''"
    by (simp add: request_path_def split_first_def)
  show ?thesis
    using handleRequest_routes [of "Some ''/missing.png''" "Some ''<html/>''"]
          handleRequest_routes [of "Some ''/index.html?v=2''" "Some ''<html/>''" "''<html/>''"] p1 p2
    by simp
qed

text \<open>C19: When \<open>listen\<close> reports a TCP address with a port the runtime can bind, the
  server stays up and \<open>startDemoServer\<close> resolves to an address that parses back to
  the loopback origin with that port, the origin the relay script will post to; port 80,
  the default of \<open>http\<close>, drops out of the origin as the URL Standard requires.\<close>

theorem demo_server_origin_roundtrip:
  assumes "p \<le> 65535"
  shows "demo_server_started (Listening (Some (AddrInet p))) = (True, Inr (demo_url p)) \<and>
         origin_of (demo_url p) = Some (''http://127.0.0.1'' @ (if p = 80 then [] else CHR '':'' # decimal p))"
  using demo_url_origin [OF assms] by (simp add: demo_server_started_def demo_url_def)

theorem demo_server_origin_roundtrip_witness:
  "(54321::nat) \<le> 65535 \<and>
   demo_server_started (Listening (Some (AddrInet 54321))) = (True, Inr ''http://127.0.0.1:54321/index.html'') \<and>
   origin_of ''http://127.0.0.1:54321/index.html'' = Some ''http://127.0.0.1:54321''"
proof -
  have d: "decimal 54321 = ''54321''" by (simp add: decimal.simps char_of_nat_eq_iff)
  show ?thesis using demo_server_origin_roundtrip [of 54321] by (simp add: d demo_url_def)
qed

text \<open>C24: Both fallbacks show the same page: when the remote URL is not https and the
  local server is not used, the iframe loads the webview URI of
  \<open>extensionUri/src/demo/index.html\<close>, the very file the demo server reads, with the
  host's resource scheme in \<open>frame-src\<close> and the wildcard target.\<close>

theorem bundled_page_is_served_page:
  assumes "\<not> isHttpsUrl r" "\<not> a \<or> d = None \<or> d = Some []"
  shows "resolveAppSrc wv ctx r d a =
           Inr \<lparr>src = asWebviewUri wv (demo_path ctx), frameSrcCsp = cspSource wv @ '' vscode-resource:'',
                targetOrigin = ''*''\<rparr> \<and>
         demo_path ctx = extensionUri ctx @ ''/src/demo/index.html''"
proof -
  have p: "demo_path ctx = extensionUri ctx @ ''/src/demo/index.html''"
    by (simp add: demo_path_def joinPath_def)
  with resolve_bundled [OF assms] show ?thesis by simp
qed

theorem bundled_page_is_served_page_witness:
  "\<not> isHttpsUrl ''http://insecure.example'' \<and>
   resolveAppSrc \<lparr>cspSource = ''vscode-webview:'', asWebviewUri = id\<rparr> \<lparr>extensionUri = ''/ext''\<rparr>
     ''http://insecure.example'' None False =
     Inr \<lparr>src = ''/ext/src/demo/index.html'', frameSrcCsp = ''vscode-webview: vscode-resource:'', targetOrigin = ''*''\<rparr>"
proof -
  have n: "\<not> isHttpsUrl ''http://insecure.example''" by (simp add: model_defs)
  from bundled_page_is_served_page [OF n, of False None "\<lparr>cspSource = ''vscode-webview:'', asWebviewUri = id\<rparr>"
      "\<lparr>extensionUri = ''/ext''\<rparr>"] n
  show ?thesis by simp
qed

end
