(* ===== verification/WebviewHtml.thy ===== *)
theory WebviewHtml
  imports Html Resolver DemoServer "HOL-Library.Sublist"
begin

text \<open>
  The embedding-policy builder, \<open>getWebviewHtml\<close> of \<open>src/src/extension.ts\<close> (lines
  143--219): it draws a nonce, resolves the content source and fills the page template of
  lines 159--218, whose lines are \<open>webview_page\<close> here, verbatim, with the seven
  interpolations of the source. The page is a byte string: the three characters that line
  197 carries in place of a dash are their UTF-8 bytes. The template's content-security
  policy admits exactly one inline script, the relay, by the page's nonce; the relay
  forwards \<open>yaml:update\<close> messages to the iframe at the resolved target origin.
\<close>

definition utf8_mdash :: string where
  "utf8_mdash = map char_of [0xC3::nat, 0xA2, 0xE2, 0x82, 0xAC, 0xE2, 0x80, 0x9D]"

text \<open>The template of lines 159--218, one string per line.\<close>

definition webview_page :: "webview \<Rightarrow> string \<Rightarrow> string \<Rightarrow> app_src \<Rightarrow> string list" where
  \<open>webview_page wv remoteUrl nonce r = [
      ''<!DOCTYPE html>'',
      ''<html lang="en">'',
      ''<head>'',
      ''  <meta charset="UTF-8" />'',
      ''  <meta http-equiv="Content-Security-Policy"'',
      ''    content="'',
      ''      default-src 'none';'',
      ''      img-src '' @ (cspSource wv) @ '' https: data:;'',
      ''      style-src 'unsafe-inline' '' @ (cspSource wv) @ '';'',
      ''      script-src 'nonce-'' @ (nonce) @ ''';'',
      ''      frame-src '' @ (frameSrcCsp r) @ '';'',
      ''    " />'',
      ''  <meta name="viewport" content="width=device-width, initial-scale=1.0" />'',
      ''  <title>YAML Iframe Preview</title>'',
      ''  <style>'',
      ''    html, body { height: 100%; padding: 0; margin: 0; }'',
      ''    .wrap { height: 100%; display: flex; flex-direction: column; }'',
      ''    .bar {'',
      ''      padding: 8px 10px;'',
      ''      font-family: system-ui, -apple-system, Segoe UI, Roboto, sans-serif;'',
      ''      font-size: 12px;'',
      ''      border-bottom: 1px solid rgba(127,127,127,0.2);'',
      ''      display: flex;'',
      ''      gap: 10px;'',
      ''      align-items: center;'',
      ''      justify-content: space-between;'',
      ''    }'',
      ''    .muted { opacity: 0.75; }'',
      ''    iframe { flex: 1; width: 100%; border: 0; }'',
      ''    code { font-family: ui-monospace, SFMono-Regular, Menlo, Monaco, Consolas, monospace; }'',
      ''  </style>'',
      ''</head>'',
      ''<body>'',
      ''  <div class="wrap">'',
      ''    <div class="bar">'',
      ''      <div>'',
      ''        <strong>Mode:</strong>'',
      ''        <code>'' @ (escapeHtml (if isHttpsUrl remoteUrl then ''remote'' else ''local'')) @ ''</code>'',
      ''        <span class="muted">'' @ utf8_mdash @ '' '' @ (escapeHtml (if isHttpsUrl remoteUrl then remoteUrl else ''src/demo/index.html'')) @ ''</span>'',
      ''      </div>'',
      ''      <div class="muted">Forwarding YAML via <code>postMessage</code></div>'',
      ''    </div>'',
      '''',
      ''    <iframe id="app" src="'' @ (escapeHtml (src r)) @ ''"></iframe>'',
      ''  </div>'',
      '''',
      ''  <script nonce="'' @ (nonce) @ ''">'',
      ''    const iframe = document.getElementById('app');'',
      '''',
      ''    // Extension -> Webview: receive YAML updates'',
      ''    window.addEventListener('message', (event) => {'',
      ''      const msg = event.data;'',
      ''      if (!msg || msg.type !== 'yaml:update') return;'',
      '''',
      ''      // Webview -> Iframe: forward YAML'',
      ''      iframe?.contentWindow?.postMessage(msg, '' @ (json_stringify (targetOrigin r)) @ '');'',
      ''    });'',
      ''  </script>'',
      ''</body>'',
      ''</html>'']\<close>

text \<open>Lines 149--158 and the template's closing backtick: the nonce is drawn first, the
  content source is resolved (its \<open>TypeError\<close> propagates), the lines are joined by
  newlines.\<close>

definition getWebviewHtml ::
  "webview \<Rightarrow> ext_context \<Rightarrow> string \<Rightarrow> string option \<Rightarrow> bool \<Rightarrow> (nat \<Rightarrow> real) \<Rightarrow> js_error + string" where
  "getWebviewHtml wv ctx remoteUrl demoUrl allowHttp rnd =
     (let nonce = getNonce rnd in
      case resolveAppSrc wv ctx remoteUrl demoUrl allowHttp of
        Inl e \<Rightarrow> Inl e
      | Inr r \<Rightarrow> Inr (join_lines (webview_page wv remoteUrl nonce r)))"

declare utf8_mdash_def [model_defs] webview_page_def [model_defs] getWebviewHtml_def [model_defs]

section \<open>The outcome of the builder\<close>

text \<open>The page is built exactly when the source resolves; the nonce is drawn before, so a
  failing resolution still consumes the random values.\<close>

lemma getWebviewHtml_Inr:
  "resolveAppSrc wv ctx u d a = Inr r \<Longrightarrow>
   getWebviewHtml wv ctx u d a rnd = Inr (join_lines (webview_page wv u (getNonce rnd) r))"
  by (simp add: getWebviewHtml_def)

lemma getWebviewHtml_Inl:
  "resolveAppSrc wv ctx u d a = Inl e \<Longrightarrow> getWebviewHtml wv ctx u d a rnd = Inl e"
  by (simp add: getWebviewHtml_def)

lemma getWebviewHtml_remote:
  "isHttpsUrl u \<Longrightarrow> \<exists>h. getWebviewHtml wv ctx u d a rnd = Inr h"
  using resolve_remote [of u wv ctx d a] getWebviewHtml_Inr by blast

lemma getWebviewHtml_demo:
  assumes "\<not> isHttpsUrl u" "p \<le> 65535"
  shows "\<exists>h. getWebviewHtml wv ctx u (Some (demo_url p)) a rnd = Inr h"
proof (cases a)
  case True
  have "origin_of (demo_url p) = Some (''http://127.0.0.1'' @ (if p = 80 then [] else CHR '':'' # decimal p))"
    using demo_url_origin [OF assms(2)] by (simp add: demo_url_def)
  moreover have "demo_url p \<noteq> []" by (simp add: demo_url_def)
  ultimately show ?thesis using assms(1) True resolve_demo getWebviewHtml_Inr by blast
next
  case False
  then show ?thesis using assms(1) resolve_bundled [of u a] getWebviewHtml_Inr by blast
qed

section \<open>The unescaped interpolations\<close>

text \<open>Three values reach the page without \<open>escapeHtml\<close>: the webview's \<open>cspSource\<close> and
  \<open>frameSrcCsp\<close> inside the policy's \<open>content\<close> attribute (lines 166--169), and
  \<open>JSON.stringify(targetOrigin)\<close> inside the relay script (line 214). The nonce is
  alphanumeric.\<close>

lemma escapeHtml_no_lt: "CHR ''<'' \<notin> set (escapeHtml s)"
  by (auto simp: escapeHtml_eq_ref escape_ref_def dest: esc_char_no_delims)

lemma hex_digit_not_lt: "n < 16 \<Longrightarrow> hex_digit n \<noteq> CHR ''<''"
proof
  assume n: "n < 16" and h: "hex_digit n = CHR ''<''"
  show False
  proof (cases "n < 10")
    case True
    with h have "(48 + n) mod 256 = (60::nat)" by (simp add: hex_digit_def char_of_nat_eq_iff)
    with True show False by simp
  next
    case False
    with h have "(87 + n) mod 256 = (60::nat)" by (simp add: hex_digit_def char_of_nat_eq_iff)
    with n show False by simp
  qed
qed

lemma json_char_no_lt: "c \<noteq> CHR ''<'' \<Longrightarrow> CHR ''<'' \<notin> set (json_char c)"
proof -
  assume c: "c \<noteq> CHR ''<''"
  have "of_char c div 16 < (16::nat)" using nat_of_char_less_256 [of c] by (simp add: div_less_iff_less_mult)
  moreover have "of_char c mod 16 < (16::nat)" by simp
  ultimately have h: "hex_digit (of_char c div 16) \<noteq> CHR ''<''" "hex_digit (of_char c mod 16) \<noteq> CHR ''<''"
    by (simp_all add: hex_digit_not_lt)
  show ?thesis unfolding json_char_def using c h by (simp split: if_split)
qed

lemma json_stringify_no_lt: "CHR ''<'' \<notin> set s \<Longrightarrow> CHR ''<'' \<notin> set (json_stringify s)"
proof -
  assume s: "CHR ''<'' \<notin> set s"
  have "\<forall>c \<in> set s. CHR ''<'' \<notin> set (json_char c)"
    using s json_char_no_lt by metis
  then have "CHR ''<'' \<notin> set (concat (map json_char s))" by simp
  moreover have "CHR ''<'' \<noteq> CHR 0x22" by simp
  ultimately show ?thesis unfolding json_stringify_def by simp
qed

lemma getNonce_no_lt: "CHR ''<'' \<notin> set (getNonce rnd)"
proof -
  have "\<not> is_alnum (CHR ''<'')"
    by (simp add: is_alnum_def is_alpha_def is_upper_def is_lower_def is_digit_def)
  with getNonce_alnum [of rnd] show ?thesis by blast
qed

lemma resolve_no_lt:
  assumes "resolveAppSrc wv ctx u d a = Inr r" "CHR ''<'' \<notin> set (cspSource wv)"
  shows "CHR ''<'' \<notin> set (frameSrcCsp r) \<and> CHR ''<'' \<notin> set (targetOrigin r)"
proof -
  have o: "CHR ''<'' \<notin> set (targetOrigin r)" if "origin_of x = Some (targetOrigin r)" for x
    using that by (rule origin_of_no_lt)
  have star: "CHR ''<'' \<notin> set ''*''" by simp
  have v: "CHR ''<'' \<notin> set (cspSource wv @ '' vscode-resource:'')" using assms(2) by simp
  from resolve_Inr_cases [OF assms(1)] show ?thesis
    by (elim disjE conjE) (simp_all only: o star v, blast+)
qed

section \<open>Claims\<close>

text \<open>C22: The three values the page interpolates without \<open>escapeHtml\<close> cannot open a
  tag: whatever the configured URL and the demo server's address, the \<open>frame-src\<close>
  source, the relay script's \<open>JSON.stringify\<close>-ed target origin and the nonce contain no
  \<open><\<close>, provided the host's \<open>cspSource\<close> has none; the other interpolations go through
  \<open>escapeHtml\<close>. So no element and no \<open></script>\<close> can be injected into the page.\<close>

theorem unescaped_values_no_tag:
  assumes "getWebviewHtml wv ctx u d a rnd = Inr h" "CHR ''<'' \<notin> set (cspSource wv)"
  shows "\<exists>r. h = join_lines (webview_page wv u (getNonce rnd) r) \<and>
             CHR ''<'' \<notin> set (frameSrcCsp r) \<and> CHR ''<'' \<notin> set (json_stringify (targetOrigin r)) \<and>
             CHR ''<'' \<notin> set (getNonce rnd)"
proof (cases "resolveAppSrc wv ctx u d a")
  case (Inl e)
  with assms(1) show ?thesis by (simp add: getWebviewHtml_Inl)
next
  case (Inr r)
  with assms(1) have "h = join_lines (webview_page wv u (getNonce rnd) r)" by (simp add: getWebviewHtml_Inr)
  moreover from resolve_no_lt [OF Inr assms(2)]
  have "CHR ''<'' \<notin> set (frameSrcCsp r)" "CHR ''<'' \<notin> set (json_stringify (targetOrigin r))"
    by (simp_all add: json_stringify_no_lt)
  ultimately show ?thesis using getNonce_no_lt by blast
qed

theorem unescaped_values_no_tag_witness:
  "getWebviewHtml \<lparr>cspSource = ''vscode-webview:'', asWebviewUri = id\<rparr> \<lparr>extensionUri = ''/ext''\<rparr>
      ''https://ex.com/app'' None False (\<lambda>_. 1/2) =
     Inr (join_lines (webview_page \<lparr>cspSource = ''vscode-webview:'', asWebviewUri = id\<rparr> ''https://ex.com/app''
       (getNonce (\<lambda>_. 1/2)) \<lparr>src = ''https://ex.com/app'', frameSrcCsp = ''https://ex.com'', targetOrigin = ''https://ex.com''\<rparr>)) \<and>
   CHR ''<'' \<notin> set (cspSource \<lparr>cspSource = ''vscode-webview:'', asWebviewUri = id\<rparr>) \<and>
   (\<exists>r. join_lines (webview_page \<lparr>cspSource = ''vscode-webview:'', asWebviewUri = id\<rparr> ''https://ex.com/app''
       (getNonce (\<lambda>_. 1/2)) \<lparr>src = ''https://ex.com/app'', frameSrcCsp = ''https://ex.com'', targetOrigin = ''https://ex.com''\<rparr>) =
        join_lines (webview_page \<lparr>cspSource = ''vscode-webview:'', asWebviewUri = id\<rparr> ''https://ex.com/app'' (getNonce (\<lambda>_. 1/2)) r) \<and>
        CHR ''<'' \<notin> set (frameSrcCsp r) \<and> CHR ''<'' \<notin> set (json_stringify (targetOrigin r)) \<and>
        CHR ''<'' \<notin> set (getNonce (\<lambda>_. 1/2)))"
proof -
  have r: "resolveAppSrc \<lparr>cspSource = ''vscode-webview:'', asWebviewUri = id\<rparr> \<lparr>extensionUri = ''/ext''\<rparr>
      ''https://ex.com/app'' None False =
      Inr \<lparr>src = ''https://ex.com/app'', frameSrcCsp = ''https://ex.com'', targetOrigin = ''https://ex.com''\<rparr>"
    by (simp add: model_defs)
  note g = getWebviewHtml_Inr [OF r, of "\<lambda>_. 1/2"]
  have c: "CHR ''<'' \<notin> set (cspSource \<lparr>cspSource = ''vscode-webview:'', asWebviewUri = id\<rparr>)" by simp
  from unescaped_values_no_tag [OF g c] g c show ?thesis by blast
qed

lemma join_lines_append:
  "xs \<noteq> [] \<Longrightarrow> ys \<noteq> [] \<Longrightarrow> join_lines (xs @ ys) = join_lines xs @ CHR 0x0A # join_lines ys"
proof (induction xs rule: join_lines.induct)
  case (2 l)
  then show ?case by (cases ys) simp_all
qed simp_all

lemma join_lines_sublist: "ys \<noteq> [] \<Longrightarrow> sublist (join_lines ys) (join_lines (xs @ ys @ zs))"
proof (cases "xs = []"; cases "zs = []")
  assume "ys \<noteq> []" "xs \<noteq> []" "zs \<noteq> []"
  then have "join_lines (xs @ ys @ zs) = (join_lines xs @ [CHR 0x0A]) @ join_lines ys @ (CHR 0x0A # join_lines zs)"
    by (simp add: join_lines_append)
  then show ?thesis by (simp only: sublist_appendI)
next
  assume "ys \<noteq> []" "xs \<noteq> []" "zs = []"
  then have "join_lines (xs @ ys @ zs) = (join_lines xs @ [CHR 0x0A]) @ join_lines ys @ []"
    by (simp add: join_lines_append)
  then show ?thesis by (simp only: sublist_appendI)
next
  assume "ys \<noteq> []" "xs = []" "zs \<noteq> []"
  then have "join_lines (xs @ ys @ zs) = [] @ join_lines ys @ (CHR 0x0A # join_lines zs)"
    by (simp add: join_lines_append)
  then show ?thesis by (simp only: sublist_appendI)
qed simp

lemma webview_page_policy:
  \<open>sublist (join_lines [
      ''    content="'',
      ''      default-src 'none';'',
      ''      img-src '' @ (cspSource wv) @ '' https: data:;'',
      ''      style-src 'unsafe-inline' '' @ (cspSource wv) @ '';'',
      ''      script-src 'nonce-'' @ (nonce) @ ''';'',
      ''      frame-src '' @ (frameSrcCsp r) @ '';'',
      ''    " />''])
     (join_lines (webview_page wv u nonce r))\<close>
proof -
  let ?P = "webview_page wv u nonce r"
  have "?P = take 5 ?P @ take 7 (drop 5 ?P) @ drop 12 ?P"
    using take_add [of 5 7 ?P] append_take_drop_id [of 12 ?P] by simp
  moreover have \<open>take 7 (drop 5 ?P) = [
      ''    content="'',
      ''      default-src 'none';'',
      ''      img-src '' @ (cspSource wv) @ '' https: data:;'',
      ''      style-src 'unsafe-inline' '' @ (cspSource wv) @ '';'',
      ''      script-src 'nonce-'' @ (nonce) @ ''';'',
      ''      frame-src '' @ (frameSrcCsp r) @ '';'',
      ''    " />'']\<close>
    by (simp only: webview_page_def eval_nat_numeral BitM.simps drop_Suc_Cons take_Suc_Cons drop_0 take_0 One_nat_def)
  ultimately show ?thesis using join_lines_sublist [of "take 7 (drop 5 ?P)" "take 5 ?P" "drop 12 ?P"] by simp
qed

text \<open>C23: The \<open>frame-src\<close> source is interpolated into the page without \<open>escapeHtml\<close>
  (line 169), inside the content-security policy's double-quoted \<open>content\<close> attribute
  (lines 163--170): whenever the resolver succeeds, the page contains that attribute with
  the resolved origin verbatim. A double quote is not a forbidden host code point of the
  URL Standard, so an https remote URL with one in its host is honoured and its origin
  ends the attribute early.\<close>

theorem frame_src_unescaped_in_policy:
  assumes "resolveAppSrc wv ctx u d a = Inr r"
  shows \<open>\<exists>h. getWebviewHtml wv ctx u d a rnd = Inr h \<and>
     sublist (join_lines [
      ''    content="'',
      ''      default-src 'none';'',
      ''      img-src '' @ (cspSource wv) @ '' https: data:;'',
      ''      style-src 'unsafe-inline' '' @ (cspSource wv) @ '';'',
      ''      script-src 'nonce-'' @ (getNonce rnd) @ ''';'',
      ''      frame-src '' @ (frameSrcCsp r) @ '';'',
      ''    " />'']) h\<close>
  using getWebviewHtml_Inr [OF assms, of rnd] webview_page_policy [of wv "getNonce rnd" r u] by blast

theorem frame_src_unescaped_in_policy_witness:
  \<open>resolveAppSrc \<lparr>cspSource = ''vscode-webview:'', asWebviewUri = id\<rparr> \<lparr>extensionUri = ''/ext''\<rparr>
      ''https://a"b.com/'' None False =
     Inr \<lparr>src = ''https://a"b.com/'', frameSrcCsp = ''https://a"b.com'', targetOrigin = ''https://a"b.com''\<rparr> \<and>
   CHR 0x22 \<in> set (frameSrcCsp \<lparr>src = ''https://a"b.com/'', frameSrcCsp = ''https://a"b.com'', targetOrigin = ''https://a"b.com''\<rparr>) \<and>
   (\<exists>h. getWebviewHtml \<lparr>cspSource = ''vscode-webview:'', asWebviewUri = id\<rparr> \<lparr>extensionUri = ''/ext''\<rparr>
      ''https://a"b.com/'' None False (\<lambda>_. 1/2) = Inr h \<and>
     sublist (join_lines [
      ''    content="'',
      ''      default-src 'none';'',
      ''      img-src '' @ (cspSource \<lparr>cspSource = ''vscode-webview:'', asWebviewUri = id\<rparr>) @ '' https: data:;'',
      ''      style-src 'unsafe-inline' '' @ (cspSource \<lparr>cspSource = ''vscode-webview:'', asWebviewUri = id\<rparr>) @ '';'',
      ''      script-src 'nonce-'' @ (getNonce (\<lambda>_. 1/2)) @ ''';'',
      ''      frame-src '' @ (frameSrcCsp \<lparr>src = ''https://a"b.com/'', frameSrcCsp = ''https://a"b.com'', targetOrigin = ''https://a"b.com''\<rparr>) @ '';'',
      ''    " />'']) h)\<close>
proof -
  have r: \<open>resolveAppSrc \<lparr>cspSource = ''vscode-webview:'', asWebviewUri = id\<rparr> \<lparr>extensionUri = ''/ext''\<rparr>
      ''https://a"b.com/'' None False =
     Inr \<lparr>src = ''https://a"b.com/'', frameSrcCsp = ''https://a"b.com'', targetOrigin = ''https://a"b.com''\<rparr>\<close>
    by (simp add: model_defs)
  have q: \<open>CHR 0x22 \<in> set (frameSrcCsp \<lparr>src = ''https://a"b.com/'', frameSrcCsp = ''https://a"b.com'', targetOrigin = ''https://a"b.com''\<rparr>)\<close>
    by simp
  from frame_src_unescaped_in_policy [OF r, of "\<lambda>_. 1/2"] r q show ?thesis by blast
qed

end
