(* ===== verification/Extension.thy ===== *)
theory Extension
  imports Debounce WebviewHtml DemoServer
begin

text \<open>
  The extension's event loop: \<open>activate\<close> of \<open>src/src/extension.ts\<close> (lines 7--97) with
  the command \<open>yamlIframePreview.open\<close>, its registry \<open>previewByDoc\<close>, the change
  listener and the panel's dispose handler, and the debounced \<open>sendUpdate\<close>.

  The state \<open>ext_state\<close> holds what the code and the host keep: the open documents,
  the active editor, the configuration, the registry (a map from the document's URI
  string to the panel and the listener's disposable), the panels, the change listeners in
  registration order, the closures of the debounced senders (their \<open>timer\<close> variable
  and what they captured), the demo servers (listening or not), Node's timer table, and
  the open commands suspended at one of their two \<open>await\<close>s (line 36 and, inside
  \<open>startDemoServer\<close>, line 244). Every identifier comes from one counter \<open>fresh\<close>.
  \<open>uncaught\<close> are the exceptions thrown out of a timer callback, which the extension
  host reports; \<open>notices\<close> are the user-visible messages, \<open>failures\<close> the rejections
  of the command's promise.

  An \<open>event\<close> is one turn of the loop: the command, the resumption of a suspended
  command (with what the host or the socket delivered and the random values the nonce
  draws), a document change, a timer firing, the clock advancing, the user closing a
  panel, a configuration change. \<open>ext_step\<close> runs one event.
\<close>

record tdoc =
  doc_text :: string
  doc_version :: nat
  languageId :: string
  fsPath :: string
  fileName :: string

record payload =
  yaml :: string
  pl_uri :: string
  pl_fileName :: string
  pl_languageId :: string
  pl_version :: nat

datatype message = YamlUpdate payload

text \<open>A webview panel: the document it previews, what \<open>createWebviewPanel\<close> was given
  (lines 39--49: the view type, scripts enabled, the context retained when hidden, the local
  resource roots), whether the user has closed it, its page, the messages delivered to it,
  how often it was revealed, and the dispose handler the open installed.\<close>

record panel =
  panel_doc :: uri
  view_type :: string
  enable_scripts :: bool
  retain_context :: bool
  local_roots :: "string list"
  disposed :: bool
  html :: string
  received :: "message list"
  reveals :: nat
  on_dispose :: "(nat \<times> nat option \<times> uri) option"

record entry =
  e_panel :: nat
  e_disposable :: nat

record config =
  remoteUrl :: string
  debounceMs :: int
  allowHttp :: bool

record closure =
  c_timer :: "nat option"
  c_delay :: int
  c_panel :: nat
  c_doc :: uri

datatype cont =
    AfterShow uri
  | AfterListen uri nat nat config

record ext_state =
  docs :: "uri \<rightharpoonup> tdoc"
  activeEditor :: "uri option"
  cfg :: config
  host_wv :: webview
  ctx :: ext_context
  previewByDoc :: "uri \<rightharpoonup> entry"
  panels :: "nat \<rightharpoonup> panel"
  subs :: "(nat \<times> uri \<times> nat) list"
  closures :: "nat \<rightharpoonup> closure"
  servers :: "nat \<rightharpoonup> bool"
  ext_timers :: "nat timers"
  tasks :: "nat \<rightharpoonup> cont"
  fresh :: nat
  uncaught :: "js_error list"
  notices :: "string list"
  failures :: "js_error list"

datatype event =
    OpenCmd
  | ResumeShow nat "nat \<Rightarrow> real"
  | ResumeListen nat listen_outcome "nat \<Rightarrow> real"
  | Change uri string
  | Fire
  | Tick
  | Dispose nat
  | SetConfig config

section \<open>The open command\<close>

text \<open>Lines 18--21.\<close>

definition isYaml :: "tdoc \<Rightarrow> bool" where
  "isYaml d \<longleftrightarrow>
     languageId d = ''yaml'' \<or> ends_with (to_lower (fsPath d)) ''.yml'' \<or>
     ends_with (to_lower (fsPath d)) ''.yaml''"

text \<open>Lines 11--36, up to the \<open>await\<close> of \<open>showTextDocument\<close>.\<close>

definition open_cmd :: "ext_state \<Rightarrow> ext_state" where
  "open_cmd s =
     (case activeEditor s of
        None \<Rightarrow> s\<lparr>notices := notices s @ [''No active editor.'']\<rparr>
      | Some key \<Rightarrow>
          (case docs s key of
             None \<Rightarrow> s
           | Some d \<Rightarrow>
               if \<not> isYaml d then
                 s\<lparr>notices := notices s @ [''Open a YAML (.yml/.yaml) file to use this preview.'']\<rparr>
               else
                 (case previewByDoc s key of
                    Some e \<Rightarrow>
                      (case panels s (e_panel e) of
                         Some p \<Rightarrow> s\<lparr>panels := (panels s)(e_panel e \<mapsto> p\<lparr>reveals := Suc (reveals p)\<rparr>)\<rparr>
                       | None \<Rightarrow> s)
                  | None \<Rightarrow> s\<lparr>tasks := (tasks s)(fresh s \<mapsto> AfterShow key), fresh := Suc (fresh s)\<rparr>)))"

text \<open>Lines 64--93, once the demo server (if any) is up: the page, the debounced sender
  and its first call, the change listener, the dispose handler, the registry entry.
  On a panel the user has already closed, the target \<open>panel.webview\<close> of the assignment
  at line 64 is evaluated first and throws (the host's \<open>Webview is disposed\<close>), which
  rejects the command before the page is built.\<close>

definition finish_open ::
  "nat \<Rightarrow> uri \<Rightarrow> nat \<Rightarrow> config \<Rightarrow> nat option \<Rightarrow> string option \<Rightarrow> (nat \<Rightarrow> real) \<Rightarrow> ext_state \<Rightarrow> ext_state" where
  "finish_open tid key pid c srv demoUrl rnd s =
     (case panels s pid of
        None \<Rightarrow> s
      | Some p \<Rightarrow>
          if disposed p then
            s\<lparr>tasks := (tasks s)(tid := None), failures := failures s @ [Error ''Webview is disposed'']\<rparr>
          else
            (case getWebviewHtml (host_wv s) (ctx s) (remoteUrl c) demoUrl (allowHttp c) rnd of
               Inl err \<Rightarrow> s\<lparr>tasks := (tasks s)(tid := None), failures := failures s @ [err]\<rparr>
             | Inr h \<Rightarrow>
                 (let cid = fresh s; sid = Suc (fresh s);
                      delay = max 0 (debounceMs c);
                      (tm, ts) = debounce_call None cid delay (ext_timers s)
                  in s\<lparr>panels := (panels s)(pid \<mapsto> p\<lparr>html := h, on_dispose := Some (sid, srv, key)\<rparr>),
                       closures := (closures s)(cid \<mapsto> \<lparr>c_timer = tm, c_delay = delay, c_panel = pid, c_doc = key\<rparr>),
                       ext_timers := ts,
                       subs := subs s @ [(sid, key, cid)],
                       previewByDoc := (previewByDoc s)(key \<mapsto> \<lparr>e_panel = pid, e_disposable = sid\<rparr>),
                       tasks := (tasks s)(tid := None),
                       fresh := Suc (Suc (fresh s))\<rparr>)))"

text \<open>Line 5.\<close>

definition PREVIEW_VIEW_TYPE :: string where
  "PREVIEW_VIEW_TYPE = ''yamlIframePreview.preview''"

text \<open>Lines 38--49: \<open>demoRoot\<close> and \<open>createWebviewPanel\<close> with its options.\<close>

definition new_panel :: "ext_context \<Rightarrow> uri \<Rightarrow> panel" where
  "new_panel cx key =
     \<lparr>panel_doc = key, view_type = PREVIEW_VIEW_TYPE, enable_scripts = True, retain_context = True,
      local_roots = [joinPath (extensionUri cx) [''src'', ''demo'']],
      disposed = False, html = [], received = [], reveals = 0, on_dispose = None\<rparr>"

text \<open>Lines 38--62 after \<open>showTextDocument\<close> resolved: the panel is created, the
  configuration read, and the demo server started whenever the remote URL is not https.\<close>

definition resume_show :: "nat \<Rightarrow> (nat \<Rightarrow> real) \<Rightarrow> ext_state \<Rightarrow> ext_state" where
  "resume_show tid rnd s =
     (case tasks s tid of
        Some (AfterShow key) \<Rightarrow>
          (let pid = fresh s; c = cfg s;
               s1 = s\<lparr>panels := (panels s)(pid \<mapsto> new_panel (ctx s) key), fresh := Suc (fresh s)\<rparr>
           in if \<not> isHttpsUrl (remoteUrl c) then
                s1\<lparr>servers := (servers s1)(fresh s1 \<mapsto> False),
                   tasks := (tasks s1)(tid \<mapsto> AfterListen key pid (fresh s1) c),
                   fresh := Suc (fresh s1)\<rparr>
              else finish_open tid key pid c None None rnd s1)
      | _ \<Rightarrow> s)"

text \<open>The rest of \<open>startDemoServer\<close> once \<open>listen\<close> reported: a rejection rejects the
  command (the panel stays, unregistered); otherwise the open completes.\<close>

definition resume_listen :: "nat \<Rightarrow> listen_outcome \<Rightarrow> (nat \<Rightarrow> real) \<Rightarrow> ext_state \<Rightarrow> ext_state" where
  "resume_listen tid lo rnd s =
     (case tasks s tid of
        Some (AfterListen key pid sid c) \<Rightarrow>
          (case demo_server_started lo of
             (up, Inl err) \<Rightarrow> s\<lparr>servers := (servers s)(sid \<mapsto> up), tasks := (tasks s)(tid := None),
                                failures := failures s @ [err]\<rparr>
           | (up, Inr u) \<Rightarrow>
               finish_open tid key pid c (Some sid) (Some u) rnd (s\<lparr>servers := (servers s)(sid \<mapsto> up)\<rparr>))
      | _ \<Rightarrow> s)"

section \<open>Changes, timers and disposal\<close>

text \<open>Lines 82--85 for every registered listener, in registration order: a change of
  the listener's document calls its debounced sender.\<close>

definition call_sender :: "nat \<Rightarrow> ext_state \<Rightarrow> ext_state" where
  "call_sender cid s =
     (case closures s cid of
        None \<Rightarrow> s
      | Some cl \<Rightarrow>
          (let (tm, ts) = debounce_call (c_timer cl) cid (c_delay cl) (ext_timers s)
           in s\<lparr>closures := (closures s)(cid \<mapsto> cl\<lparr>c_timer := tm\<rparr>), ext_timers := ts\<rparr>))"

definition notify_change :: "uri \<Rightarrow> ext_state \<Rightarrow> ext_state" where
  "notify_change u s =
     fold (\<lambda>(_, key, cid) s'. if key \<noteq> u then s' else call_sender cid s') (subs s) s"

definition doc_change :: "uri \<Rightarrow> string \<Rightarrow> ext_state \<Rightarrow> ext_state" where
  "doc_change u t s =
     (case docs s u of
        None \<Rightarrow> s
      | Some d \<Rightarrow> notify_change u
                   (s\<lparr>docs := (docs s)(u \<mapsto> d\<lparr>doc_text := t, doc_version := Suc (doc_version d)\<rparr>)\<rparr>))"

text \<open>Lines 67--76, the sender's body: the document as it is now, posted to the panel.\<close>

definition snapshot :: "uri \<Rightarrow> tdoc \<Rightarrow> message" where
  "snapshot u d = YamlUpdate \<lparr>yaml = doc_text d, pl_uri = u, pl_fileName = fileName d,
                               pl_languageId = languageId d, pl_version = doc_version d\<rparr>"

text \<open>Line 67 when a timer fires: \<open>panel.webview\<close> throws \<open>Webview is disposed\<close> on a
  closed panel; the exception leaves the timer callback uncaught.\<close>

definition post_message :: "nat \<Rightarrow> message \<Rightarrow> ext_state \<Rightarrow> ext_state" where
  "post_message pid m s =
     (case panels s pid of
        None \<Rightarrow> s
      | Some p \<Rightarrow>
          if disposed p then s\<lparr>uncaught := uncaught s @ [Error ''Webview is disposed'']\<rparr>
          else s\<lparr>panels := (panels s)(pid \<mapsto> p\<lparr>received := received p @ [m]\<rparr>)\<rparr>)"

definition fire_timer :: "ext_state \<Rightarrow> ext_state" where
  "fire_timer s =
     (case take_due (clock (ext_timers s)) (ext_timers s) of
        None \<Rightarrow> s
      | Some ((_, cid), ts) \<Rightarrow>
          (let s1 = s\<lparr>ext_timers := ts\<rparr> in
           case closures s cid of
             None \<Rightarrow> s1
           | Some cl \<Rightarrow> (case docs s (c_doc cl) of
                           None \<Rightarrow> s1
                         | Some d \<Rightarrow> post_message (c_panel cl) (snapshot (c_doc cl) d) s1)))"

text \<open>Lines 87--91: closing a panel runs its dispose handler, if the open reached line
  87: the listener is removed, the server closed, the registry entry deleted. The
  debounced sender's pending timer is left in the table.\<close>

definition dispose_panel :: "nat \<Rightarrow> ext_state \<Rightarrow> ext_state" where
  "dispose_panel pid s =
     (case panels s pid of
        None \<Rightarrow> s
      | Some p \<Rightarrow>
          if disposed p then s
          else
            (let s1 = s\<lparr>panels := (panels s)(pid \<mapsto> p\<lparr>disposed := True\<rparr>)\<rparr> in
             case on_dispose p of
               None \<Rightarrow> s1
             | Some (sub, srv, key) \<Rightarrow>
                 s1\<lparr>subs := filter (\<lambda>(i, _, _). i \<noteq> sub) (subs s1),
                    servers := (case srv of None \<Rightarrow> servers s1 | Some i \<Rightarrow> (servers s1)(i \<mapsto> False)),
                    previewByDoc := (previewByDoc s1)(key := None)\<rparr>))"

fun ext_step :: "ext_state \<Rightarrow> event \<Rightarrow> ext_state" where
  "ext_step s OpenCmd = open_cmd s"
| "ext_step s (ResumeShow tid rnd) = resume_show tid rnd s"
| "ext_step s (ResumeListen tid lo rnd) = resume_listen tid lo rnd s"
| "ext_step s (Change u t) = doc_change u t s"
| "ext_step s Fire = fire_timer s"
| "ext_step s Tick = s\<lparr>ext_timers := (ext_timers s)\<lparr>clock := Suc (clock (ext_timers s))\<rparr>\<rparr>"
| "ext_step s (Dispose pid) = dispose_panel pid s"
| "ext_step s (SetConfig c) = s\<lparr>cfg := c\<rparr>"

definition ext_run :: "ext_state \<Rightarrow> event list \<Rightarrow> ext_state" where
  "ext_run s es = foldl ext_step s es"

text \<open>Line 8 at activation: an empty registry; the host's documents, editor,
  configuration and webview are given.\<close>

definition activate :: "(uri \<rightharpoonup> tdoc) \<Rightarrow> uri option \<Rightarrow> config \<Rightarrow> webview \<Rightarrow> ext_context \<Rightarrow> ext_state" where
  "activate ds ed c wv cx =
     \<lparr>docs = ds, activeEditor = ed, cfg = c, host_wv = wv, ctx = cx, previewByDoc = Map.empty,
      panels = Map.empty, subs = [], closures = Map.empty, servers = Map.empty,
      ext_timers = \<lparr>clock = 0, pending = [], next_id = 1\<rparr>, tasks = Map.empty, fresh = 0,
      uncaught = [], notices = [], failures = []\<rparr>"

text \<open>Lines 99--101: \<open>deactivate\<close> does nothing; the host disposes what the extension
  pushed to \<open>context.subscriptions\<close>.\<close>

definition deactivate :: "ext_state \<Rightarrow> ext_state" where
  "deactivate s = s"

inductive reachable :: "ext_state \<Rightarrow> bool" where
  init: "reachable (activate ds ed c wv cx)"
| step: "reachable s \<Longrightarrow> reachable (ext_step s e)"

declare isYaml_def [model_defs] open_cmd_def [model_defs] finish_open_def [model_defs]
  PREVIEW_VIEW_TYPE_def [model_defs] new_panel_def [model_defs] resume_show_def [model_defs] resume_listen_def [model_defs]
  call_sender_def [model_defs] notify_change_def [model_defs] doc_change_def [model_defs]
  snapshot_def [model_defs] post_message_def [model_defs] fire_timer_def [model_defs]
  dispose_panel_def [model_defs] ext_run_def [model_defs] activate_def [model_defs]

end
