(* ===== verification/Session.thy ===== *)
theory Session
  imports Extension
begin

text \<open>
  The session registry of \<open>activate\<close> (\<open>src/src/extension.ts\<close>, lines 8--93) as an
  invariant of the event loop of theory \<open>Extension\<close>, and what the open command, the
  listeners and the dispose handler do to it. A panel is seen through its \<open>pview\<close>: the
  document it was opened for, whether the user has closed it, and the dispose handler the
  open installed (the listener's disposable, the demo server, the registry key). The
  invariant \<open>reg_inv\<close> has three parts: every registry entry names a live panel of its
  document whose dispose handler deletes that entry (\<open>reg_ok\<close>); no panel has an
  identifier the counter has not yet handed out (\<open>ids_ok\<close>); an open suspended at
  \<open>listen\<close> holds a panel of its document (\<open>tasks_ok\<close>). Each operation preserves
  each part, so every reachable state satisfies it.
\<close>

section \<open>Views of the panels and the invariant\<close>

type_synonym pv = "nat \<rightharpoonup> uri \<times> bool \<times> (nat \<times> nat option \<times> uri) option"

definition pview :: "panel \<Rightarrow> uri \<times> bool \<times> (nat \<times> nat option \<times> uri) option" where
  "pview p = (panel_doc p, disposed p, on_dispose p)"

definition pviews :: "(nat \<rightharpoonup> panel) \<Rightarrow> pv" where
  "pviews m i = map_option pview (m i)"

definition reg_ok :: "(uri \<rightharpoonup> entry) \<Rightarrow> pv \<Rightarrow> bool" where
  "reg_ok reg pv \<longleftrightarrow>
     (\<forall>k e. reg k = Some e \<longrightarrow> (\<exists>srv. pv (e_panel e) = Some (k, False, Some (e_disposable e, srv, k))))"

definition ids_ok :: "pv \<Rightarrow> nat \<Rightarrow> bool" where
  "ids_ok pv fr \<longleftrightarrow> (\<forall>i. fr \<le> i \<longrightarrow> pv i = None)"

definition tasks_ok :: "pv \<Rightarrow> (nat \<rightharpoonup> cont) \<Rightarrow> bool" where
  "tasks_ok pv ts \<longleftrightarrow> (\<forall>t key pid sid c. ts t = Some (AfterListen key pid sid c) \<longrightarrow> (\<exists>r. pv pid = Some (key, r)))"

definition reg_inv :: "ext_state \<Rightarrow> bool" where
  "reg_inv s \<longleftrightarrow> reg_ok (previewByDoc s) (pviews (panels s)) \<and> ids_ok (pviews (panels s)) (fresh s) \<and>
                 tasks_ok (pviews (panels s)) (tasks s)"

section \<open>A concrete host\<close>

text \<open>One open YAML document in the active editor, a webview whose resource mapping is the
  identity, and three configurations: an https remote URL, a local \<open>http\<close> URL with
  \<open>allowHttp\<close> off (the package's defaults), and an https URL with a 1 ms delay.
  \<open>rnd_half\<close> is a \<open>Math.random\<close> that always returns \<open>0.5\<close>.\<close>

definition key_a :: uri where
  "key_a = ''file:///w/a.yaml''"

definition doc_a :: tdoc where
  "doc_a = \<lparr>doc_text = ''a: 1'', doc_version = 1, languageId = ''yaml'', fsPath = ''/w/a.yaml'',
            fileName = ''/w/a.yaml''\<rparr>"

definition wv_id :: webview where
  "wv_id = \<lparr>cspSource = ''vscode-webview:'', asWebviewUri = id\<rparr>"

definition cfg_remote :: config where
  "cfg_remote = \<lparr>remoteUrl = ''https://ex.com/app'', debounceMs = 300, allowHttp = False\<rparr>"

definition cfg_local :: config where
  "cfg_local = \<lparr>remoteUrl = ''http://localhost:5173'', debounceMs = 300, allowHttp = False\<rparr>"

definition cfg_fast :: config where
  "cfg_fast = \<lparr>remoteUrl = ''https://ex.com/app'', debounceMs = 1, allowHttp = False\<rparr>"

definition host_state :: "config \<Rightarrow> ext_state" where
  "host_state c = activate [key_a \<mapsto> doc_a] (Some key_a) c wv_id \<lparr>extensionUri = ''/ext''\<rparr>"

definition rnd_half :: "nat \<Rightarrow> real" where
  "rnd_half i = 1 / 2"

section \<open>Facts on the views\<close>

lemma pviews_upd [simp]: "pviews (m(i \<mapsto> q)) = (pviews m)(i \<mapsto> pview q)"
  by (simp add: pviews_def fun_eq_iff)

lemma pviews_upd_same [simp]: "m i = Some p \<Longrightarrow> pview q = pview p \<Longrightarrow> pviews (m(i \<mapsto> q)) = pviews m"
  by (simp add: pviews_def fun_eq_iff)

lemma reg_ok_dispose:
  assumes "reg_ok r pv" "pv pid = Some (k, False, od)"
  shows "reg_ok (case od of None \<Rightarrow> r | Some (sub, srv, key) \<Rightarrow> r(key := None)) (pv(pid \<mapsto> (k, True, od)))"
  unfolding reg_ok_def
proof (intro allI impI)
  fix k' e
  assume e: "(case od of None \<Rightarrow> r | Some (sub, srv, key) \<Rightarrow> r(key := None)) k' = Some e"
  then have "r k' = Some e" by (auto split: option.splits if_splits)
  with assms(1) obtain srv' where pe: "pv (e_panel e) = Some (k', False, Some (e_disposable e, srv', k'))"
    unfolding reg_ok_def by blast
  have "e_panel e \<noteq> pid"
  proof
    assume "e_panel e = pid"
    with pe assms(2) have "od = Some (e_disposable e, srv', k')" by simp
    with e show False by simp
  qed
  with pe show "\<exists>srv. (pv(pid \<mapsto> (k, True, od))) (e_panel e) = Some (k', False, Some (e_disposable e, srv, k'))"
    by simp
qed

lemma reg_ok_register:
  assumes "reg_ok r pv" "pv pid = Some (key, False, od)"
  shows "reg_ok (r(key \<mapsto> \<lparr>e_panel = pid, e_disposable = sid\<rparr>)) (pv(pid \<mapsto> (key, False, Some (sid, srv, key))))"
  unfolding reg_ok_def
proof (intro allI impI)
  fix k' e
  assume e: "(r(key \<mapsto> \<lparr>e_panel = pid, e_disposable = sid\<rparr>)) k' = Some e"
  show "\<exists>srv'. (pv(pid \<mapsto> (key, False, Some (sid, srv, key)))) (e_panel e) = Some (k', False, Some (e_disposable e, srv', k'))"
  proof (cases "k' = key")
    case True
    with e show ?thesis by auto
  next
    case False
    with e have "r k' = Some e" by simp
    with assms(1) obtain srv' where pe: "pv (e_panel e) = Some (k', False, Some (e_disposable e, srv', k'))"
      unfolding reg_ok_def by blast
    with assms(2) False have "e_panel e \<noteq> pid" by auto
    with pe show ?thesis by simp
  qed
qed

lemma reg_ok_fresh:
  "reg_ok r pv \<Longrightarrow> pv i = None \<Longrightarrow> reg_ok r (pv(i \<mapsto> v))"
  unfolding reg_ok_def by (metis fun_upd_other option.distinct(1))

lemma ids_ok_new: "ids_ok pv f \<Longrightarrow> ids_ok (pv(f \<mapsto> v)) (Suc f)"
  unfolding ids_ok_def by simp

lemma ids_ok_mono: "ids_ok pv f \<Longrightarrow> f \<le> f' \<Longrightarrow> ids_ok pv f'"
  unfolding ids_ok_def by simp

lemma ids_ok_upd: "ids_ok pv f \<Longrightarrow> pv i = Some v' \<Longrightarrow> ids_ok (pv(i \<mapsto> v)) f"
  unfolding ids_ok_def by auto

lemma ids_ok_None: "ids_ok pv f \<Longrightarrow> pv f = None"
  unfolding ids_ok_def by simp

lemma tasks_ok_fresh: "tasks_ok pv ts \<Longrightarrow> pv i = None \<Longrightarrow> tasks_ok (pv(i \<mapsto> v)) ts"
  unfolding tasks_ok_def by (metis fun_upd_other option.distinct(1))

lemma tasks_ok_doc: "tasks_ok pv ts \<Longrightarrow> pv i = Some (k, x) \<Longrightarrow> tasks_ok (pv(i \<mapsto> (k, y))) ts"
  unfolding tasks_ok_def
proof (intro allI impI)
  fix t key pid sid c
  assume h: "\<forall>t key pid sid c. ts t = Some (AfterListen key pid sid c) \<longrightarrow> (\<exists>r. pv pid = Some (key, r))"
    and i: "pv i = Some (k, x)" and t: "ts t = Some (AfterListen key pid sid c)"
  from h t obtain r where r: "pv pid = Some (key, r)" by blast
  show "\<exists>r. (pv(i \<mapsto> (k, y))) pid = Some (key, r)"
  proof (cases "pid = i")
    case True
    with r i show ?thesis by simp
  next
    case False
    with r show ?thesis by simp
  qed
qed

lemma tasks_ok_listen:
  "tasks_ok pv ts \<Longrightarrow> pv pid = Some (key, x) \<Longrightarrow> tasks_ok pv (ts(t \<mapsto> AfterListen key pid sid c))"
  unfolding tasks_ok_def by auto

lemma tasks_ok_show: "tasks_ok pv ts \<Longrightarrow> tasks_ok pv (ts(t \<mapsto> AfterShow key))"
  unfolding tasks_ok_def by auto

lemma tasks_ok_drop: "tasks_ok pv ts \<Longrightarrow> tasks_ok pv (ts(t := None))"
  unfolding tasks_ok_def by auto

lemma tasks_ok_pid:
  "tasks_ok pv ts \<Longrightarrow> ts t = Some (AfterListen key pid sid c) \<Longrightarrow> \<exists>x. pv pid = Some (key, x)"
  unfolding tasks_ok_def by blast

section \<open>Every operation preserves the invariant\<close>

lemma reg_inv_activate: "reg_inv (activate ds ed c wv cx)"
  by (simp add: reg_inv_def activate_def reg_ok_def ids_ok_def tasks_ok_def pviews_def)

lemma reg_inv_same_view:
  "reg_inv s \<Longrightarrow> panels s i = Some p \<Longrightarrow> pview q = pview p \<Longrightarrow> reg_inv (s\<lparr>panels := (panels s)(i \<mapsto> q)\<rparr>)"
  by (simp add: reg_inv_def del: pviews_upd)

lemma reg_inv_reveal:
  "reg_inv s \<Longrightarrow> panels s i = Some p \<Longrightarrow> reg_inv (s\<lparr>panels := (panels s)(i \<mapsto> p\<lparr>reveals := n\<rparr>)\<rparr>)"
  by (erule reg_inv_same_view) (simp_all add: pview_def)

lemma reg_inv_open_cmd: "reg_inv s \<Longrightarrow> reg_inv (open_cmd s)"
  unfolding open_cmd_def
  by (auto simp: reg_inv_reveal split: option.split) (auto simp: reg_inv_def intro: ids_ok_mono tasks_ok_show)

lemma reg_inv_drop_task:
  "reg_inv s \<Longrightarrow> reg_inv (s\<lparr>tasks := (tasks s)(tid := None), failures := fl\<rparr>)"
  by (simp add: reg_inv_def tasks_ok_drop)

lemma reg_inv_finish_open:
  assumes inv: "reg_inv s" and pv: "pviews (panels s) pid = Some (key, x)"
  shows "reg_inv (finish_open tid key pid c srv demoUrl rnd s)"
proof -
  from pv obtain p where p: "panels s pid = Some p" and pd: "panel_doc p = key"
    by (auto simp: pviews_def pview_def)
  show ?thesis
  proof (cases "disposed p")
    case True
    then show ?thesis using inv p by (simp add: finish_open_def reg_inv_drop_task)
  next
    case False
    show ?thesis
    proof (cases "getWebviewHtml (host_wv s) (ctx s) (remoteUrl c) demoUrl (allowHttp c) rnd")
      case (Inl err)
      then show ?thesis using inv p False by (simp add: finish_open_def reg_inv_drop_task)
    next
      case (Inr h)
      obtain tm ts where dc: "debounce_call None (fresh s) (max 0 (debounceMs c)) (ext_timers s) = (tm, ts)"
        by fastforce
      have v: "pviews (panels s) pid = Some (key, False, on_dispose p)"
        using p pd False by (simp add: pviews_def pview_def)
      from inv have r: "reg_ok (previewByDoc s) (pviews (panels s))" and i: "ids_ok (pviews (panels s)) (fresh s)"
        and t: "tasks_ok (pviews (panels s)) (tasks s)" by (simp_all add: reg_inv_def)
      have r': "reg_ok ((previewByDoc s)(key \<mapsto> \<lparr>e_panel = pid, e_disposable = Suc (fresh s)\<rparr>))
                  ((pviews (panels s))(pid \<mapsto> (key, False, Some (Suc (fresh s), srv, key))))"
        by (rule reg_ok_register [OF r v])
      have i': "ids_ok ((pviews (panels s))(pid \<mapsto> (key, False, Some (Suc (fresh s), srv, key)))) (Suc (Suc (fresh s)))"
        by (rule ids_ok_mono [OF ids_ok_upd [OF i v]]) simp
      have t': "tasks_ok ((pviews (panels s))(pid \<mapsto> (key, False, Some (Suc (fresh s), srv, key)))) ((tasks s)(tid := None))"
        by (rule tasks_ok_drop [OF tasks_ok_doc [OF t v]])
      show ?thesis
        using Inr p False r' i' t' by (simp add: finish_open_def Let_def dc reg_inv_def pview_def pd)
    qed
  qed
qed

lemma reg_inv_new_panel:
  assumes "reg_inv s"
  shows "reg_inv (s\<lparr>panels := (panels s)(fresh s \<mapsto> new_panel (ctx s) key), fresh := Suc (fresh s)\<rparr>)"
proof -
  from assms have r: "reg_ok (previewByDoc s) (pviews (panels s))" and i: "ids_ok (pviews (panels s)) (fresh s)"
    and t: "tasks_ok (pviews (panels s)) (tasks s)" by (simp_all add: reg_inv_def)
  have n: "pviews (panels s) (fresh s) = None" by (rule ids_ok_None [OF i])
  show ?thesis
    using reg_ok_fresh [OF r n] ids_ok_new [OF i] tasks_ok_fresh [OF t n] by (simp add: reg_inv_def)
qed

lemma reg_inv_resume_show: "reg_inv s \<Longrightarrow> reg_inv (resume_show tid rnd s)"
proof (cases "tasks s tid")
  case (Some k)
  assume inv: "reg_inv s"
  show ?thesis
  proof (cases k)
    case (AfterShow key)
    let ?s1 = "s\<lparr>panels := (panels s)(fresh s \<mapsto> new_panel (ctx s) key), fresh := Suc (fresh s)\<rparr>"
    have inv1: "reg_inv ?s1" by (rule reg_inv_new_panel [OF inv])
    have pv: "pviews (panels ?s1) (fresh s) = Some (key, False, None)"
      by (simp add: pviews_def pview_def new_panel_def)
    have listen: "reg_inv (?s1\<lparr>servers := (servers ?s1)(fresh ?s1 \<mapsto> False),
                   tasks := (tasks ?s1)(tid \<mapsto> AfterListen key (fresh s) (fresh ?s1) (cfg s)),
                   fresh := Suc (fresh ?s1)\<rparr>)"
      using inv1 pv by (auto simp: reg_inv_def tasks_ok_listen simp del: pviews_upd elim: ids_ok_mono)
    have fin: "reg_inv (finish_open tid key (fresh s) (cfg s) None None rnd ?s1)"
      by (rule reg_inv_finish_open [OF inv1 pv])
    show ?thesis
      using Some AfterShow listen fin by (simp add: resume_show_def Let_def del: pviews_upd)
  next
    case AfterListen
    with Some inv show ?thesis by (simp add: resume_show_def)
  qed
qed (simp add: resume_show_def)

lemma reg_inv_resume_listen: "reg_inv s \<Longrightarrow> reg_inv (resume_listen tid lo rnd s)"
proof (cases "tasks s tid")
  case (Some k)
  assume inv: "reg_inv s"
  show ?thesis
  proof (cases k)
    case (AfterListen key pid sid c)
    from inv Some AfterListen obtain x where pv: "pviews (panels s) pid = Some (key, x)"
      unfolding reg_inv_def using tasks_ok_pid by blast
    obtain up r where ds: "demo_server_started lo = (up, r)" by fastforce
    show ?thesis
    proof (cases r)
      case (Inl err)
      then show ?thesis using Some AfterListen ds inv by (simp add: resume_listen_def reg_inv_def tasks_ok_drop)
    next
      case (Inr u)
      have "reg_inv (s\<lparr>servers := (servers s)(sid \<mapsto> up)\<rparr>)" using inv by (simp add: reg_inv_def)
      from reg_inv_finish_open [OF this] pv
      have "reg_inv (finish_open tid key pid c (Some sid) (Some u) rnd (s\<lparr>servers := (servers s)(sid \<mapsto> up)\<rparr>))"
        by simp
      then show ?thesis using Some AfterListen ds Inr by (simp add: resume_listen_def)
    qed
  next
    case AfterShow
    with Some inv show ?thesis by (simp add: resume_listen_def)
  qed
qed (simp add: resume_listen_def)

lemma reg_inv_call_sender: "reg_inv s \<Longrightarrow> reg_inv (call_sender cid s)"
  by (simp add: call_sender_def reg_inv_def split: option.split prod.split)

lemma reg_inv_doc_change: "reg_inv s \<Longrightarrow> reg_inv (doc_change u t s)"
proof (cases "docs s u")
  case (Some d)
  assume inv: "reg_inv s"
  let ?s1 = "s\<lparr>docs := (docs s)(u \<mapsto> d\<lparr>doc_text := t, doc_version := Suc (doc_version d)\<rparr>)\<rparr>"
  have "reg_inv ?s1" using inv by (simp add: reg_inv_def)
  then have "reg_inv (notify_change u ?s1)"
    unfolding notify_change_def
    by (rule fold_preserve) (auto simp: reg_inv_call_sender)
  then show ?thesis using Some by (simp add: doc_change_def)
qed (simp add: doc_change_def)

lemma reg_inv_post_message: "reg_inv s \<Longrightarrow> reg_inv (post_message pid m s)"
proof (cases "panels s pid")
  case (Some p)
  assume inv: "reg_inv s"
  then have "reg_inv (s\<lparr>panels := (panels s)(pid \<mapsto> p\<lparr>received := received p @ [m]\<rparr>)\<rparr>)"
    using Some by (rule reg_inv_same_view) (simp add: pview_def)
  then show ?thesis using inv Some by (simp add: post_message_def reg_inv_def)
qed (simp add: post_message_def)

lemma reg_inv_fire_timer:
  assumes inv: "reg_inv s" shows "reg_inv (fire_timer s)"
proof (cases "take_due (clock (ext_timers s)) (ext_timers s)")
  case (Some r)
  obtain tid cid ts where r: "r = ((tid, cid), ts)" by (metis prod.collapse)
  have inv1: "reg_inv (s\<lparr>ext_timers := ts\<rparr>)" using inv by (simp add: reg_inv_def)
  show ?thesis
    using Some r inv1 by (simp add: fire_timer_def Let_def reg_inv_post_message split: option.split)
qed (simp add: fire_timer_def inv)

lemma reg_inv_dispose_panel:
  assumes inv: "reg_inv s" shows "reg_inv (dispose_panel pid s)"
proof (cases "panels s pid")
  case (Some p)
  show ?thesis
  proof (cases "disposed p")
    case False
    from inv have r: "reg_ok (previewByDoc s) (pviews (panels s))" and i: "ids_ok (pviews (panels s)) (fresh s)"
      and t: "tasks_ok (pviews (panels s)) (tasks s)" by (simp_all add: reg_inv_def)
    have v: "pviews (panels s) pid = Some (panel_doc p, False, on_dispose p)"
      using Some False by (simp add: pviews_def pview_def)
    have pv': "pviews ((panels s)(pid \<mapsto> p\<lparr>disposed := True\<rparr>)) = (pviews (panels s))(pid \<mapsto> (panel_doc p, True, on_dispose p))"
      by (simp add: pview_def)
    note r' = reg_ok_dispose [OF r v]
    have i': "ids_ok ((pviews (panels s))(pid \<mapsto> (panel_doc p, True, on_dispose p))) (fresh s)"
      by (rule ids_ok_upd [OF i v])
    have t': "tasks_ok ((pviews (panels s))(pid \<mapsto> (panel_doc p, True, on_dispose p))) (tasks s)"
      by (rule tasks_ok_doc [OF t v])
    show ?thesis
    proof (cases "on_dispose p")
      case None
      then show ?thesis using Some False r' i' t' pv' by (simp add: dispose_panel_def reg_inv_def Let_def del: pviews_upd)
    next
      case (Some o')
      then obtain sub srv key where "o' = (sub, srv, key)" by (metis prod.collapse)
      then show ?thesis using \<open>panels s pid = Some p\<close> Some False r' i' t' pv'
        by (simp add: dispose_panel_def reg_inv_def Let_def del: pviews_upd)
    qed
  qed (simp add: dispose_panel_def Some inv)
qed (simp add: dispose_panel_def inv)

lemma reg_inv_ext_step: "reg_inv s \<Longrightarrow> reg_inv (ext_step s e)"
  by (cases e) (simp_all add: reg_inv_open_cmd reg_inv_resume_show reg_inv_resume_listen
    reg_inv_doc_change reg_inv_fire_timer reg_inv_dispose_panel, simp_all add: reg_inv_def)

lemma reachable_reg_inv: "reachable s \<Longrightarrow> reg_inv s"
  by (induction rule: reachable.induct) (simp_all add: reg_inv_activate reg_inv_ext_step)

lemma reachable_ext_run: "reachable s \<Longrightarrow> reachable (ext_run s es)"
  unfolding ext_run_def
  by (induction es arbitrary: s) (simp_all add: reachable.step)

lemma reachable_registry:
  assumes "reachable s" "previewByDoc s k = Some e"
  shows "\<exists>p srv. panels s (e_panel e) = Some p \<and> panel_doc p = k \<and> \<not> disposed p \<and>
                 on_dispose p = Some (e_disposable e, srv, k)"
proof -
  from reachable_reg_inv [OF assms(1)] have "reg_ok (previewByDoc s) (pviews (panels s))"
    by (simp add: reg_inv_def)
  with assms(2) obtain srv where "pviews (panels s) (e_panel e) = Some (k, False, Some (e_disposable e, srv, k))"
    unfolding reg_ok_def by blast
  then show ?thesis by (auto simp: pviews_def pview_def)
qed

section \<open>Claims\<close>

text \<open>C1: In every state the extension can reach, each entry of \<open>previewByDoc\<close> names
  a panel that exists, is still open, was opened for that document, and whose dispose
  handler will remove that very entry and the listener it names.\<close>

theorem registry_consistent:
  assumes "reachable s" "previewByDoc s k = Some e"
  shows "\<exists>p srv. panels s (e_panel e) = Some p \<and> panel_doc p = k \<and> \<not> disposed p \<and>
                 on_dispose p = Some (e_disposable e, srv, k)"
  using assms by (rule reachable_registry)

text \<open>C10: Running the command on a YAML document that already has a preview reveals
  that preview and changes nothing else: no panel, task, listener or timer is created.\<close>

theorem reopen_reveals:
  assumes "reachable s" "activeEditor s = Some k" "docs s k = Some d" "isYaml d"
    and "previewByDoc s k = Some e"
  shows "\<exists>p. panels s (e_panel e) = Some p \<and>
             open_cmd s = s\<lparr>panels := (panels s)(e_panel e \<mapsto> p\<lparr>reveals := Suc (reveals p)\<rparr>)\<rparr>"
proof -
  obtain p where "panels s (e_panel e) = Some p"
    using reachable_registry [OF assms(1,5)] by blast
  with assms(2-5) show ?thesis by (simp add: open_cmd_def)
qed

text \<open>C6: With an https remote URL, the command on a YAML document without a preview,
  once \<open>showTextDocument\<close> resolves, registers a new open panel for the document, with
  its change listener subscribed and the first update scheduled.\<close>

theorem open_remote_registers:
  assumes "activeEditor s = Some k" "docs s k = Some d" "isYaml d" "previewByDoc s k = None"
    and "isHttpsUrl (remoteUrl (cfg s))"
  shows "previewByDoc (ext_run s [OpenCmd, ResumeShow (fresh s) rnd]) k =
           Some \<lparr>e_panel = Suc (fresh s), e_disposable = Suc (Suc (Suc (fresh s)))\<rparr> \<and>
         subs (ext_run s [OpenCmd, ResumeShow (fresh s) rnd]) = subs s @ [(Suc (Suc (Suc (fresh s))), k, Suc (Suc (fresh s)))] \<and>
         tasks (ext_run s [OpenCmd, ResumeShow (fresh s) rnd]) = (tasks s)(fresh s := None)"
proof -
  obtain h where h: "getWebviewHtml (host_wv s) (ctx s) (remoteUrl (cfg s)) None (allowHttp (cfg s)) rnd = Inr h"
    using getWebviewHtml_remote [OF assms(5)] by blast
  show ?thesis
    using assms h
    by (simp add: ext_run_def open_cmd_def resume_show_def finish_open_def new_panel_def Let_def
        split: prod.split)
qed

text \<open>C9: With a remote URL that is not https, the command on a YAML document without
  a preview registers it once \<open>showTextDocument\<close> resolves and the demo server reports
  a TCP port, and the server stays listening, tied to the panel's dispose handler.\<close>

theorem open_local_registers:
  assumes "activeEditor s = Some k" "docs s k = Some d" "isYaml d" "previewByDoc s k = None"
    and "\<not> isHttpsUrl (remoteUrl (cfg s))" "p \<le> 65535"
  shows "previewByDoc (ext_run s [OpenCmd, ResumeShow (fresh s) rnd, ResumeListen (fresh s) (Listening (Some (AddrInet p))) rnd']) k =
           Some \<lparr>e_panel = Suc (fresh s), e_disposable = fresh s + 4\<rparr> \<and>
         servers (ext_run s [OpenCmd, ResumeShow (fresh s) rnd, ResumeListen (fresh s) (Listening (Some (AddrInet p))) rnd'])
           (fresh s + 2) = Some True"
proof -
  obtain h where h: "getWebviewHtml (host_wv s) (ctx s) (remoteUrl (cfg s)) (Some (demo_url p)) (allowHttp (cfg s)) rnd' = Inr h"
    using getWebviewHtml_demo [OF assms(5,6)] by blast
  show ?thesis
    using assms h
    by (simp add: ext_run_def open_cmd_def resume_show_def resume_listen_def demo_server_started_def
        finish_open_def new_panel_def Let_def split: prod.split)
qed

text \<open>C14: Once \<open>showTextDocument\<close> resolves and the remote URL is not https, the command
  starts the demo server and waits for it to listen, whatever \<open>allowHttp\<close> says; with
  \<open>allowHttp\<close> off the page then loads the bundled demo and the server is never used.\<close>

theorem resume_show_starts_server:
  assumes "tasks s tid = Some (AfterShow k)" "\<not> isHttpsUrl (remoteUrl (cfg s))"
  shows "servers (resume_show tid rnd s) (Suc (fresh s)) = Some False \<and>
         tasks (resume_show tid rnd s) tid = Some (AfterListen k (fresh s) (Suc (fresh s)) (cfg s))"
  using assms by (simp add: resume_show_def Let_def)

text \<open>C12: When the demo server fails to listen, the command rejects with the socket's
  error; the panel created before stays open but is never registered, so no dispose
  handler, listener or registry entry is ever attached to it.\<close>

theorem listen_failure_leaks_panel:
  assumes "tasks s tid = Some (AfterListen k pid sid c)"
  shows "resume_listen tid (ListenFailed code) rnd s =
           s\<lparr>servers := (servers s)(sid \<mapsto> False), tasks := (tasks s)(tid := None),
              failures := failures s @ [SystemError code]\<rparr>"
  using assms by (simp add: resume_listen_def demo_server_started_def)

text \<open>C13: When the user closes the panel while the demo server is starting, the
  command rejects when it assigns the page (the host's \<open>Webview is disposed\<close>), and the
  server it started is left listening with nothing that will ever close it.\<close>

theorem dispose_during_listen_leaks_server:
  assumes "tasks s tid = Some (AfterListen k pid sid c)" "panels s pid = Some p" "disposed p"
    and "\<not> isHttpsUrl (remoteUrl c)" "port \<le> 65535"
  shows "resume_listen tid (Listening (Some (AddrInet port))) rnd s =
           s\<lparr>servers := (servers s)(sid \<mapsto> True), tasks := (tasks s)(tid := None),
              failures := failures s @ [Error ''Webview is disposed'']\<rparr>"
proof -
  obtain h where "getWebviewHtml (host_wv s) (ctx s) (remoteUrl c) (Some (demo_url port)) (allowHttp c) rnd = Inr h"
    using getWebviewHtml_demo [OF assms(4,5)] by blast
  with assms show ?thesis
    by (simp add: resume_listen_def demo_server_started_def finish_open_def)
qed

section \<open>Runs on the concrete host\<close>

lemmas run_defs = ext_run_def open_cmd_def resume_show_def resume_listen_def finish_open_def
  new_panel_def doc_change_def notify_change_def call_sender_def fire_timer_def post_message_def
  dispose_panel_def snapshot_def debounce_call_def setTimeout_def clearTimeout_def take_due_def
  node_delay_def TIMEOUT_MAX_def demo_server_started_def Let_def

lemma host_facts:
  "activeEditor (host_state c) = Some key_a" "docs (host_state c) = [key_a \<mapsto> doc_a]"
  "isYaml doc_a" "fresh (host_state c) = 0" "cfg (host_state c) = c" "host_wv (host_state c) = wv_id"
  "ctx (host_state c) = \<lparr>extensionUri = ''/ext''\<rparr>"
  by (simp_all add: host_state_def activate_def isYaml_def doc_a_def)

lemma host_reachable: "reachable (host_state c)"
  unfolding host_state_def by (rule reachable.init)

lemma remote_https: "isHttpsUrl ''https://ex.com/app''"
  by (simp add: model_defs)

lemma local_not_https: "\<not> isHttpsUrl ''http://localhost:5173''"
  by (simp add: model_defs)

lemma html_remote:
  "getWebviewHtml wv_id \<lparr>extensionUri = ''/ext''\<rparr> ''https://ex.com/app'' None False rnd =
     Inr (join_lines (webview_page wv_id ''https://ex.com/app'' (getNonce rnd)
           \<lparr>src = ''https://ex.com/app'', frameSrcCsp = ''https://ex.com'', targetOrigin = ''https://ex.com''\<rparr>))"
  by (rule getWebviewHtml_Inr) (simp add: model_defs wv_id_def)

lemmas host_run_simps = run_defs host_state_def activate_def host_facts(3) cfg_remote_def cfg_local_def
  cfg_fast_def html_remote remote_https local_not_https

lemma run_open_remote:
  "previewByDoc (ext_run (host_state cfg_remote) [OpenCmd, ResumeShow 0 rnd_half]) key_a =
     Some \<lparr>e_panel = 1, e_disposable = 3\<rparr>"
  by (simp add: host_run_simps del: getWebviewHtml_def)

lemma run_local_show:
  "tasks (ext_run (host_state cfg_local) [OpenCmd, ResumeShow 0 rnd_half]) 0 =
     Some (AfterListen key_a 1 2 cfg_local)"
  by (simp add: host_run_simps)

lemma run_local_closed:
  "tasks (ext_run (host_state cfg_local) [OpenCmd, ResumeShow 0 rnd_half, Dispose 1]) 0 =
     Some (AfterListen key_a 1 2 cfg_local) \<and>
   panels (ext_run (host_state cfg_local) [OpenCmd, ResumeShow 0 rnd_half, Dispose 1]) 1 =
     Some ((new_panel \<lparr>extensionUri = ''/ext''\<rparr> key_a)\<lparr>disposed := True\<rparr>)"
  by (simp add: host_run_simps)

section \<open>Witnesses\<close>

theorem registry_consistent_witness:
  "reachable (ext_run (host_state cfg_remote) [OpenCmd, ResumeShow 0 rnd_half]) \<and>
   previewByDoc (ext_run (host_state cfg_remote) [OpenCmd, ResumeShow 0 rnd_half]) key_a =
     Some \<lparr>e_panel = 1, e_disposable = 3\<rparr> \<and>
   (\<exists>p srv. panels (ext_run (host_state cfg_remote) [OpenCmd, ResumeShow 0 rnd_half]) 1 = Some p \<and>
      panel_doc p = key_a \<and> \<not> disposed p \<and> on_dispose p = Some (3, srv, key_a))"
proof -
  have r: "reachable (ext_run (host_state cfg_remote) [OpenCmd, ResumeShow 0 rnd_half])"
    by (rule reachable_ext_run [OF host_reachable])
  from registry_consistent [OF r run_open_remote] r run_open_remote show ?thesis by simp
qed

theorem reopen_reveals_witness:
  "reachable (ext_run (host_state cfg_remote) [OpenCmd, ResumeShow 0 rnd_half]) \<and>
   activeEditor (ext_run (host_state cfg_remote) [OpenCmd, ResumeShow 0 rnd_half]) = Some key_a \<and>
   docs (ext_run (host_state cfg_remote) [OpenCmd, ResumeShow 0 rnd_half]) key_a = Some doc_a \<and> isYaml doc_a \<and>
   previewByDoc (ext_run (host_state cfg_remote) [OpenCmd, ResumeShow 0 rnd_half]) key_a =
     Some \<lparr>e_panel = 1, e_disposable = 3\<rparr> \<and>
   (\<exists>p. panels (ext_run (host_state cfg_remote) [OpenCmd, ResumeShow 0 rnd_half]) 1 = Some p \<and>
      open_cmd (ext_run (host_state cfg_remote) [OpenCmd, ResumeShow 0 rnd_half]) =
        (ext_run (host_state cfg_remote) [OpenCmd, ResumeShow 0 rnd_half])
          \<lparr>panels := (panels (ext_run (host_state cfg_remote) [OpenCmd, ResumeShow 0 rnd_half]))
                      (1 \<mapsto> p\<lparr>reveals := Suc (reveals p)\<rparr>)\<rparr>)"
proof -
  have r: "reachable (ext_run (host_state cfg_remote) [OpenCmd, ResumeShow 0 rnd_half])"
    by (rule reachable_ext_run [OF host_reachable])
  have a: "activeEditor (ext_run (host_state cfg_remote) [OpenCmd, ResumeShow 0 rnd_half]) = Some key_a"
    and d: "docs (ext_run (host_state cfg_remote) [OpenCmd, ResumeShow 0 rnd_half]) key_a = Some doc_a"
    by (simp_all add: host_run_simps del: getWebviewHtml_def)
  from reopen_reveals [OF r a d host_facts(3) run_open_remote] r a d host_facts(3) run_open_remote
  show ?thesis by simp
qed

theorem open_remote_registers_witness:
  "activeEditor (host_state cfg_remote) = Some key_a \<and> docs (host_state cfg_remote) key_a = Some doc_a \<and>
   isYaml doc_a \<and> previewByDoc (host_state cfg_remote) key_a = None \<and>
   isHttpsUrl (remoteUrl (cfg (host_state cfg_remote))) \<and>
   previewByDoc (ext_run (host_state cfg_remote) [OpenCmd, ResumeShow 0 rnd_half]) key_a =
     Some \<lparr>e_panel = 1, e_disposable = 3\<rparr> \<and>
   subs (ext_run (host_state cfg_remote) [OpenCmd, ResumeShow 0 rnd_half]) = [(3, key_a, 2)]"
proof -
  have h: "activeEditor (host_state cfg_remote) = Some key_a" "docs (host_state cfg_remote) key_a = Some doc_a"
    "previewByDoc (host_state cfg_remote) key_a = None" "isHttpsUrl (remoteUrl (cfg (host_state cfg_remote)))"
    "subs (host_state cfg_remote) = []"
    by (simp_all add: host_state_def activate_def cfg_remote_def remote_https)
  from open_remote_registers [OF h(1,2) host_facts(3) h(3,4), of rnd_half] h host_facts(3,4)
  show ?thesis by (simp add: numeral_3_eq_3 numeral_2_eq_2)
qed

theorem open_local_registers_witness:
  "activeEditor (host_state cfg_local) = Some key_a \<and> docs (host_state cfg_local) key_a = Some doc_a \<and>
   isYaml doc_a \<and> previewByDoc (host_state cfg_local) key_a = None \<and>
   \<not> isHttpsUrl (remoteUrl (cfg (host_state cfg_local))) \<and> (54321::nat) \<le> 65535 \<and>
   previewByDoc (ext_run (host_state cfg_local)
       [OpenCmd, ResumeShow 0 rnd_half, ResumeListen 0 (Listening (Some (AddrInet 54321))) rnd_half]) key_a =
     Some \<lparr>e_panel = 1, e_disposable = 4\<rparr> \<and>
   servers (ext_run (host_state cfg_local)
       [OpenCmd, ResumeShow 0 rnd_half, ResumeListen 0 (Listening (Some (AddrInet 54321))) rnd_half]) 2 = Some True"
proof -
  have h: "activeEditor (host_state cfg_local) = Some key_a" "docs (host_state cfg_local) key_a = Some doc_a"
    "previewByDoc (host_state cfg_local) key_a = None" "\<not> isHttpsUrl (remoteUrl (cfg (host_state cfg_local)))"
    by (simp_all add: host_state_def activate_def cfg_local_def local_not_https)
  from open_local_registers [OF h(1,2) host_facts(3) h(3,4), of 54321 rnd_half rnd_half] h host_facts(3,4)
  show ?thesis by (simp add: numeral_2_eq_2)
qed

theorem resume_show_starts_server_witness:
  "tasks (open_cmd (host_state cfg_local)) 0 = Some (AfterShow key_a) \<and>
   \<not> isHttpsUrl (remoteUrl (cfg (open_cmd (host_state cfg_local)))) \<and>
   \<not> allowHttp (cfg (open_cmd (host_state cfg_local))) \<and>
   servers (resume_show 0 rnd_half (open_cmd (host_state cfg_local))) 2 = Some False"
proof -
  have o: "tasks (open_cmd (host_state cfg_local)) 0 = Some (AfterShow key_a)"
    "\<not> isHttpsUrl (remoteUrl (cfg (open_cmd (host_state cfg_local))))"
    "\<not> allowHttp (cfg (open_cmd (host_state cfg_local)))" "fresh (open_cmd (host_state cfg_local)) = 1"
    by (simp_all add: host_run_simps)
  from resume_show_starts_server [OF o(1,2), of rnd_half] o show ?thesis by (simp add: numeral_2_eq_2)
qed

theorem listen_failure_leaks_panel_witness:
  "tasks (ext_run (host_state cfg_local) [OpenCmd, ResumeShow 0 rnd_half]) 0 = Some (AfterListen key_a 1 2 cfg_local) \<and>
   panels (resume_listen 0 (ListenFailed ''EADDRINUSE'') rnd_half (ext_run (host_state cfg_local) [OpenCmd, ResumeShow 0 rnd_half])) =
     panels (ext_run (host_state cfg_local) [OpenCmd, ResumeShow 0 rnd_half]) \<and>
   failures (resume_listen 0 (ListenFailed ''EADDRINUSE'') rnd_half (ext_run (host_state cfg_local) [OpenCmd, ResumeShow 0 rnd_half])) =
     [SystemError ''EADDRINUSE'']"
proof -
  have f: "failures (ext_run (host_state cfg_local) [OpenCmd, ResumeShow 0 rnd_half]) = []"
    by (simp add: host_run_simps)
  from listen_failure_leaks_panel [OF run_local_show, of "''EADDRINUSE''" rnd_half] run_local_show f
  show ?thesis by simp
qed

theorem dispose_during_listen_leaks_server_witness:
  "tasks (ext_run (host_state cfg_local) [OpenCmd, ResumeShow 0 rnd_half, Dispose 1]) 0 =
     Some (AfterListen key_a 1 2 cfg_local) \<and>
   panels (ext_run (host_state cfg_local) [OpenCmd, ResumeShow 0 rnd_half, Dispose 1]) 1 =
     Some ((new_panel \<lparr>extensionUri = ''/ext''\<rparr> key_a)\<lparr>disposed := True\<rparr>) \<and>
   \<not> isHttpsUrl (remoteUrl cfg_local) \<and> (54321::nat) \<le> 65535 \<and>
   servers (resume_listen 0 (Listening (Some (AddrInet 54321))) rnd_half
     (ext_run (host_state cfg_local) [OpenCmd, ResumeShow 0 rnd_half, Dispose 1])) 2 = Some True"
proof -
  have n: "\<not> isHttpsUrl (remoteUrl cfg_local)" by (simp add: cfg_local_def local_not_https)
  from dispose_during_listen_leaks_server [OF conjunct1 [OF run_local_closed] conjunct2 [OF run_local_closed] _ n,
      of 54321 rnd_half] run_local_closed n
  show ?thesis by simp
qed

section \<open>What the code does under interleaving\<close>

lemma dispose_panel_keeps:
  "ext_timers (dispose_panel pid s) = ext_timers s \<and> closures (dispose_panel pid s) = closures s \<and>
   docs (dispose_panel pid s) = docs s \<and> uncaught (dispose_panel pid s) = uncaught s"
  by (simp add: dispose_panel_def Let_def split: option.split prod.split)

lemma dispose_panel_disposed:
  "panels s pid = Some p \<Longrightarrow> panels (dispose_panel pid s) pid = Some (p\<lparr>disposed := True\<rparr>)"
  by (auto simp: dispose_panel_def Let_def split: option.split prod.split)

text \<open>C2: Two runs of the command on the same document that are both suspended at
  \<open>showTextDocument\<close> (line 36) both pass the registry lookup, since the entry is written
  only at line 93: each creates and registers its own live preview, the second
  overwriting the first's entry. Closing the first preview then deletes the entry that
  names the second, which stays open, subscribed and registered with a dispose handler,
  and the next command opens a third preview of the document beside it.\<close>

theorem double_open_orphans_session:
  fixes rnd1 rnd2 :: "nat \<Rightarrow> real"
  assumes "tasks s t1 = Some (AfterShow k)" "tasks s t2 = Some (AfterShow k)" "t1 \<noteq> t2"
    and "isHttpsUrl (remoteUrl (cfg s))" "activeEditor s = Some k" "docs s k = Some d" "isYaml d"
  defines "s3 \<equiv> dispose_panel (fresh s) (resume_show t2 rnd2 (resume_show t1 rnd1 s))"
  shows "previewByDoc s3 k = None \<and>
         (\<exists>p. panels s3 (fresh s + 3) = Some p \<and> panel_doc p = k \<and> \<not> disposed p \<and>
              on_dispose p = Some (fresh s + 5, None, k)) \<and>
         (fresh s + 5, k, fresh s + 4) \<in> set (subs s3) \<and>
         tasks (open_cmd s3) (fresh s3) = Some (AfterShow k)"
proof -
  obtain h1 where h1: "getWebviewHtml (host_wv s) (ctx s) (remoteUrl (cfg s)) None (allowHttp (cfg s)) rnd1 = Inr h1"
    using getWebviewHtml_remote [OF assms(4)] by blast
  obtain h2 where h2: "getWebviewHtml (host_wv s) (ctx s) (remoteUrl (cfg s)) None (allowHttp (cfg s)) rnd2 = Inr h2"
    using getWebviewHtml_remote [OF assms(4)] by blast
  show ?thesis
    using assms(1-7) h1 h2 unfolding s3_def
    by (simp add: open_cmd_def resume_show_def finish_open_def dispose_panel_def new_panel_def Let_def
        split: prod.split)
qed

text \<open>C11: Closing a preview does not cancel its debounced sender's pending timer: the
  timer that was due when the panel closed still fires, and \<open>sendUpdate\<close> then reads
  \<open>panel.webview\<close> of the closed panel (line 67), which throws \<open>Webview is disposed\<close> out
  of the timer callback; nothing is posted and nothing else changes.\<close>

theorem post_after_dispose:
  assumes "panels s pid = Some p" "closures s cid = Some cl" "c_panel cl = pid" "docs s (c_doc cl) = Some d"
    and "take_due (clock (ext_timers s)) (ext_timers s) = Some ((tm, cid), ts)"
  shows "fire_timer (dispose_panel pid s) =
           (dispose_panel pid s)\<lparr>ext_timers := ts, uncaught := uncaught s @ [Error ''Webview is disposed'']\<rparr>"
  using assms dispose_panel_keeps [of pid s] dispose_panel_disposed [OF assms(1)]
  by (simp add: fire_timer_def post_message_def Let_def)

section \<open>Witnesses of the interleavings\<close>

lemma run_double_open:
  "tasks (ext_run (host_state cfg_remote) [OpenCmd, OpenCmd]) 0 = Some (AfterShow key_a) \<and>
   tasks (ext_run (host_state cfg_remote) [OpenCmd, OpenCmd]) 1 = Some (AfterShow key_a) \<and>
   isHttpsUrl (remoteUrl (cfg (ext_run (host_state cfg_remote) [OpenCmd, OpenCmd]))) \<and>
   activeEditor (ext_run (host_state cfg_remote) [OpenCmd, OpenCmd]) = Some key_a \<and>
   docs (ext_run (host_state cfg_remote) [OpenCmd, OpenCmd]) key_a = Some doc_a \<and>
   fresh (ext_run (host_state cfg_remote) [OpenCmd, OpenCmd]) = 2"
  by (simp add: host_run_simps)

theorem double_open_orphans_session_witness:
  "previewByDoc (dispose_panel 2 (resume_show 1 rnd_half (resume_show 0 rnd_half
      (ext_run (host_state cfg_remote) [OpenCmd, OpenCmd])))) key_a = None \<and>
   (\<exists>p. panels (dispose_panel 2 (resume_show 1 rnd_half (resume_show 0 rnd_half
      (ext_run (host_state cfg_remote) [OpenCmd, OpenCmd])))) 5 = Some p \<and>
      panel_doc p = key_a \<and> \<not> disposed p \<and> on_dispose p = Some (7, None, key_a)) \<and>
   (7, key_a, 6) \<in> set (subs (dispose_panel 2 (resume_show 1 rnd_half (resume_show 0 rnd_half
      (ext_run (host_state cfg_remote) [OpenCmd, OpenCmd])))))"
proof -
  note r = run_double_open
  from double_open_orphans_session [OF conjunct1 [OF r] conjunct1 [OF conjunct2 [OF r]] _
      conjunct1 [OF conjunct2 [OF conjunct2 [OF r]]] conjunct1 [OF conjunct2 [OF conjunct2 [OF conjunct2 [OF r]]]]
      conjunct1 [OF conjunct2 [OF conjunct2 [OF conjunct2 [OF conjunct2 [OF r]]]]] host_facts(3),
      of rnd_half rnd_half]
  show ?thesis using r by (simp add: numeral_eq_Suc)
qed

lemma run_fast_due:
  "take_due (clock (ext_timers (ext_run (host_state cfg_fast) [OpenCmd, ResumeShow 0 rnd_half, Change key_a ''a: 2'', Tick])))
     (ext_timers (ext_run (host_state cfg_fast) [OpenCmd, ResumeShow 0 rnd_half, Change key_a ''a: 2'', Tick])) =
     Some ((2, 2), \<lparr>clock = 1, pending = [], next_id = 3\<rparr>) \<and>
   closures (ext_run (host_state cfg_fast) [OpenCmd, ResumeShow 0 rnd_half, Change key_a ''a: 2'', Tick]) 2 =
     Some \<lparr>c_timer = Some 2, c_delay = 1, c_panel = 1, c_doc = key_a\<rparr> \<and>
   docs (ext_run (host_state cfg_fast) [OpenCmd, ResumeShow 0 rnd_half, Change key_a ''a: 2'', Tick]) key_a \<noteq> None \<and>
   panels (ext_run (host_state cfg_fast) [OpenCmd, ResumeShow 0 rnd_half, Change key_a ''a: 2'', Tick]) 1 \<noteq> None \<and>
   uncaught (ext_run (host_state cfg_fast) [OpenCmd, ResumeShow 0 rnd_half, Change key_a ''a: 2'', Tick]) = []"
  by (simp add: host_run_simps del: getWebviewHtml_def)

theorem post_after_dispose_witness:
  "fire_timer (dispose_panel 1 (ext_run (host_state cfg_fast) [OpenCmd, ResumeShow 0 rnd_half, Change key_a ''a: 2'', Tick])) =
     (dispose_panel 1 (ext_run (host_state cfg_fast) [OpenCmd, ResumeShow 0 rnd_half, Change key_a ''a: 2'', Tick]))
       \<lparr>ext_timers := \<lparr>clock = 1, pending = [], next_id = 3\<rparr>, uncaught := [Error ''Webview is disposed'']\<rparr>"
proof -
  let ?S = "ext_run (host_state cfg_fast) [OpenCmd, ResumeShow 0 rnd_half, Change key_a ''a: 2'', Tick]"
  note r = run_fast_due
  have p: "panels ?S 1 = Some (the (panels ?S 1))" and d: "docs ?S (c_doc \<lparr>c_timer = Some 2, c_delay = 1, c_panel = 1, c_doc = key_a\<rparr>) = Some (the (docs ?S key_a))"
    using r by auto
  have c: "closures ?S 2 = Some \<lparr>c_timer = Some 2, c_delay = 1, c_panel = 1, c_doc = key_a\<rparr>"
    and t: "take_due (clock (ext_timers ?S)) (ext_timers ?S) = Some ((2, 2), \<lparr>clock = 1, pending = [], next_id = 3\<rparr>)"
    using r by simp_all
  have "c_panel \<lparr>c_timer = Some 2, c_delay = 1, c_panel = 1, c_doc = key_a\<rparr> = (1::nat)" by simp
  from post_after_dispose [OF p c this d t] r show ?thesis by simp
qed

end
