(* ===== verification/Streams.thy ===== *)
theory Streams
  imports Session
begin

text \<open>
  The change streamer inside the event loop: the closures of the debounced senders
  (\<open>debounce\<close>, lines 260--266, with \<open>sendUpdate\<close> of lines 66--77), Node's timer table
  they share, and the panels they post to. The invariant \<open>str_inv\<close> adds to the registry
  invariant of \<open>Session\<close>: every pending timer belongs to a sender whose \<open>timer\<close>
  variable holds its identifier, and identifiers are distinct and below the table's
  counter (\<open>timers_ok\<close>); every sender was created by an open and targets a panel of
  the document it reads (\<open>closures_ok\<close>); every message a panel has received is a
  snapshot of the panel's document (\<open>msgs_ok\<close>).
\<close>

section \<open>The invariant\<close>

primrec msg_doc :: "message \<Rightarrow> uri" where
  "msg_doc (YamlUpdate pl) = pl_uri pl"

definition timers_ok :: "(nat \<rightharpoonup> closure) \<Rightarrow> (nat \<times> time \<times> nat) list \<Rightarrow> nat \<Rightarrow> bool" where
  "timers_ok cls ps nid \<longleftrightarrow>
     distinct (map fst ps) \<and>
     (\<forall>x \<in> set ps. fst x < nid \<and> (\<exists>cl. cls (snd (snd x)) = Some cl \<and> c_timer cl = Some (fst x)))"

definition closures_ok :: "(nat \<rightharpoonup> closure) \<Rightarrow> pv \<Rightarrow> nat \<Rightarrow> bool" where
  "closures_ok cls pv fr \<longleftrightarrow>
     (\<forall>cid cl. cls cid = Some cl \<longrightarrow> cid < fr \<and> (\<exists>r. pv (c_panel cl) = Some (c_doc cl, r)))"

definition msgs_ok :: "(nat \<rightharpoonup> panel) \<Rightarrow> bool" where
  "msgs_ok m \<longleftrightarrow> (\<forall>i p. m i = Some p \<longrightarrow> (\<forall>x \<in> set (received p). msg_doc x = panel_doc p))"

definition str_rest :: "ext_state \<Rightarrow> bool" where
  "str_rest s \<longleftrightarrow>
     timers_ok (closures s) (pending (ext_timers s)) (next_id (ext_timers s)) \<and>
     closures_ok (closures s) (pviews (panels s)) (fresh s) \<and> msgs_ok (panels s)"

definition str_inv :: "ext_state \<Rightarrow> bool" where
  "str_inv s \<longleftrightarrow> reg_inv s \<and> str_rest s"

section \<open>Facts on the parts\<close>

lemma debounce_call_eq:
  "debounce_call tm cb d ts =
     (Some (next_id ts),
      ts\<lparr>pending := (case tm of Some i \<Rightarrow> filter (\<lambda>(j, _, _). j \<noteq> i) (pending ts) | None \<Rightarrow> pending ts)
                    @ [(next_id ts, clock ts + node_delay d, cb)],
         next_id := Suc (next_id ts)\<rparr>)"
  by (cases tm) (simp_all add: debounce_call_def setTimeout_def clearTimeout_def)

lemma msgs_ok_upd:
  "msgs_ok m \<Longrightarrow> \<forall>x \<in> set (received q). msg_doc x = panel_doc q \<Longrightarrow> msgs_ok (m(i \<mapsto> q))"
  unfolding msgs_ok_def by auto

lemma msgs_ok_keep:
  "msgs_ok m \<Longrightarrow> m i = Some p \<Longrightarrow> received q = received p \<Longrightarrow> panel_doc q = panel_doc p \<Longrightarrow> msgs_ok (m(i \<mapsto> q))"
  unfolding msgs_ok_def by auto

lemma timers_ok_filter:
  "timers_ok cls ps nid \<Longrightarrow> timers_ok cls (filter P ps) nid"
  unfolding timers_ok_def by (auto simp: distinct_map_filter)

lemma timers_ok_new:
  assumes "timers_ok cls ps nid" "cls cid = None" "c_timer cl = Some nid"
  shows "timers_ok (cls(cid \<mapsto> cl)) (ps @ [(nid, due, cid)]) (Suc nid)"
proof -
  have "\<forall>x \<in> set ps. snd (snd x) \<noteq> cid" using assms(1,2) unfolding timers_ok_def by fastforce
  then show ?thesis using assms unfolding timers_ok_def by (auto simp: less_Suc_eq)
qed

lemma timers_ok_call:
  assumes "timers_ok cls ps nid" "cls cid = Some cl"
  shows "timers_ok (cls(cid \<mapsto> cl\<lparr>c_timer := Some nid\<rparr>))
           ((case c_timer cl of Some i \<Rightarrow> filter (\<lambda>(j, _, _). j \<noteq> i) ps | None \<Rightarrow> ps) @ [(nid, due, cid)])
           (Suc nid)"
proof -
  let ?ps = "case c_timer cl of Some i \<Rightarrow> filter (\<lambda>(j, _, _). j \<noteq> i) ps | None \<Rightarrow> ps"
  have sub: "set ?ps \<subseteq> set ps" by (auto split: option.split)
  have d: "distinct (map fst ?ps)" using assms(1) unfolding timers_ok_def
    by (auto simp: distinct_map_filter split: option.split)
  have other: "snd (snd x) \<noteq> cid" if "x \<in> set ?ps" for x
  proof
    assume c: "snd (snd x) = cid"
    from that sub assms(1) obtain cl' where "cls (snd (snd x)) = Some cl'" "c_timer cl' = Some (fst x)"
      unfolding timers_ok_def by blast
    with c assms(2) have "c_timer cl = Some (fst x)" by simp
    with that show False by (auto split: prod.splits)
  qed
  have lt: "fst x < nid" if "x \<in> set ?ps" for x using that sub assms(1) unfolding timers_ok_def by blast
  have all: "\<forall>x \<in> set (?ps @ [(nid, due, cid)]). fst x < Suc nid \<and>
               (\<exists>cl'. (cls(cid \<mapsto> cl\<lparr>c_timer := Some nid\<rparr>)) (snd (snd x)) = Some cl' \<and> c_timer cl' = Some (fst x))"
  proof
    fix x assume x: "x \<in> set (?ps @ [(nid, due, cid)])"
    show "fst x < Suc nid \<and> (\<exists>cl'. (cls(cid \<mapsto> cl\<lparr>c_timer := Some nid\<rparr>)) (snd (snd x)) = Some cl' \<and> c_timer cl' = Some (fst x))"
    proof (cases "x \<in> set ?ps")
      case True
      with sub assms(1) have "fst x < nid \<and> (\<exists>cl'. cls (snd (snd x)) = Some cl' \<and> c_timer cl' = Some (fst x))"
        unfolding timers_ok_def by blast
      with other [OF True] show ?thesis by simp
    next
      case False
      with x show ?thesis by simp
    qed
  qed
  have "distinct (map fst (?ps @ [(nid, due, cid)]))" using d lt by auto
  with all show ?thesis unfolding timers_ok_def by blast
qed

lemma closures_ok_mono: "closures_ok cls pv fr \<Longrightarrow> fr \<le> fr' \<Longrightarrow> closures_ok cls pv fr'"
  unfolding closures_ok_def by fastforce

lemma closures_ok_fresh_panel: "closures_ok cls pv fr \<Longrightarrow> pv i = None \<Longrightarrow> closures_ok cls (pv(i \<mapsto> v)) fr"
  unfolding closures_ok_def by (metis fun_upd_other option.distinct(1))

lemma closures_ok_doc:
  assumes "closures_ok cls pv fr" "pv i = Some (k, x)"
  shows "closures_ok cls (pv(i \<mapsto> (k, y))) fr"
  unfolding closures_ok_def
proof (intro allI impI)
  fix cid cl assume c: "cls cid = Some cl"
  with assms(1) obtain r where lt: "cid < fr" and r: "pv (c_panel cl) = Some (c_doc cl, r)"
    unfolding closures_ok_def by blast
  show "cid < fr \<and> (\<exists>r. (pv(i \<mapsto> (k, y))) (c_panel cl) = Some (c_doc cl, r))"
  proof (cases "c_panel cl = i")
    case True
    with r assms(2) lt show ?thesis by simp
  next
    case False
    with r lt show ?thesis by simp
  qed
qed

lemma closures_ok_timer:
  "closures_ok cls pv fr \<Longrightarrow> cls cid = Some cl \<Longrightarrow> closures_ok (cls(cid \<mapsto> cl\<lparr>c_timer := t\<rparr>)) pv fr"
  unfolding closures_ok_def by auto

lemma closures_ok_new:
  assumes "closures_ok cls pv fr" "pv (c_panel cl) = Some (c_doc cl, r)" "fr < fr'"
  shows "closures_ok (cls(fr \<mapsto> cl)) pv fr'"
  unfolding closures_ok_def
proof (intro allI impI)
  fix cid cl' assume c: "(cls(fr \<mapsto> cl)) cid = Some cl'"
  show "cid < fr' \<and> (\<exists>r. pv (c_panel cl') = Some (c_doc cl', r))"
  proof (cases "cid = fr")
    case True
    with c assms(2,3) show ?thesis by auto
  next
    case False
    with c assms(1,3) show ?thesis unfolding closures_ok_def by fastforce
  qed
qed

lemma closures_ok_None: "closures_ok cls pv fr \<Longrightarrow> cls fr = None"
  unfolding closures_ok_def by (cases "cls fr") auto

lemma take_due_keeps_counter:
  "take_due t ts = Some ((i, cb), ts') \<Longrightarrow> next_id ts' = next_id ts"
  by (auto simp: take_due_def Let_def split: if_splits prod.splits)

lemma distinct_same_key_length:
  "distinct (map f xs) \<Longrightarrow> \<forall>x \<in> set xs. f x = k \<Longrightarrow> length xs \<le> 1"
proof (induction xs)
  case (Cons a xs)
  then have "xs = []" by (cases xs) auto
  then show ?case by simp
qed simp

lemma timers_ok_one_per_callback:
  assumes "timers_ok cls ps nid"
  shows "length (filter (\<lambda>x. snd (snd x) = cid) ps) \<le> 1"
proof (cases "cls cid")
  case None
  with assms have "filter (\<lambda>x. snd (snd x) = cid) ps = []"
    unfolding timers_ok_def by (fastforce simp: filter_empty_conv)
  then show ?thesis by simp
next
  case (Some cl)
  have "distinct (map fst (filter (\<lambda>x. snd (snd x) = cid) ps))"
    using assms unfolding timers_ok_def by (simp add: distinct_map_filter)
  moreover have "\<forall>x \<in> set (filter (\<lambda>x. snd (snd x) = cid) ps). Some (fst x) = c_timer cl"
    using assms Some unfolding timers_ok_def by fastforce
  then have "\<forall>x \<in> set (filter (\<lambda>x. snd (snd x) = cid) ps). fst x = the (c_timer cl)"
    by (metis option.sel)
  ultimately show ?thesis by (rule distinct_same_key_length)
qed

lemma fire_timer_timers:
  "ext_timers (fire_timer s) =
     (case take_due (clock (ext_timers s)) (ext_timers s) of None \<Rightarrow> ext_timers s | Some (_, ts) \<Rightarrow> ts)"
  by (auto simp: fire_timer_def post_message_def Let_def split: option.split prod.split)

lemma take_due_keeps_clock:
  "take_due t ts = Some ((i, cb), ts') \<Longrightarrow> clock ts' = clock ts"
  by (auto simp: take_due_def Let_def split: if_splits prod.splits)

lemma fire_turns_clear:
  "length (pending (ext_timers s)) \<le> n \<Longrightarrow>
   filter (\<lambda>(_, dl, _). dl \<le> clock (ext_timers s)) (pending (ext_timers (foldl ext_step s (replicate n Fire)))) = []"
proof (induction n arbitrary: s)
  case 0
  then show ?case by simp
next
  case (Suc n)
  show ?case
  proof (cases "take_due (clock (ext_timers s)) (ext_timers s)")
    case None
    then have "fire_timer s = s" by (simp add: fire_timer_def)
    then have "foldl ext_step s (replicate (Suc n) Fire) = s"
      by (induction n) (simp_all add: replicate_app_Cons_same [symmetric])
    with None show ?thesis by (simp add: take_due_None_iff)
  next
    case (Some res)
    obtain i cb ts where res: "res = ((i, cb), ts)" by (metis prod.collapse)
    from take_due_Some [of "clock (ext_timers s)" "ext_timers s" i cb ts] Some res
    obtain dl c where p: "pending ts = filter (\<lambda>(j, _, _). j \<noteq> i) (pending (ext_timers s))"
      and m: "(i, dl, c) \<in> set (pending (ext_timers s))" by blast
    have t: "ext_timers (fire_timer s) = ts" using Some res by (simp add: fire_timer_timers)
    have c: "clock ts = clock (ext_timers s)" using Some res by (simp add: take_due_keeps_clock)
    have "length (pending ts) < length (pending (ext_timers s))"
      unfolding p using m by (intro length_filter_less) auto
    with Suc.prems t have "length (pending (ext_timers (fire_timer s))) \<le> n" by simp
    from Suc.IH [OF this] t c show ?thesis by simp
  qed
qed

section \<open>Every operation preserves the invariant\<close>

lemma str_rest_same_view:
  assumes "str_rest s" "panels s i = Some p" "pview q = pview p" "received q = received p"
  shows "str_rest (s\<lparr>panels := (panels s)(i \<mapsto> q)\<rparr>)"
proof -
  have "panel_doc q = panel_doc p" using assms(3) by (simp add: pview_def)
  with assms show ?thesis by (simp add: str_rest_def msgs_ok_keep del: pviews_upd)
qed

lemma str_rest_open_cmd: "str_rest s \<Longrightarrow> str_rest (open_cmd s)"
  unfolding open_cmd_def
  by (auto split: option.split intro: str_rest_same_view simp: pview_def)
     (auto simp: str_rest_def intro: closures_ok_mono)

lemma str_rest_new_panel:
  assumes "reg_inv s" "str_rest s"
  shows "str_rest (s\<lparr>panels := (panels s)(fresh s \<mapsto> new_panel (ctx s) key), fresh := Suc (fresh s)\<rparr>)"
proof -
  have n: "pviews (panels s) (fresh s) = None" using assms(1) by (simp add: reg_inv_def ids_ok_None)
  from assms(2) have t: "timers_ok (closures s) (pending (ext_timers s)) (next_id (ext_timers s))"
    and c: "closures_ok (closures s) (pviews (panels s)) (fresh s)" and m: "msgs_ok (panels s)"
    by (simp_all add: str_rest_def)
  have "closures_ok (closures s) ((pviews (panels s))(fresh s \<mapsto> pview (new_panel (ctx s) key))) (Suc (fresh s))"
    by (rule closures_ok_mono [OF closures_ok_fresh_panel [OF c n]]) simp
  moreover have "msgs_ok ((panels s)(fresh s \<mapsto> new_panel (ctx s) key))"
    by (rule msgs_ok_upd [OF m]) (simp add: new_panel_def)
  ultimately show ?thesis using t by (simp add: str_rest_def)
qed

lemma str_rest_finish_open:
  assumes inv: "str_rest s" and pv: "pviews (panels s) pid = Some (key, x)"
  shows "str_rest (finish_open tid key pid c srv demoUrl rnd s)"
proof -
  from pv obtain p where p: "panels s pid = Some p" and pd: "panel_doc p = key"
    by (auto simp: pviews_def pview_def)
  show ?thesis
  proof (cases "disposed p")
    case True
    then show ?thesis using inv p by (simp add: finish_open_def str_rest_def)
  next
    case False
    show ?thesis
    proof (cases "getWebviewHtml (host_wv s) (ctx s) (remoteUrl c) demoUrl (allowHttp c) rnd")
    case (Inl err)
    then show ?thesis using inv p False by (simp add: finish_open_def str_rest_def)
  next
    case (Inr h)
    let ?ts = "ext_timers s" and ?cl = "\<lparr>c_timer = Some (next_id (ext_timers s)), c_delay = max 0 (debounceMs c),
                                        c_panel = pid, c_doc = key\<rparr>"
    from inv have t: "timers_ok (closures s) (pending ?ts) (next_id ?ts)"
      and cl: "closures_ok (closures s) (pviews (panels s)) (fresh s)" and m: "msgs_ok (panels s)"
      by (simp_all add: str_rest_def)
    have v: "pviews (panels s) pid = Some (key, False, on_dispose p)"
      using p pd False by (simp add: pviews_def pview_def)
    have t': "timers_ok ((closures s)(fresh s \<mapsto> ?cl))
                (pending ?ts @ [(next_id ?ts, clock ?ts + node_delay (max 0 (debounceMs c)), fresh s)])
                (Suc (next_id ?ts))"
      by (rule timers_ok_new [OF t closures_ok_None [OF cl]]) simp
    have c1: "closures_ok (closures s) ((pviews (panels s))(pid \<mapsto> (key, False, Some (Suc (fresh s), srv, key)))) (fresh s)"
      by (rule closures_ok_doc [OF cl v])
    have c': "closures_ok ((closures s)(fresh s \<mapsto> ?cl))
                ((pviews (panels s))(pid \<mapsto> (key, False, Some (Suc (fresh s), srv, key)))) (Suc (Suc (fresh s)))"
      by (rule closures_ok_new [OF c1]) simp_all
    have m': "msgs_ok ((panels s)(pid \<mapsto> p\<lparr>html := h, on_dispose := Some (Suc (fresh s), srv, key)\<rparr>))"
      by (rule msgs_ok_keep [OF m p]) simp_all
    show ?thesis
      using Inr p False t' c' m' pd
      by (simp add: finish_open_def Let_def debounce_call_eq str_rest_def pview_def)
    qed
  qed
qed

lemma str_rest_resume_show:
  assumes "reg_inv s" "str_rest s"
  shows "str_rest (resume_show tid rnd s)"
proof (cases "tasks s tid")
  case (Some k)
  show ?thesis
  proof (cases k)
    case (AfterShow key)
    let ?s1 = "s\<lparr>panels := (panels s)(fresh s \<mapsto> new_panel (ctx s) key), fresh := Suc (fresh s)\<rparr>"
    have r1: "str_rest ?s1" by (rule str_rest_new_panel [OF assms])
    have pv: "pviews (panels ?s1) (fresh s) = Some (key, False, None)"
      by (simp add: pviews_def pview_def new_panel_def)
    have listen: "str_rest (?s1\<lparr>servers := (servers ?s1)(fresh ?s1 \<mapsto> False),
                   tasks := (tasks ?s1)(tid \<mapsto> AfterListen key (fresh s) (fresh ?s1) (cfg s)),
                   fresh := Suc (fresh ?s1)\<rparr>)"
      using r1 by (auto simp: str_rest_def simp del: pviews_upd elim: closures_ok_mono)
    have fin: "str_rest (finish_open tid key (fresh s) (cfg s) None None rnd ?s1)"
      by (rule str_rest_finish_open [OF r1 pv])
    show ?thesis
      using Some AfterShow listen fin by (simp add: resume_show_def Let_def del: pviews_upd)
  next
    case AfterListen
    with Some assms show ?thesis by (simp add: resume_show_def)
  qed
qed (simp add: resume_show_def assms)

lemma str_rest_resume_listen:
  assumes inv: "reg_inv s" and r: "str_rest s"
  shows "str_rest (resume_listen tid lo rnd s)"
proof (cases "tasks s tid")
  case (Some k)
  show ?thesis
  proof (cases k)
    case (AfterListen key pid sid c)
    from inv Some AfterListen obtain x where pv: "pviews (panels s) pid = Some (key, x)"
      unfolding reg_inv_def using tasks_ok_pid by blast
    obtain up res where ds: "demo_server_started lo = (up, res)" by fastforce
    have r1: "str_rest (s\<lparr>servers := (servers s)(sid \<mapsto> up)\<rparr>)" using r by (simp add: str_rest_def)
    show ?thesis
    proof (cases res)
      case (Inl err)
      then show ?thesis using Some AfterListen ds r by (simp add: resume_listen_def str_rest_def)
    next
      case (Inr u)
      from str_rest_finish_open [OF r1] pv
      have "str_rest (finish_open tid key pid c (Some sid) (Some u) rnd (s\<lparr>servers := (servers s)(sid \<mapsto> up)\<rparr>))"
        by simp
      then show ?thesis using Some AfterListen ds Inr by (simp add: resume_listen_def)
    qed
  next
    case AfterShow
    with Some r show ?thesis by (simp add: resume_listen_def)
  qed
qed (simp add: resume_listen_def r)

lemma str_rest_call_sender: "str_rest s \<Longrightarrow> str_rest (call_sender cid s)"
proof (cases "closures s cid")
  case (Some cl)
  assume r: "str_rest s"
  then have t: "timers_ok (closures s) (pending (ext_timers s)) (next_id (ext_timers s))"
    and c: "closures_ok (closures s) (pviews (panels s)) (fresh s)" and m: "msgs_ok (panels s)"
    by (simp_all add: str_rest_def)
  note t' = timers_ok_call [OF t Some, of "clock (ext_timers s) + node_delay (c_delay cl)"]
  note c' = closures_ok_timer [OF c Some, of "Some (next_id (ext_timers s))"]
  show ?thesis using Some t' c' m by (simp add: call_sender_def debounce_call_eq str_rest_def)
qed (simp add: call_sender_def)

lemma str_rest_doc_change: "str_rest s \<Longrightarrow> str_rest (doc_change u t s)"
proof (cases "docs s u")
  case (Some d)
  assume r: "str_rest s"
  let ?s1 = "s\<lparr>docs := (docs s)(u \<mapsto> d\<lparr>doc_text := t, doc_version := Suc (doc_version d)\<rparr>)\<rparr>"
  have "str_rest ?s1" using r by (simp add: str_rest_def)
  then have "str_rest (notify_change u ?s1)"
    unfolding notify_change_def by (rule fold_preserve) (auto simp: str_rest_call_sender)
  then show ?thesis using Some by (simp add: doc_change_def)
qed (simp add: doc_change_def)

lemma str_rest_post_message:
  assumes r: "str_rest s" and doc: "\<And>p. panels s pid = Some p \<Longrightarrow> msg_doc m = panel_doc p"
  shows "str_rest (post_message pid m s)"
proof (cases "panels s pid")
  case (Some p)
  have "str_rest (s\<lparr>panels := (panels s)(pid \<mapsto> p\<lparr>received := received p @ [m]\<rparr>)\<rparr>)"
  proof -
    from r have "msgs_ok (panels s)" by (simp add: str_rest_def)
    then have "msgs_ok ((panels s)(pid \<mapsto> p\<lparr>received := received p @ [m]\<rparr>))"
      using Some doc [OF Some] unfolding msgs_ok_def by auto
    moreover have "pviews ((panels s)(pid \<mapsto> p\<lparr>received := received p @ [m]\<rparr>)) = pviews (panels s)"
      using Some by (intro pviews_upd_same) (simp_all add: pview_def)
    ultimately show ?thesis using r by (simp add: str_rest_def del: pviews_upd)
  qed
  then show ?thesis using r Some by (simp add: post_message_def str_rest_def split: if_split)
qed (simp add: post_message_def r)

lemma str_rest_fire_timer:
  assumes r: "str_rest s" shows "str_rest (fire_timer s)"
proof (cases "take_due (clock (ext_timers s)) (ext_timers s)")
  case (Some res)
  obtain tid cid ts where res: "res = ((tid, cid), ts)" by (metis prod.collapse)
  from Some res have tk: "take_due (clock (ext_timers s)) (ext_timers s) = Some ((tid, cid), ts)" by simp
  from take_due_Some [OF tk] take_due_keeps_counter [OF tk]
  have ts: "pending ts = filter (\<lambda>(j, _, _). j \<noteq> tid) (pending (ext_timers s))" "next_id ts = next_id (ext_timers s)"
    by simp_all
  have r1: "str_rest (s\<lparr>ext_timers := ts\<rparr>)"
    using r ts by (simp add: str_rest_def timers_ok_filter)
  have post: "str_rest (post_message (c_panel cl) (snapshot (c_doc cl) d) (s\<lparr>ext_timers := ts\<rparr>))"
    if cl: "closures s cid = Some cl" for cl d
  proof (rule str_rest_post_message [OF r1])
    fix p assume p: "panels (s\<lparr>ext_timers := ts\<rparr>) (c_panel cl) = Some p"
    from r cl obtain x where "pviews (panels s) (c_panel cl) = Some (c_doc cl, x)"
      unfolding str_rest_def closures_ok_def by blast
    with p show "msg_doc (snapshot (c_doc cl) d) = panel_doc p"
      by (simp add: pviews_def pview_def snapshot_def)
  qed
  show ?thesis
    using tk r1 post by (simp add: fire_timer_def Let_def split: option.split)
qed (simp add: fire_timer_def r)

lemma str_rest_dispose_panel:
  assumes r: "str_rest s" shows "str_rest (dispose_panel pid s)"
proof (cases "panels s pid")
  case (Some p)
  show ?thesis
  proof (cases "disposed p")
    case False
    from r have t: "timers_ok (closures s) (pending (ext_timers s)) (next_id (ext_timers s))"
      and c: "closures_ok (closures s) (pviews (panels s)) (fresh s)" and m: "msgs_ok (panels s)"
      by (simp_all add: str_rest_def)
    have v: "pviews (panels s) pid = Some (panel_doc p, False, on_dispose p)"
      using Some False by (simp add: pviews_def pview_def)
    have c': "closures_ok (closures s) ((pviews (panels s))(pid \<mapsto> (panel_doc p, True, on_dispose p))) (fresh s)"
      by (rule closures_ok_doc [OF c v])
    have m': "msgs_ok ((panels s)(pid \<mapsto> p\<lparr>disposed := True\<rparr>))"
      by (rule msgs_ok_keep [OF m Some]) simp_all
    have s1: "str_rest (s\<lparr>panels := (panels s)(pid \<mapsto> p\<lparr>disposed := True\<rparr>)\<rparr>)"
      using t c' m' by (simp add: str_rest_def pview_def)
    show ?thesis
    proof (cases "on_dispose p")
      case None
      then show ?thesis using Some False s1 by (simp add: dispose_panel_def Let_def)
    next
      case (Some o')
      then obtain sub srv key where "o' = (sub, srv, key)" by (metis prod.collapse)
      then show ?thesis using \<open>panels s pid = Some p\<close> Some False s1
        by (simp add: dispose_panel_def Let_def str_rest_def)
    qed
  qed (simp add: dispose_panel_def Some r)
qed (simp add: dispose_panel_def r)

lemma str_rest_ext_step: "reg_inv s \<Longrightarrow> str_rest s \<Longrightarrow> str_rest (ext_step s e)"
  by (cases e) (simp_all add: str_rest_open_cmd str_rest_resume_show str_rest_resume_listen
    str_rest_doc_change str_rest_fire_timer str_rest_dispose_panel, simp_all add: str_rest_def)

lemma reachable_str_inv: "reachable s \<Longrightarrow> str_inv s"
proof (induction rule: reachable.induct)
  case (init ds ed c wv cx)
  show ?case unfolding str_inv_def
    by (intro conjI reg_inv_activate)
       (simp add: str_rest_def activate_def timers_ok_def closures_ok_def msgs_ok_def pviews_def)
next
  case (step s e)
  then show ?case by (simp add: str_inv_def reg_inv_ext_step str_rest_ext_step)
qed

section \<open>Claims\<close>

text \<open>C8: In every reachable state, every message a panel has received is a
  \<open>yaml:update\<close> snapshot of the document that panel was opened for: a sender only ever
  posts to the panel of the document it reads.\<close>

theorem received_snapshots_match:
  assumes "reachable s" "panels s i = Some p" "m \<in> set (received p)"
  shows "msg_doc m = panel_doc p"
proof -
  from reachable_str_inv [OF assms(1)] have "msgs_ok (panels s)" by (simp add: str_inv_def str_rest_def)
  with assms(2,3) show ?thesis unfolding msgs_ok_def by blast
qed

theorem received_snapshots_match_witness:
  "reachable (ext_run (host_state cfg_fast) [OpenCmd, ResumeShow 0 rnd_half, Tick, Fire]) \<and>
   (\<exists>p. panels (ext_run (host_state cfg_fast) [OpenCmd, ResumeShow 0 rnd_half, Tick, Fire]) 1 = Some p \<and>
        snapshot key_a doc_a \<in> set (received p) \<and> msg_doc (snapshot key_a doc_a) = panel_doc p)"
proof -
  have r: "reachable (ext_run (host_state cfg_fast) [OpenCmd, ResumeShow 0 rnd_half, Tick, Fire])"
    by (rule reachable_ext_run [OF host_reachable])
  have "\<exists>p. panels (ext_run (host_state cfg_fast) [OpenCmd, ResumeShow 0 rnd_half, Tick, Fire]) 1 = Some p \<and>
           received p = [snapshot key_a doc_a]"
    by (simp add: host_run_simps del: getWebviewHtml_def snapshot_def)
  then obtain p where p: "panels (ext_run (host_state cfg_fast) [OpenCmd, ResumeShow 0 rnd_half, Tick, Fire]) 1 = Some p"
    "received p = [snapshot key_a doc_a]" by blast
  have "msg_doc (snapshot key_a doc_a) = panel_doc p"
    by (rule received_snapshots_match [OF r p(1)]) (simp add: p(2))
  with r p show ?thesis by auto
qed

text \<open>C7: In every reachable state, each debounced sender has at most one timer pending
  in Node's timer table: \<open>clearTimeout\<close> on the closure's \<open>timer\<close> removes the previous
  one before \<open>setTimeout\<close> adds the next.\<close>

theorem one_timer_per_sender:
  assumes "reachable s"
  shows "length (filter (\<lambda>x. snd (snd x) = cid) (pending (ext_timers s))) \<le> 1"
proof -
  from reachable_str_inv [OF assms]
  have "timers_ok (closures s) (pending (ext_timers s)) (next_id (ext_timers s))"
    by (simp add: str_inv_def str_rest_def)
  then show ?thesis by (rule timers_ok_one_per_callback)
qed

theorem one_timer_per_sender_witness:
  "reachable (ext_run (host_state cfg_remote) [OpenCmd, ResumeShow 0 rnd_half, Change key_a ''a: 2'', Change key_a ''a: 3'']) \<and>
   length (filter (\<lambda>x. snd (snd x) = 2)
     (pending (ext_timers (ext_run (host_state cfg_remote) [OpenCmd, ResumeShow 0 rnd_half, Change key_a ''a: 2'', Change key_a ''a: 3''])))) \<le> 1"
proof -
  have r: "reachable (ext_run (host_state cfg_remote) [OpenCmd, ResumeShow 0 rnd_half, Change key_a ''a: 2'', Change key_a ''a: 3''])"
    by (rule reachable_ext_run [OF host_reachable])
  from one_timer_per_sender [OF r, of 2] r show ?thesis by simp
qed

lemma fire_timer_frame: "docs (fire_timer s) = docs s \<and> closures (fire_timer s) = closures s"
  by (auto simp: fire_timer_def post_message_def Let_def split: option.split prod.split)

lemma fire_timer_panel:
  "panels s i = Some p \<Longrightarrow>
   \<exists>p'. panels (fire_timer s) i = Some p' \<and> disposed p' = disposed p \<and> set (received p) \<subseteq> set (received p')"
  by (auto simp: fire_timer_def post_message_def Let_def split: option.split prod.split)

lemma fire_timer_due_send:
  assumes "distinct (map fst (pending (ext_timers s)))" "(tm, dl, cid) \<in> set (pending (ext_timers s))"
    and "closures s cid = Some cl" "docs s (c_doc cl) = Some d" "panels s (c_panel cl) = Some p" "\<not> disposed p"
  shows "(tm, dl, cid) \<in> set (pending (ext_timers (fire_timer s))) \<or>
         (\<exists>p'. panels (fire_timer s) (c_panel cl) = Some p' \<and> snapshot (c_doc cl) d \<in> set (received p'))"
proof (cases "take_due (clock (ext_timers s)) (ext_timers s)")
  case None
  then show ?thesis using assms(2) by (simp add: fire_timer_def)
next
  case (Some r)
  obtain i cb ts where r: "r = ((i, cb), ts)" by (metis prod.collapse)
  with Some have tk: "take_due (clock (ext_timers s)) (ext_timers s) = Some ((i, cb), ts)" by simp
  from take_due_Some [OF tk] obtain dl' where p: "pending ts = filter (\<lambda>(j, _, _). j \<noteq> i) (pending (ext_timers s))"
    and m: "(i, dl', cb) \<in> set (pending (ext_timers s))" by blast
  show ?thesis
  proof (cases "i = tm")
    case True
    with m assms(1,2) have "cb = cid"
      by (metis (no_types, lifting) distinct_map fst_conv inj_on_eq_iff prod.inject)
    with tk assms(3-6) show ?thesis by (simp add: fire_timer_def post_message_def Let_def)
  next
    case False
    with p assms(2) tk show ?thesis by (simp add: fire_timer_timers)
  qed
qed

lemma fire_turns_keep:
  assumes "reachable s" "closures s cid = Some cl" "docs s (c_doc cl) = Some d"
    and "panels s (c_panel cl) = Some p" "\<not> disposed p"
    and "(tm, dl, cid) \<in> set (pending (ext_timers s)) \<or> snapshot (c_doc cl) d \<in> set (received p)"
  shows "\<exists>p'. panels (foldl ext_step s (replicate n Fire)) (c_panel cl) = Some p' \<and> \<not> disposed p' \<and>
           ((tm, dl, cid) \<in> set (pending (ext_timers (foldl ext_step s (replicate n Fire)))) \<or>
            snapshot (c_doc cl) d \<in> set (received p'))"
  using assms
proof (induction n arbitrary: s p)
  case 0
  then show ?case by simp
next
  case (Suc n)
  from fire_timer_panel [OF Suc.prems(4)] obtain p' where
    p': "panels (fire_timer s) (c_panel cl) = Some p'" "disposed p' = disposed p" "set (received p) \<subseteq> set (received p')"
    by blast
  have r': "reachable (fire_timer s)" using reachable.step [OF Suc.prems(1), of Fire] by simp
  have dist: "distinct (map fst (pending (ext_timers s)))"
    using reachable_str_inv [OF Suc.prems(1)] by (simp add: str_inv_def str_rest_def timers_ok_def)
  have "(tm, dl, cid) \<in> set (pending (ext_timers (fire_timer s))) \<or> snapshot (c_doc cl) d \<in> set (received p')"
    using Suc.prems(6) fire_timer_due_send [OF dist _ Suc.prems(2-5)] p' by auto
  from Suc.IH [OF r' _ _ p'(1) _ this] Suc.prems(2-5) p'(2) fire_timer_frame [of s]
  show ?case by simp
qed

text \<open>C21: Every debounced send that is due is delivered: in every reachable state, if a
  sender's timer is due and its panel is open, then within as many timer turns of Node's
  loop as there are pending timers the callback has run and the panel has received the
  snapshot of the document as it is now (lines 66--76).\<close>

theorem fire_turns_send_all_due:
  assumes "reachable s" "(tm, dl, cid) \<in> set (pending (ext_timers s))" "dl \<le> clock (ext_timers s)"
    and "closures s cid = Some cl" "docs s (c_doc cl) = Some d" "panels s (c_panel cl) = Some p" "\<not> disposed p"
  shows "\<exists>p'. panels (ext_run s (replicate (length (pending (ext_timers s))) Fire)) (c_panel cl) = Some p' \<and>
           \<not> disposed p' \<and> snapshot (c_doc cl) d \<in> set (received p')"
proof -
  let ?n = "length (pending (ext_timers s))"
  from fire_turns_keep [OF assms(1,4,5,6,7), of tm dl ?n] assms(2) obtain p' where
    p': "panels (foldl ext_step s (replicate ?n Fire)) (c_panel cl) = Some p'" "\<not> disposed p'"
    "(tm, dl, cid) \<in> set (pending (ext_timers (foldl ext_step s (replicate ?n Fire)))) \<or>
     snapshot (c_doc cl) d \<in> set (received p')"
    by blast
  have "(tm, dl, cid) \<notin> set (pending (ext_timers (foldl ext_step s (replicate ?n Fire))))"
    using fire_turns_clear [of s ?n] assms(3) by (auto simp: filter_empty_conv)
  with p' show ?thesis by (auto simp: ext_run_def)
qed

lemma run_fast_pending:
  "pending (ext_timers (ext_run (host_state cfg_fast) [OpenCmd, ResumeShow 0 rnd_half, Change key_a ''a: 2'', Tick])) =
     [(2, 1, 2)] \<and>
   clock (ext_timers (ext_run (host_state cfg_fast) [OpenCmd, ResumeShow 0 rnd_half, Change key_a ''a: 2'', Tick])) = 1 \<and>
   closures (ext_run (host_state cfg_fast) [OpenCmd, ResumeShow 0 rnd_half, Change key_a ''a: 2'', Tick]) 2 =
     Some \<lparr>c_timer = Some 2, c_delay = 1, c_panel = 1, c_doc = key_a\<rparr> \<and>
   docs (ext_run (host_state cfg_fast) [OpenCmd, ResumeShow 0 rnd_half, Change key_a ''a: 2'', Tick]) key_a =
     Some (doc_a\<lparr>doc_text := ''a: 2'', doc_version := Suc (doc_version doc_a)\<rparr>) \<and>
   panels (ext_run (host_state cfg_fast) [OpenCmd, ResumeShow 0 rnd_half, Change key_a ''a: 2'', Tick]) 1 \<noteq> None \<and>
   \<not> disposed (the (panels (ext_run (host_state cfg_fast) [OpenCmd, ResumeShow 0 rnd_half, Change key_a ''a: 2'', Tick]) 1))"
  by (simp add: host_run_simps del: getWebviewHtml_def)

theorem fire_turns_send_all_due_witness:
  "\<exists>p'. panels (ext_run (ext_run (host_state cfg_fast) [OpenCmd, ResumeShow 0 rnd_half, Change key_a ''a: 2'', Tick])
             [Fire]) 1 = Some p' \<and> \<not> disposed p' \<and>
        snapshot key_a (doc_a\<lparr>doc_text := ''a: 2'', doc_version := Suc (doc_version doc_a)\<rparr>) \<in> set (received p')"
proof -
  let ?S = "ext_run (host_state cfg_fast) [OpenCmd, ResumeShow 0 rnd_half, Change key_a ''a: 2'', Tick]"
  note r = run_fast_pending
  have s: "reachable ?S" by (rule reachable_ext_run [OF host_reachable])
  have m: "(2, 1, 2) \<in> set (pending (ext_timers ?S))" and c: "1 \<le> clock (ext_timers ?S)"
    using r by simp_all
  have cl: "closures ?S 2 = Some \<lparr>c_timer = Some 2, c_delay = 1, c_panel = 1, c_doc = key_a\<rparr>" using r by simp
  have d: "docs ?S (c_doc \<lparr>c_timer = Some 2, c_delay = 1, c_panel = 1, c_doc = key_a\<rparr>) =
             Some (doc_a\<lparr>doc_text := ''a: 2'', doc_version := Suc (doc_version doc_a)\<rparr>)" using r by simp
  have p: "panels ?S (c_panel \<lparr>c_timer = Some 2, c_delay = 1, c_panel = 1, c_doc = key_a\<rparr>) = Some (the (panels ?S 1))"
    and nd: "\<not> disposed (the (panels ?S 1))" using r by auto
  from fire_turns_send_all_due [OF s m c cl d p nd] r show ?thesis by simp
qed

end
