(* ===== verification/Snapshots.thy ===== *)
theory Snapshots
  imports Streams
begin

text \<open>
  The order of the snapshots a preview receives. \<open>sendUpdate\<close> (lines 66--77) reads the
  document when its timer fires, so every snapshot carries the document's version at that
  moment; the host only ever increases a document's version. The invariant \<open>fresh_msgs\<close>
  says that the versions a panel has received are sorted and none is newer than the
  document's current version; it holds in every reachable state.
\<close>

section \<open>The invariant\<close>

primrec msg_version :: "message \<Rightarrow> nat" where
  "msg_version (YamlUpdate pl) = pl_version pl"

definition fresh_msgs :: "(uri \<rightharpoonup> tdoc) \<Rightarrow> (nat \<rightharpoonup> panel) \<Rightarrow> bool" where
  "fresh_msgs ds m \<longleftrightarrow>
     (\<forall>i p. m i = Some p \<longrightarrow> sorted (map msg_version (received p)) \<and>
        (\<forall>x \<in> set (received p). \<exists>d. ds (panel_doc p) = Some d \<and> msg_version x \<le> doc_version d))"

definition ver_inv :: "ext_state \<Rightarrow> bool" where
  "ver_inv s \<longleftrightarrow> fresh_msgs (docs s) (panels s)"

section \<open>Facts on the invariant\<close>

lemma fresh_msgs_keep:
  "fresh_msgs ds m \<Longrightarrow> m i = Some p \<Longrightarrow> received q = received p \<Longrightarrow> panel_doc q = panel_doc p \<Longrightarrow>
   fresh_msgs ds (m(i \<mapsto> q))"
  unfolding fresh_msgs_def by auto

lemma fresh_msgs_empty: "fresh_msgs ds m \<Longrightarrow> received q = [] \<Longrightarrow> fresh_msgs ds (m(i \<mapsto> q))"
  unfolding fresh_msgs_def by auto

lemma fresh_msgs_newer:
  assumes "fresh_msgs ds m" "ds u = Some d" "doc_version d \<le> doc_version d'"
  shows "fresh_msgs (ds(u \<mapsto> d')) m"
  unfolding fresh_msgs_def
proof (intro allI impI conjI ballI)
  fix i p assume p: "m i = Some p"
  with assms(1) show "sorted (map msg_version (received p))" unfolding fresh_msgs_def by blast
  fix x assume x: "x \<in> set (received p)"
  with assms(1) p obtain e where e: "ds (panel_doc p) = Some e" "msg_version x \<le> doc_version e"
    unfolding fresh_msgs_def by blast
  show "\<exists>d. (ds(u \<mapsto> d')) (panel_doc p) = Some d \<and> msg_version x \<le> doc_version d"
  proof (cases "panel_doc p = u")
    case True
    with e assms(2,3) show ?thesis by auto
  next
    case False
    with e show ?thesis by simp
  qed
qed

lemma fresh_msgs_post:
  assumes "fresh_msgs ds m" "m i = Some p" "ds (panel_doc p) = Some d" "msg_version x = doc_version d"
  shows "fresh_msgs ds (m(i \<mapsto> p\<lparr>received := received p @ [x]\<rparr>))"
proof -
  from assms(1,2) have s: "sorted (map msg_version (received p))"
    and le: "\<forall>y \<in> set (received p). msg_version y \<le> doc_version d"
    using assms(3) unfolding fresh_msgs_def by fastforce+
  have "sorted (map msg_version (received p @ [x]))"
    using s le assms(4) by (auto simp: sorted_append)
  with assms(1,3,4) le show ?thesis unfolding fresh_msgs_def by auto
qed

lemma msg_version_snapshot [simp]: "msg_version (snapshot u d) = doc_version d"
  by (simp add: snapshot_def)

lemma doc_a_version [simp]: "doc_version doc_a = 1"
  by (simp add: doc_a_def)

section \<open>Every operation preserves the invariant\<close>

lemma ver_inv_keep:
  "ver_inv s \<Longrightarrow> panels s i = Some p \<Longrightarrow> received q = received p \<Longrightarrow> panel_doc q = panel_doc p \<Longrightarrow>
   ver_inv (s\<lparr>panels := (panels s)(i \<mapsto> q)\<rparr>)"
  unfolding ver_inv_def by (simp add: fresh_msgs_keep)

lemma ver_inv_open_cmd: "ver_inv s \<Longrightarrow> ver_inv (open_cmd s)"
  unfolding open_cmd_def
  by (auto split: option.split intro: ver_inv_keep) (simp_all add: ver_inv_def)

lemma ver_inv_finish_open: "ver_inv s \<Longrightarrow> ver_inv (finish_open tid key pid c srv demoUrl rnd s)"
  unfolding finish_open_def Let_def
  by (auto split: sum.split option.split prod.split simp: ver_inv_def fresh_msgs_keep)

lemma ver_inv_resume_show:
  assumes v: "ver_inv s" shows "ver_inv (resume_show tid rnd s)"
proof (cases "tasks s tid")
  case (Some k)
  show ?thesis
  proof (cases k)
    case (AfterShow key)
    let ?s1 = "s\<lparr>panels := (panels s)(fresh s \<mapsto> new_panel (ctx s) key), fresh := Suc (fresh s)\<rparr>"
    have n: "ver_inv ?s1" using v by (simp add: ver_inv_def fresh_msgs_empty new_panel_def)
    then have listen: "ver_inv (?s1\<lparr>servers := (servers ?s1)(fresh ?s1 \<mapsto> False),
                   tasks := (tasks ?s1)(tid \<mapsto> AfterListen key (fresh s) (fresh ?s1) (cfg s)),
                   fresh := Suc (fresh ?s1)\<rparr>)"
      by (simp add: ver_inv_def)
    have fin: "ver_inv (finish_open tid key (fresh s) (cfg s) None None rnd ?s1)"
      by (rule ver_inv_finish_open [OF n])
    show ?thesis using Some AfterShow listen fin by (simp add: resume_show_def Let_def)
  next
    case AfterListen
    with Some v show ?thesis by (simp add: resume_show_def)
  qed
qed (simp add: resume_show_def v)

lemma ver_inv_resume_listen: "ver_inv s \<Longrightarrow> ver_inv (resume_listen tid lo rnd s)"
proof -
  assume v: "ver_inv s"
  have "ver_inv (s\<lparr>servers := x\<rparr>)" for x using v by (simp add: ver_inv_def)
  then show ?thesis
    using v by (auto simp: resume_listen_def ver_inv_finish_open split: option.split cont.split prod.split sum.split)
      (simp_all add: ver_inv_def)
qed

lemma ver_inv_call_sender: "ver_inv s \<Longrightarrow> ver_inv (call_sender cid s)"
  by (simp add: call_sender_def ver_inv_def split: option.split prod.split)

lemma ver_inv_doc_change: "ver_inv s \<Longrightarrow> ver_inv (doc_change u t s)"
proof (cases "docs s u")
  case (Some d)
  assume v: "ver_inv s"
  let ?s1 = "s\<lparr>docs := (docs s)(u \<mapsto> d\<lparr>doc_text := t, doc_version := Suc (doc_version d)\<rparr>)\<rparr>"
  have "ver_inv ?s1" using v Some by (simp add: ver_inv_def fresh_msgs_newer)
  then have "ver_inv (notify_change u ?s1)"
    unfolding notify_change_def by (rule fold_preserve) (auto simp: ver_inv_call_sender)
  then show ?thesis using Some by (simp add: doc_change_def)
qed (simp add: doc_change_def)

lemma ver_inv_fire_timer:
  assumes v: "ver_inv s" and r: "str_rest s" shows "ver_inv (fire_timer s)"
proof (cases "take_due (clock (ext_timers s)) (ext_timers s)")
  case (Some res)
  obtain tid cid ts where res: "res = ((tid, cid), ts)" by (metis prod.collapse)
  have v1: "ver_inv (s\<lparr>ext_timers := ts\<rparr>)" using v by (simp add: ver_inv_def)
  have post: "ver_inv (post_message (c_panel cl) (snapshot (c_doc cl) d) (s\<lparr>ext_timers := ts\<rparr>))"
    if cl: "closures s cid = Some cl" and d: "docs s (c_doc cl) = Some d" for cl d
  proof (cases "panels s (c_panel cl)")
    case (Some p)
    from r cl obtain x where "pviews (panels s) (c_panel cl) = Some (c_doc cl, x)"
      unfolding str_rest_def closures_ok_def by blast
    with Some have pd: "panel_doc p = c_doc cl" by (simp add: pviews_def pview_def)
    have "fresh_msgs (docs s) ((panels s)(c_panel cl \<mapsto> p\<lparr>received := received p @ [snapshot (c_doc cl) d]\<rparr>))"
      using v Some d pd by (intro fresh_msgs_post) (simp_all add: ver_inv_def snapshot_def)
    then show ?thesis using v Some by (simp add: post_message_def ver_inv_def)
  qed (simp add: post_message_def v1)
  show ?thesis
    using Some res v1 post by (simp add: fire_timer_def Let_def split: option.split)
qed (simp add: fire_timer_def v)

lemma ver_inv_dispose_panel: "ver_inv s \<Longrightarrow> ver_inv (dispose_panel pid s)"
  unfolding dispose_panel_def Let_def
  by (auto split: option.split intro: ver_inv_keep) (simp_all add: ver_inv_def fresh_msgs_keep)

lemma ver_inv_ext_step: "ver_inv s \<Longrightarrow> str_rest s \<Longrightarrow> ver_inv (ext_step s e)"
  by (cases e) (simp_all add: ver_inv_open_cmd ver_inv_resume_show ver_inv_resume_listen ver_inv_doc_change
    ver_inv_fire_timer ver_inv_dispose_panel, simp_all add: ver_inv_def)

lemma reachable_ver_inv: "reachable s \<Longrightarrow> ver_inv s"
proof (induction rule: reachable.induct)
  case (init ds ed c wv cx)
  then show ?case by (simp add: ver_inv_def fresh_msgs_def activate_def)
next
  case (step s e)
  with reachable_str_inv show ?case by (simp add: ver_inv_ext_step str_inv_def)
qed

section \<open>Claims\<close>

text \<open>C25: In every reachable state the snapshots a preview has received carry
  non-decreasing document versions, none newer than the document's current version:
  each snapshot reflects a text state at least as recent as the one before it.\<close>

theorem snapshots_in_version_order:
  assumes "reachable s" "panels s i = Some p"
  shows "sorted (map msg_version (received p)) \<and>
         list_all (\<lambda>x. \<exists>d. docs s (panel_doc p) = Some d \<and> msg_version x \<le> doc_version d) (received p)"
  using reachable_ver_inv [OF assms(1)] assms(2) unfolding ver_inv_def fresh_msgs_def
  by (simp add: list_all_iff)

theorem snapshots_in_version_order_witness:
  "reachable (ext_run (host_state cfg_fast)
     [OpenCmd, ResumeShow 0 rnd_half, Tick, Fire, Change key_a ''a: 2'', Tick, Fire]) \<and>
   (\<exists>p. panels (ext_run (host_state cfg_fast)
          [OpenCmd, ResumeShow 0 rnd_half, Tick, Fire, Change key_a ''a: 2'', Tick, Fire]) 1 = Some p \<and>
        map msg_version (received p) = [1, 2] \<and> sorted (map msg_version (received p)) \<and>
        list_all (\<lambda>x. \<exists>d. docs (ext_run (host_state cfg_fast)
          [OpenCmd, ResumeShow 0 rnd_half, Tick, Fire, Change key_a ''a: 2'', Tick, Fire]) (panel_doc p) = Some d \<and>
          msg_version x \<le> doc_version d) (received p))"
proof -
  let ?S = "ext_run (host_state cfg_fast) [OpenCmd, ResumeShow 0 rnd_half, Tick, Fire, Change key_a ''a: 2'', Tick, Fire]"
  have r: "reachable ?S" by (rule reachable_ext_run [OF host_reachable])
  have n: "panels ?S 1 \<noteq> None"
    by (simp add: host_run_simps del: getWebviewHtml_def snapshot_def)
  have v: "map msg_version (received (the (panels ?S 1))) = [1, 2]"
    by (simp add: host_run_simps del: getWebviewHtml_def snapshot_def)
  define p where "p = the (panels ?S 1)"
  have p: "panels ?S 1 = Some p" using n by (simp add: p_def)
  note c = snapshots_in_version_order [OF r p]
  show ?thesis
  proof (intro conjI exI)
    show "reachable ?S" by (rule r)
    show "panels ?S 1 = Some p" by (rule p)
    show "map msg_version (received p) = [1, 2]" using v by (simp add: p_def)
    show "sorted (map msg_version (received p))" using c by (rule conjunct1)
    show "list_all (\<lambda>x. \<exists>d. docs ?S (panel_doc p) = Some d \<and> msg_version x \<le> doc_version d) (received p)"
      using c by (rule conjunct2)
  qed
qed

end
