(* ===== verification/Panels.thy ===== *)
theory Panels
  imports Session
begin

text \<open>
  What a preview panel keeps for its lifetime. \<open>createWebviewPanel\<close> (lines 38--49) is
  given the bundled page's directory as its only local resource root; the page assigned
  at line 64 is the only one the panel ever gets, so the content source chosen at the open
  stays for the session's lifetime, whatever configuration changes follow (spec section 3).
  The invariant \<open>tasks_unopened\<close> says that an open suspended at \<open>listen\<close> holds a
  panel that has no dispose handler yet and that no other suspended open holds; with it,
  every event leaves the page and the dispose handler of an opened panel as they were.
\<close>

section \<open>Definitions\<close>

definition tasks_unopened :: "pv \<Rightarrow> (nat \<rightharpoonup> cont) \<Rightarrow> bool" where
  "tasks_unopened pv ts \<longleftrightarrow>
     (\<forall>t key pid sid c. ts t = Some (AfterListen key pid sid c) \<longrightarrow>
        (\<exists>d. pv pid = Some (key, d, None)) \<and>
        (\<forall>t' key' sid' c'. ts t' = Some (AfterListen key' pid sid' c') \<longrightarrow> t' = t))"

definition open_inv :: "ext_state \<Rightarrow> bool" where
  "open_inv s \<longleftrightarrow> reg_inv s \<and> tasks_unopened (pviews (panels s)) (tasks s)"

text \<open>\<open>keeps_pages s s'\<close>: every panel of \<open>s\<close> that an open has completed for is still
  there in \<open>s'\<close>, with the same page and the same dispose handler.\<close>

definition keeps_pages :: "ext_state \<Rightarrow> ext_state \<Rightarrow> bool" where
  "keeps_pages s s' \<longleftrightarrow>
     (\<forall>i p. panels s i = Some p \<longrightarrow> on_dispose p \<noteq> None \<longrightarrow>
        (\<exists>p'. panels s' i = Some p' \<and> html p' = html p \<and> on_dispose p' = on_dispose p))"

section \<open>Facts on the invariant\<close>

lemma tu_show: "tasks_unopened pv ts \<Longrightarrow> tasks_unopened pv (ts(t \<mapsto> AfterShow k))"
  unfolding tasks_unopened_def by (auto split: if_splits)

lemma tu_drop: "tasks_unopened pv ts \<Longrightarrow> tasks_unopened pv (ts(t := None))"
  unfolding tasks_unopened_def by (auto split: if_splits)

lemma tu_fresh: "tasks_unopened pv ts \<Longrightarrow> pv f = None \<Longrightarrow> tasks_unopened (pv(f \<mapsto> v)) ts"
  unfolding tasks_unopened_def by (smt (verit, best) fun_upd_other option.distinct(1))

lemma tu_no_task: "tasks_unopened pv ts \<Longrightarrow> pv f = None \<Longrightarrow> ts t = Some (AfterListen k f sid c) \<Longrightarrow> False"
  unfolding tasks_unopened_def by fastforce

lemma tu_doc:
  assumes "tasks_unopened pv ts" "pv i = Some (k, d, od)"
  shows "tasks_unopened (pv(i \<mapsto> (k, d', od))) ts"
  unfolding tasks_unopened_def
proof (intro allI impI, rule conjI)
  fix t key pid sid c assume t: "ts t = Some (AfterListen key pid sid c)"
  with assms(1) obtain e where e: "pv pid = Some (key, e, None)"
    and u: "\<forall>t' key' sid' c'. ts t' = Some (AfterListen key' pid sid' c') \<longrightarrow> t' = t"
    unfolding tasks_unopened_def by blast
  show "\<exists>d. (pv(i \<mapsto> (k, d', od))) pid = Some (key, d, None)"
    using e assms(2) by (cases "pid = i") auto
  show "\<forall>t' key' sid' c'. ts t' = Some (AfterListen key' pid sid' c') \<longrightarrow> t' = t" by (rule u)
qed

lemma tu_listen:
  assumes "tasks_unopened pv ts" "pv f = None"
  shows "tasks_unopened (pv(f \<mapsto> (k, d, None))) (ts(t \<mapsto> AfterListen k f sid c))"
  unfolding tasks_unopened_def
proof (intro allI impI, rule conjI)
  fix t1 key pid sid1 c1 assume t1: "(ts(t \<mapsto> AfterListen k f sid c)) t1 = Some (AfterListen key pid sid1 c1)"
  show "\<exists>d'. (pv(f \<mapsto> (k, d, None))) pid = Some (key, d', None)"
  proof (cases "t1 = t")
    case True with t1 show ?thesis by auto
  next
    case False
    with t1 assms(1) obtain e where "pv pid = Some (key, e, None)"
      unfolding tasks_unopened_def by fastforce
    with assms(2) show ?thesis by (cases "pid = f") auto
  qed
  show "\<forall>t' key' sid' c'. (ts(t \<mapsto> AfterListen k f sid c)) t' = Some (AfterListen key' pid sid' c') \<longrightarrow> t' = t1"
  proof (intro allI impI)
    fix t' key' sid' c' assume t2: "(ts(t \<mapsto> AfterListen k f sid c)) t' = Some (AfterListen key' pid sid' c')"
    show "t' = t1"
    proof (cases "t1 = t")
      case True
      with t1 have "pid = f" by simp
      with t2 assms tu_no_task show ?thesis using True by (cases "t' = t") auto
    next
      case False
      with t1 have o1: "ts t1 = Some (AfterListen key pid sid1 c1)" by simp
      with assms(1) obtain e where "pv pid = Some (key, e, None)" unfolding tasks_unopened_def by blast
      with assms(2) have "pid \<noteq> f" by auto
      with t2 have "ts t' = Some (AfterListen key' pid sid' c')" by (cases "t' = t") auto
      with o1 assms(1) show ?thesis unfolding tasks_unopened_def by blast
    qed
  qed
qed

lemma tu_register:
  assumes "tasks_unopened pv ts" "\<forall>t' k' s' c'. ts t' = Some (AfterListen k' pid s' c') \<longrightarrow> t' = tid"
  shows "tasks_unopened (pv(pid \<mapsto> v)) (ts(tid := None))"
  unfolding tasks_unopened_def
proof (intro allI impI, rule conjI)
  fix t key p sid c assume t: "(ts(tid := None)) t = Some (AfterListen key p sid c)"
  then have t0: "ts t = Some (AfterListen key p sid c)" "t \<noteq> tid" by (auto split: if_splits)
  with assms(2) have "p \<noteq> pid" by blast
  with t0 assms(1) show "\<exists>d. (pv(pid \<mapsto> v)) p = Some (key, d, None)" unfolding tasks_unopened_def by simp blast
  show "\<forall>t' key' sid' c'. (ts(tid := None)) t' = Some (AfterListen key' p sid' c') \<longrightarrow> t' = t"
    using t0 assms(1) unfolding tasks_unopened_def by (auto split: if_splits)
qed

section \<open>Every operation preserves the invariant\<close>

lemma tu_finish_open:
  assumes "tasks_unopened (pviews (panels s)) (tasks s)"
    "\<forall>t' k' s' c'. tasks s t' = Some (AfterListen k' pid s' c') \<longrightarrow> t' = tid"
  shows "tasks_unopened (pviews (panels (finish_open tid key pid c srv demoUrl rnd s)))
           (tasks (finish_open tid key pid c srv demoUrl rnd s))"
  using assms
  by (auto simp: finish_open_def Let_def tu_drop intro: tu_register split: sum.split option.split prod.split)

lemma open_inv_activate: "open_inv (activate ds ed c wv cx)"
  by (simp add: open_inv_def reg_inv_activate, simp add: activate_def tasks_unopened_def)

lemma open_inv_open_cmd: "open_inv s \<Longrightarrow> open_inv (open_cmd s)"
  unfolding open_inv_def
  by (auto simp: reg_inv_open_cmd, auto simp: open_cmd_def pview_def tu_show simp del: pviews_upd split: option.split)

lemma open_inv_resume_show:
  assumes inv: "open_inv s" shows "open_inv (resume_show tid rnd s)"
proof (cases "tasks s tid")
  case (Some k)
  show ?thesis
  proof (cases k)
    case (AfterShow key)
    let ?s1 = "s\<lparr>panels := (panels s)(fresh s \<mapsto> new_panel (ctx s) key), fresh := Suc (fresh s)\<rparr>"
    from inv have tu: "tasks_unopened (pviews (panels s)) (tasks s)" and r: "reg_inv s"
      by (simp_all add: open_inv_def)
    have n: "pviews (panels s) (fresh s) = None"
      using r by (simp add: reg_inv_def ids_ok_None)
    have v: "pview (new_panel (ctx s) key) = (key, False, None)" by (simp add: pview_def new_panel_def)
    have listen: "tasks_unopened ((pviews (panels s))(fresh s \<mapsto> (key, False, None)))
                    ((tasks s)(tid \<mapsto> AfterListen key (fresh s) (Suc (fresh s)) (cfg s)))"
      by (rule tu_listen [OF tu n])
    have tu1: "tasks_unopened (pviews (panels ?s1)) (tasks ?s1)"
      using tu_fresh [OF tu n] by simp
    have u1: "\<forall>t' k' s' c'. tasks ?s1 t' = Some (AfterListen k' (fresh s) s' c') \<longrightarrow> t' = tid"
      using tu_no_task [OF tu n] by auto
    have fin: "tasks_unopened (pviews (panels (finish_open tid key (fresh s) (cfg s) None None rnd ?s1)))
                 (tasks (finish_open tid key (fresh s) (cfg s) None None rnd ?s1))"
      by (rule tu_finish_open [OF tu1 u1])
    have "tasks_unopened (pviews (panels (resume_show tid rnd s))) (tasks (resume_show tid rnd s))"
      using Some AfterShow listen fin v by (simp add: resume_show_def Let_def)
    then show ?thesis using inv by (simp add: open_inv_def reg_inv_resume_show)
  next
    case AfterListen
    with Some inv show ?thesis by (simp add: resume_show_def)
  qed
qed (simp add: resume_show_def inv)

lemma open_inv_resume_listen:
  assumes inv: "open_inv s" shows "open_inv (resume_listen tid lo rnd s)"
proof (cases "tasks s tid")
  case (Some k)
  show ?thesis
  proof (cases k)
    case (AfterListen key pid sid c)
    from inv have tu: "tasks_unopened (pviews (panels s)) (tasks s)" by (simp add: open_inv_def)
    with Some AfterListen have u: "\<forall>t' k' s' c'. tasks s t' = Some (AfterListen k' pid s' c') \<longrightarrow> t' = tid"
      unfolding tasks_unopened_def by blast
    obtain up r where ds: "demo_server_started lo = (up, r)" by fastforce
    have "tasks_unopened (pviews (panels (resume_listen tid lo rnd s))) (tasks (resume_listen tid lo rnd s))"
    proof (cases r)
      case Inl
      then show ?thesis using Some AfterListen ds tu by (simp add: resume_listen_def tu_drop)
    next
      case (Inr url)
      have "tasks_unopened (pviews (panels (finish_open tid key pid c (Some sid) (Some url) rnd (s\<lparr>servers := (servers s)(sid \<mapsto> up)\<rparr>))))
              (tasks (finish_open tid key pid c (Some sid) (Some url) rnd (s\<lparr>servers := (servers s)(sid \<mapsto> up)\<rparr>)))"
        using tu u by (intro tu_finish_open) simp_all
      then show ?thesis using Some AfterListen ds Inr by (simp add: resume_listen_def)
    qed
    then show ?thesis using inv by (simp add: open_inv_def reg_inv_resume_listen)
  next
    case AfterShow
    with Some inv show ?thesis by (simp add: resume_listen_def)
  qed
qed (simp add: resume_listen_def inv)

lemma doc_change_panels_tasks: "panels (doc_change u t s) = panels s \<and> tasks (doc_change u t s) = tasks s"
proof (cases "docs s u")
  case (Some d)
  let ?s1 = "s\<lparr>docs := (docs s)(u \<mapsto> d\<lparr>doc_text := t, doc_version := Suc (doc_version d)\<rparr>)\<rparr>"
  have "(\<lambda>s'. panels s' = panels s \<and> tasks s' = tasks s) (notify_change u ?s1)"
    unfolding notify_change_def
    by (rule fold_preserve) (auto simp: call_sender_def split: option.split prod.split)
  then show ?thesis using Some by (simp add: doc_change_def)
qed (simp add: doc_change_def)

lemma post_message_views: "pviews (panels (post_message pid m s)) = pviews (panels s) \<and> tasks (post_message pid m s) = tasks s"
  by (auto simp: post_message_def pview_def simp del: pviews_upd split: option.split)

lemma fire_timer_views: "pviews (panels (fire_timer s)) = pviews (panels s) \<and> tasks (fire_timer s) = tasks s"
  by (auto simp: fire_timer_def Let_def post_message_views split: option.split prod.split)

lemma open_inv_dispose_panel: "open_inv s \<Longrightarrow> open_inv (dispose_panel pid s)"
  unfolding open_inv_def
  by (auto simp: reg_inv_dispose_panel, auto simp: dispose_panel_def Let_def pview_def pviews_def
           intro: tu_doc split: option.split prod.split)

lemma open_inv_ext_step: "open_inv s \<Longrightarrow> open_inv (ext_step s e)"
proof (cases e)
  case (Change u t)
  assume "open_inv s"
  then show ?thesis using Change reg_inv_doc_change doc_change_panels_tasks by (simp add: open_inv_def)
next
  case Fire
  assume "open_inv s"
  then show ?thesis using Fire reg_inv_fire_timer fire_timer_views by (simp add: open_inv_def)
qed (simp_all add: open_inv_open_cmd open_inv_resume_show open_inv_resume_listen open_inv_dispose_panel,
     simp_all add: open_inv_def reg_inv_def)

lemma reachable_open_inv: "reachable s \<Longrightarrow> open_inv s"
  by (induction rule: reachable.induct) (simp_all add: open_inv_activate open_inv_ext_step)

section \<open>Every step keeps the pages of opened panels\<close>

lemma keeps_pages_same: "panels s' = panels s \<Longrightarrow> keeps_pages s s'"
  by (simp add: keeps_pages_def)

lemma keeps_pages_trans: "keeps_pages s1 s2 \<Longrightarrow> keeps_pages s2 s3 \<Longrightarrow> keeps_pages s1 s3"
  unfolding keeps_pages_def by (metis option.discI)

lemma keeps_pages_upd:
  "panels s' = (panels s)(i \<mapsto> q) \<Longrightarrow>
   (\<And>p. panels s i = Some p \<Longrightarrow> on_dispose p \<noteq> None \<Longrightarrow> html q = html p \<and> on_dispose q = on_dispose p) \<Longrightarrow>
   keeps_pages s s'"
  unfolding keeps_pages_def by auto

lemma keeps_finish_open:
  "panels s pid = Some p \<Longrightarrow> on_dispose p = None \<Longrightarrow> keeps_pages s (finish_open tid key pid c srv demoUrl rnd s)"
  unfolding keeps_pages_def by (auto simp: finish_open_def Let_def split: sum.split prod.split)

lemma keeps_resume_show:
  assumes "reg_inv s" shows "keeps_pages s (resume_show tid rnd s)"
proof (cases "tasks s tid")
  case (Some k)
  show ?thesis
  proof (cases k)
    case (AfterShow key)
    let ?s1 = "s\<lparr>panels := (panels s)(fresh s \<mapsto> new_panel (ctx s) key), fresh := Suc (fresh s)\<rparr>"
    have n: "panels s (fresh s) = None"
      using assms ids_ok_None by (fastforce simp: reg_inv_def pviews_def)
    have k1: "keeps_pages s ?s1" using n by (auto simp: keeps_pages_def)
    have "keeps_pages ?s1 (finish_open tid key (fresh s) (cfg s) None None rnd ?s1)"
      by (rule keeps_finish_open [where p = "new_panel (ctx s) key"]) (simp_all add: new_panel_def)
    with k1 have "keeps_pages s (finish_open tid key (fresh s) (cfg s) None None rnd ?s1)"
      by (rule keeps_pages_trans)
    moreover have "keeps_pages s (?s1\<lparr>servers := (servers ?s1)(fresh ?s1 \<mapsto> False),
                     tasks := (tasks ?s1)(tid \<mapsto> AfterListen key (fresh s) (fresh ?s1) (cfg s)),
                     fresh := Suc (fresh ?s1)\<rparr>)"
      using k1 by (simp add: keeps_pages_def)
    ultimately show ?thesis using Some AfterShow by (simp add: resume_show_def Let_def)
  qed (simp_all add: resume_show_def Some keeps_pages_same)
qed (simp add: resume_show_def keeps_pages_same)

lemma keeps_resume_listen:
  assumes "open_inv s" shows "keeps_pages s (resume_listen tid lo rnd s)"
proof (cases "tasks s tid")
  case (Some k)
  show ?thesis
  proof (cases k)
    case (AfterListen key pid sid c)
    from assms Some AfterListen obtain d where "pviews (panels s) pid = Some (key, d, None)"
      unfolding open_inv_def tasks_unopened_def by blast
    then obtain p where p: "panels s pid = Some p" "on_dispose p = None"
      by (auto simp: pviews_def pview_def)
    obtain up r where ds: "demo_server_started lo = (up, r)" by fastforce
    show ?thesis
    proof (cases r)
      case Inl
      then show ?thesis using Some AfterListen ds by (simp add: resume_listen_def keeps_pages_same)
    next
      case (Inr url)
      have "keeps_pages (s\<lparr>servers := (servers s)(sid \<mapsto> up)\<rparr>)
              (finish_open tid key pid c (Some sid) (Some url) rnd (s\<lparr>servers := (servers s)(sid \<mapsto> up)\<rparr>))"
        by (rule keeps_finish_open [where p = p]) (simp_all add: p)
      then show ?thesis using Some AfterListen ds Inr by (simp add: resume_listen_def keeps_pages_def)
    qed
  qed (simp_all add: resume_listen_def Some keeps_pages_same)
qed (simp add: resume_listen_def keeps_pages_same)

lemma keeps_post_message: "keeps_pages s (post_message pid m s)"
  unfolding keeps_pages_def by (auto simp: post_message_def split: option.split)

lemma keeps_fire_timer: "keeps_pages s (fire_timer s)"
  unfolding keeps_pages_def by (auto simp: fire_timer_def Let_def post_message_def split: option.split prod.split)

lemma keeps_dispose_panel: "keeps_pages s (dispose_panel pid s)"
  unfolding keeps_pages_def by (auto simp: dispose_panel_def Let_def split: option.split prod.split)

lemma keeps_pages_step: "open_inv s \<Longrightarrow> keeps_pages s (ext_step s e)"
proof (cases e)
  case OpenCmd
  then show ?thesis
    unfolding keeps_pages_def by (auto simp: open_cmd_def split: option.split)
next
  case (Change u t)
  then show ?thesis using doc_change_panels_tasks by (simp add: keeps_pages_same)
qed (simp_all add: open_inv_def keeps_resume_show keeps_resume_listen keeps_fire_timer keeps_dispose_panel
       keeps_pages_same)

lemma keeps_pages_run: "open_inv s \<Longrightarrow> keeps_pages s (ext_run s es)"
proof (induction es arbitrary: s)
  case Nil
  then show ?case by (simp add: ext_run_def keeps_pages_same)
next
  case (Cons e es)
  have "keeps_pages (ext_step s e) (ext_run (ext_step s e) es)"
    by (rule Cons.IH [OF open_inv_ext_step [OF Cons.prems]])
  with keeps_pages_step [OF Cons.prems] have "keeps_pages s (ext_run (ext_step s e) es)"
    by (rule keeps_pages_trans)
  then show ?case by (simp add: ext_run_def)
qed

lemma finish_open_keeps_options:
  assumes "panels s pid = Some p"
  shows "\<exists>p'. panels (finish_open tid key pid c srv demoUrl rnd s) pid = Some p' \<and> panel_doc p' = panel_doc p \<and>
           view_type p' = view_type p \<and> enable_scripts p' = enable_scripts p \<and>
           retain_context p' = retain_context p \<and> local_roots p' = local_roots p"
  using assms by (auto simp: finish_open_def Let_def split: sum.split prod.split)

lemma run_remote_opened:
  "panels (ext_run (host_state cfg_remote) [OpenCmd, ResumeShow 0 rnd_half]) 1 \<noteq> None \<and>
   on_dispose (the (panels (ext_run (host_state cfg_remote) [OpenCmd, ResumeShow 0 rnd_half]) 1)) =
     Some (3, None, key_a)"
  by (simp add: host_run_simps del: getWebviewHtml_def)

lemma run_remote_show:
  "tasks (ext_run (host_state cfg_remote) [OpenCmd]) 0 = Some (AfterShow key_a)"
  by (simp add: host_run_simps)

section \<open>Claims\<close>

text \<open>C26: the panel the open command creates (lines 38--49) is a preview panel of the
  document, with scripts enabled, its context retained, and the bundled page's directory
  \<open>src/demo\<close> of the extension as its only local resource root; the file the demo server
  serves, \<open>src/demo/index.html\<close>, lies in that root. This holds on both content paths,
  when the open completes at once and when it waits for the server.\<close>

theorem created_panel_options:
  assumes "tasks s tid = Some (AfterShow k)"
  shows "\<exists>p. panels (resume_show tid rnd s) (fresh s) = Some p \<and> panel_doc p = k \<and>
           view_type p = ''yamlIframePreview.preview'' \<and> enable_scripts p \<and> retain_context p \<and>
           local_roots p = [extensionUri (ctx s) @ ''/src/demo''] \<and>
           demo_path (ctx s) = hd (local_roots p) @ ''/index.html''"
proof -
  let ?s1 = "s\<lparr>panels := (panels s)(fresh s \<mapsto> new_panel (ctx s) k), fresh := Suc (fresh s)\<rparr>"
  have p1: "panels ?s1 (fresh s) = Some (new_panel (ctx s) k)" by simp
  have j: "joinPath (extensionUri (ctx s)) [''src'', ''demo''] = extensionUri (ctx s) @ ''/src/demo''"
    by (simp add: joinPath_def)
  have d: "demo_path (ctx s) = extensionUri (ctx s) @ ''/src/demo/index.html''"
    by (simp add: demo_path_def joinPath_def)
  show ?thesis
  proof (cases "isHttpsUrl (remoteUrl (cfg s))")
    case True
    from finish_open_keeps_options [OF p1, of tid k "cfg s" None None rnd] obtain p' where
      "panels (finish_open tid k (fresh s) (cfg s) None None rnd ?s1) (fresh s) = Some p'"
      "panel_doc p' = k" "view_type p' = PREVIEW_VIEW_TYPE" "enable_scripts p'" "retain_context p'"
      "local_roots p' = [joinPath (extensionUri (ctx s)) [''src'', ''demo'']]"
      by (auto simp: new_panel_def)
    with True assms j d show ?thesis by (simp add: resume_show_def Let_def PREVIEW_VIEW_TYPE_def)
  next
    case False
    with assms j d show ?thesis by (simp add: resume_show_def Let_def new_panel_def PREVIEW_VIEW_TYPE_def)
  qed
qed

text \<open>C27: the content source of a preview is fixed for the session's lifetime (spec
  section 3): once the open has completed for a panel (its dispose handler is installed,
  line 87), no sequence of later events, configuration changes, reopenings, document
  changes, timers and closings included, changes the page assigned at line 64 or the
  dispose handler; the panel stays in the host's table.\<close>

theorem opened_page_fixed:
  assumes "reachable s" "panels s i = Some p" "on_dispose p \<noteq> None"
  shows "\<exists>p'. panels (ext_run s es) i = Some p' \<and> html p' = html p \<and> on_dispose p' = on_dispose p"
  using keeps_pages_run [OF reachable_open_inv [OF assms(1)]] assms(2,3)
  unfolding keeps_pages_def by blast

section \<open>Witnesses\<close>

theorem created_panel_options_witness:
  "tasks (ext_run (host_state cfg_remote) [OpenCmd]) 0 = Some (AfterShow key_a) \<and>
   (\<exists>p. panels (resume_show 0 rnd_half (ext_run (host_state cfg_remote) [OpenCmd]))
          (fresh (ext_run (host_state cfg_remote) [OpenCmd])) = Some p \<and> panel_doc p = key_a \<and>
        view_type p = ''yamlIframePreview.preview'' \<and> enable_scripts p \<and> retain_context p \<and>
        local_roots p = [extensionUri (ctx (ext_run (host_state cfg_remote) [OpenCmd])) @ ''/src/demo''] \<and>
        demo_path (ctx (ext_run (host_state cfg_remote) [OpenCmd])) = hd (local_roots p) @ ''/index.html'')"
  using run_remote_show created_panel_options [OF run_remote_show] by blast

theorem opened_page_fixed_witness:
  "reachable (ext_run (host_state cfg_remote) [OpenCmd, ResumeShow 0 rnd_half]) \<and>
   panels (ext_run (host_state cfg_remote) [OpenCmd, ResumeShow 0 rnd_half]) 1 =
     Some (the (panels (ext_run (host_state cfg_remote) [OpenCmd, ResumeShow 0 rnd_half]) 1)) \<and>
   on_dispose (the (panels (ext_run (host_state cfg_remote) [OpenCmd, ResumeShow 0 rnd_half]) 1)) = Some (3, None, key_a) \<and>
   (\<exists>p'. panels (ext_run (ext_run (host_state cfg_remote) [OpenCmd, ResumeShow 0 rnd_half])
                  [SetConfig cfg_local, Change key_a ''b: 2'', Fire, OpenCmd, ResumeShow 4 rnd_half]) 1 = Some p' \<and>
         html p' = html (the (panels (ext_run (host_state cfg_remote) [OpenCmd, ResumeShow 0 rnd_half]) 1)) \<and>
         on_dispose p' = on_dispose (the (panels (ext_run (host_state cfg_remote) [OpenCmd, ResumeShow 0 rnd_half]) 1)))"
proof -
  have r: "reachable (ext_run (host_state cfg_remote) [OpenCmd, ResumeShow 0 rnd_half])"
    by (rule reachable_ext_run [OF host_reachable])
  have p: "panels (ext_run (host_state cfg_remote) [OpenCmd, ResumeShow 0 rnd_half]) 1 =
             Some (the (panels (ext_run (host_state cfg_remote) [OpenCmd, ResumeShow 0 rnd_half]) 1))"
    using run_remote_opened by simp
  have o: "on_dispose (the (panels (ext_run (host_state cfg_remote) [OpenCmd, ResumeShow 0 rnd_half]) 1)) \<noteq> None"
    using run_remote_opened by simp
  show ?thesis using opened_page_fixed [OF r p o] r p run_remote_opened by blast
qed

end
