(* ===== verification/Spec2Isabelle.thy ===== *)
theory Spec2Isabelle
  imports Snapshots Panels
begin

text \<open>
  A verification development for the VS Code extension \<open>yaml-iframe-preview\<close>. The whole
  program is \<open>src/src/extension.ts\<close>: a command opens, beside a YAML document, a webview
  panel whose page embeds an iframe, and streams the document to the iframe on every
  change. Its parts, and the theory that models each:

  \<^item> \<open>Prelude\<close>: the model's base types (\<open>uri\<close>, \<open>port\<close>, \<open>time\<close>), the exceptions
    \<open>js_error\<close>, the JavaScript string operations the code calls (\<open>split\<close>,
    \<open>toLowerCase\<close>, \<open>endsWith\<close>, a global one-character \<open>replace\<close>), decimal printing
    and parsing, and the shared list and map lemmas.
  \<^item> \<open>Url\<close>: the part of the WHATWG URL parser that \<open>new URL\<close> runs on the strings the
    program gives it (scheme, special authority, host with the IPv4 host steps, port,
    origin), and
    \<open>isHttpsUrl\<close> (lines 103--111) over it. Modelled from the URL Standard, not from
    the repository.
  \<^item> \<open>Html\<close>: \<open>escapeHtml\<close> (275--282), \<open>getNonce\<close> (268--273) with the values of
    \<open>Math.random\<close> as a parameter, and \<open>JSON.stringify\<close> of a string.
  \<^item> \<open>Resolver\<close>: \<open>resolveAppSrc\<close> (113--141), the content-source decision, with the
    host's webview and extension context as records.
  \<^item> \<open>DemoServer\<close>: \<open>startDemoServer\<close> (221--258): the request handler as a function
    of the request URL and of the file read, and the code after \<open>listen\<close> as a function
    of what \<open>listen\<close> reported.
  \<^item> \<open>WebviewHtml\<close>: \<open>getWebviewHtml\<close> (143--219), the page template verbatim, one
    string per line, with its seven interpolations.
  \<^item> \<open>Debounce\<close>: \<open>debounce\<close> (260--266) over a model of Node's timer table
    (\<open>setTimeout\<close> with Node's delay coercion, \<open>clearTimeout\<close>, the loop taking the
    earliest due timer), and a driver of one debounced sender by document changes.
  \<^item> \<open>Extension\<close>: \<open>activate\<close> (7--97) as an event loop. The state \<open>ext_state\<close> holds
    the registry \<open>previewByDoc\<close>, the panels, the change listeners, the debounced senders'
    closures, the demo servers, the timer table, and the open commands suspended at
    their \<open>await\<close>s; \<open>ext_step\<close> runs one event (the command, the resumption of a
    suspended command, a document change, a timer, the clock, a panel closed, a
    configuration change); \<open>reachable\<close> is the set of states a run from activation
    reaches, every interleaving of the events included.
  \<^item> \<open>Session\<close>: the registry invariant over \<open>reachable\<close>, the open command's behaviour
    on every branch, and the runs that exhibit the interleavings the code gets wrong.
  \<^item> \<open>Streams\<close>: the change streamer inside the event loop: the invariant that ties every
    pending timer to its sender's \<open>timer\<close> variable and every sender to a panel of the
    document it reads.
  \<^item> \<open>Snapshots\<close>: the order of the snapshots a preview receives, against the versions
    the host gives the document.
  \<^item> \<open>Panels\<close>: what a panel keeps for its lifetime: the creation options of
    \<open>createWebviewPanel\<close> (lines 38--49, \<open>new_panel\<close>) and the page assigned at line 64.

  How the model follows the code. Every \<open>await\<close> of the open command is a point where the
  command is suspended (\<open>cont\<close>) and other events run before it resumes: line 36
  (\<open>AfterShow\<close>) and line 244 (\<open>AfterListen\<close>). A rejection of the command's promise
  is an entry of \<open>failures\<close>; an exception thrown out of a timer callback (the host's
  \<open>Webview is disposed\<close> at line 67) is an entry of \<open>uncaught\<close>; a thrown \<open>new URL\<close>
  is \<open>Inl TypeError\<close>. On a closed panel the target \<open>panel.webview\<close> of line 64 is
  evaluated, and throws, before the page is built. The host's
  objects are records, its identities numbers drawn from one counter \<open>fresh\<close>. Node
  delivers a timer callback as one \<open>Fire\<close> event; the clock advances by \<open>Tick\<close>.

  What the lemmas show.
  \<^item> The registry (\<open>Session\<close>): in every reachable state each entry names a live panel of
    its document whose dispose handler removes exactly that entry; reopening a previewed
    document only reveals it; the open completes and registers the document on both
    content paths. In every state where two opens of one document are suspended at
    \<open>showTextDocument\<close>, both register a live preview, and closing the first orphans the
    second (\<open>double_open_orphans_session\<close>); a listen failure leaves an
    unregistered panel; a panel closed during \<open>listen\<close> leaves the server running; the
    server is started even with \<open>allowHttp\<close> off.
  \<^item> The change streamer (\<open>Debounce\<close>, \<open>Streams\<close>): the debounced sender refines the
    trailing-edge specification \<open>quiet_sends\<close>; the timer loop's fuel suffices; for every
    delay above \<open>TIMEOUT_MAX\<close> it behaves as a 1 ms debounce. In every reachable state
    every due send reaches its open panel within as many timer turns as there are
    pending timers (\<open>fire_turns_send_all_due\<close>), each sender has at
    most one pending timer, every message a panel received is a snapshot of its own
    document, and the snapshots a panel received are in version order, none newer than
    the document (\<open>Snapshots\<close>). Closing a panel leaves its sender's timer pending,
    and when it fires \<open>sendUpdate\<close> throws \<open>Webview is disposed\<close> (\<open>post_after_dispose\<close>).
  \<^item> The resolver and the page (\<open>Resolver\<close>, \<open>Html\<close>, \<open>WebviewHtml\<close>): the message
    target is pinned to the frame's origin except in the bundled case; the escape is a
    one-pass character escape that removes every markup delimiter and that the HTML
    parser inverts; the nonce is 32 alphanumeric characters; the values interpolated
    without the escape cannot open a tag, but the frame source sits verbatim inside the
    policy's double-quoted attribute, where a double quote in an https host ends it; the
    bundled page is the file the demo server
    serves.
  \<^item> The demo server (\<open>DemoServer\<close>): the routes of the handler, and the address it
    reports parses back to the loopback origin of its port.
  \<^item> The panels (\<open>Panels\<close>): the panel the open creates has the extension's
    \<open>src/demo\<close> as its only resource root, which holds the served page. An open
    suspended at \<open>listen\<close> holds a panel no other open holds and that has no dispose
    handler yet (invariant \<open>open_inv\<close>); hence once an open has completed, no later
    events change the panel's page or dispose handler: the content source stays fixed
    for the session, whatever configuration changes follow (\<open>opened_page_fixed\<close>).

  Bounds and fuel. \<open>run_until\<close> runs as many loop turns as there are pending timers:
  every turn that runs a callback removes its timer, so that many turns leave no timer
  due (lemma \<open>run_until_no_due\<close>); in the event loop, as many \<open>Fire\<close> turns as there
  are pending timers leave no timer due (lemma \<open>fire_turns_clear\<close>), which gives the
  delivery of every due send. Ports are bounded by 65535, the bound the URL parser
  enforces. Timer delays are Node's: an integer in \<open>[1, 2^31 - 1]\<close>, anything else 1.

  Not modelled. \<open>deactivate\<close> (99--101) does nothing and is the identity. \<open>console.log\<close> (256), the panel's
  title (\<open>asRelativePath\<close>, 41), and its view column and focus options (36, 42) change
  no state of the extension and are left out; \<open>reveal\<close> is a counter on the panel. The HTTP server's sockets and the file system
  are values (the file's content at request time, what \<open>listen\<close> reports). The URL
  parser covers the special schemes' authority, IPv4 hosts and the origin, not paths,
  queries, percent-encoded hosts, IPv6 literals or internationalised domain names (such
  hosts are rejected); the page's JavaScript relay runs in the
  webview and is modelled only as the text of the page. Strings are byte strings.
\<close>

end
